theory Spec2Isabelle
  imports Complex_Main "HOL-Library.AList" "HOL-Library.List_Lexorder" "HOL-Library.Char_ord"
begin

chapter \<open>The camera engine and the event bus of the map client\<close>

text \<open>
  The development embeds two source files: \<^verbatim>\<open>src/util/evented.js\<close> (the event bus
  \<^verbatim>\<open>Evented\<close>) and \<^verbatim>\<open>src/ui/camera.js\<close> (the camera engine \<^verbatim>\<open>Camera\<close>).
  Mutation is explicit state passing, a closure is a value of a datatype together with
  the function that runs it, and the collaborators that are not among the sources (the
  Transform, the frame scheduler, the timers, the helpers of \<^verbatim>\<open>util/util\<close>) are either
  parameters or modelled from the specification, as said at each of them.
\<close>

section \<open>Numbers\<close>

text \<open>
  A JavaScript number is an IEEE double. The finite ones are taken as \<^typ>\<open>real\<close> and
  rounding is ignored. Where the source divides, or takes a logarithm or a root, of values
  that can make the result non-finite, the computation is carried out in \<open>jsnum\<close>, the
  reals extended by the two infinities and NaN with the IEEE rules for them (signed
  zeros are not distinguished). A non-finite number that the source would go on to store
  in the Transform is the outcome \<open>NonFinite\<close> of the operation: the model does not
  follow such a run further.
\<close>

datatype jsnum = Fin real | PosInf | NegInf | NaN

fun js_neg :: "jsnum \<Rightarrow> jsnum" where
  "js_neg (Fin x) = Fin (- x)"
| "js_neg PosInf = NegInf"
| "js_neg NegInf = PosInf"
| "js_neg NaN = NaN"

fun js_add :: "jsnum \<Rightarrow> jsnum \<Rightarrow> jsnum" where
  "js_add (Fin x) (Fin y) = Fin (x + y)"
| "js_add NaN b = NaN"
| "js_add a NaN = NaN"
| "js_add PosInf NegInf = NaN"
| "js_add NegInf PosInf = NaN"
| "js_add PosInf b = PosInf"
| "js_add NegInf b = NegInf"
| "js_add a PosInf = PosInf"
| "js_add a NegInf = NegInf"

definition js_sub :: "jsnum \<Rightarrow> jsnum \<Rightarrow> jsnum" where
  "js_sub a b = js_add a (js_neg b)"

definition js_sign_inf :: "bool \<Rightarrow> jsnum" where
  "js_sign_inf positive = (if positive then PosInf else NegInf)"

fun js_mul :: "jsnum \<Rightarrow> jsnum \<Rightarrow> jsnum" where
  "js_mul (Fin x) (Fin y) = Fin (x * y)"
| "js_mul NaN b = NaN"
| "js_mul a NaN = NaN"
| "js_mul (Fin x) PosInf = (if x = 0 then NaN else js_sign_inf (0 < x))"
| "js_mul (Fin x) NegInf = (if x = 0 then NaN else js_sign_inf (x < 0))"
| "js_mul PosInf (Fin y) = (if y = 0 then NaN else js_sign_inf (0 < y))"
| "js_mul NegInf (Fin y) = (if y = 0 then NaN else js_sign_inf (y < 0))"
| "js_mul PosInf PosInf = PosInf"
| "js_mul PosInf NegInf = NegInf"
| "js_mul NegInf PosInf = NegInf"
| "js_mul NegInf NegInf = PosInf"

text \<open>Division by zero is not an error in JavaScript: it gives an infinity, or NaN for 0/0.\<close>

fun js_div :: "jsnum \<Rightarrow> jsnum \<Rightarrow> jsnum" where
  "js_div (Fin x) (Fin y) =
     (if y \<noteq> 0 then Fin (x / y) else if x = 0 then NaN else js_sign_inf (0 < x))"
| "js_div NaN b = NaN"
| "js_div a NaN = NaN"
| "js_div (Fin x) PosInf = Fin 0"
| "js_div (Fin x) NegInf = Fin 0"
| "js_div PosInf (Fin y) = js_sign_inf (0 \<le> y)"
| "js_div NegInf (Fin y) = js_sign_inf (y < 0)"
| "js_div PosInf b = NaN"
| "js_div NegInf b = NaN"

fun js_abs :: "jsnum \<Rightarrow> jsnum" where
  "js_abs (Fin x) = Fin \<bar>x\<bar>"
| "js_abs PosInf = PosInf"
| "js_abs NegInf = PosInf"
| "js_abs NaN = NaN"

fun js_sqrt :: "jsnum \<Rightarrow> jsnum" where
  "js_sqrt (Fin x) = (if 0 \<le> x then Fin (sqrt x) else NaN)"
| "js_sqrt PosInf = PosInf"
| "js_sqrt NegInf = NaN"
| "js_sqrt NaN = NaN"

fun js_log :: "jsnum \<Rightarrow> jsnum" where
  "js_log (Fin x) = (if 0 < x then Fin (ln x) else if x = 0 then NegInf else NaN)"
| "js_log PosInf = PosInf"
| "js_log NegInf = NaN"
| "js_log NaN = NaN"

text \<open>Every comparison with NaN is false.\<close>

fun js_lt :: "jsnum \<Rightarrow> jsnum \<Rightarrow> bool" where
  "js_lt (Fin x) (Fin y) = (x < y)"
| "js_lt NaN b = False"
| "js_lt a NaN = False"
| "js_lt PosInf b = False"
| "js_lt a NegInf = False"
| "js_lt a PosInf = True"
| "js_lt NegInf b = True"

definition js_min :: "jsnum \<Rightarrow> jsnum \<Rightarrow> jsnum" where
  "js_min a b = (if a = NaN \<or> b = NaN then NaN else if js_lt b a then b else a)"

fun js_isFinite :: "jsnum \<Rightarrow> bool" where
  "js_isFinite (Fin x) = True"
| "js_isFinite a = False"

text \<open>
  \<^verbatim>\<open>Math.pow\<close> on finite arguments; \<open>None\<close> where the result is an infinity or NaN
  (a zero base with a negative exponent, a negative base with a fractional exponent).
\<close>

definition Math_pow :: "real \<Rightarrow> real \<Rightarrow> real option" where
  "Math_pow b e =
     (if e = 0 then Some 1
      else if 0 < b then Some (b powr e)
      else if b = 0 then (if 0 < e then Some 0 else None)
      else if e = of_int \<lfloor>e\<rfloor> then Some (power_int b \<lfloor>e\<rfloor>)
      else None)"

subsection \<open>Helpers of \<^verbatim>\<open>util/util\<close> and \<^verbatim>\<open>style-spec/util/interpolate\<close>\<close>

text \<open>
  Modelled from the spec: \<^verbatim>\<open>wrap\<close> of \<^verbatim>\<open>util/util\<close> is imported by camera.js
  but is not among the sources. The specification says that bearing normalisation
  "wraps to [-180,180)"; \<open>wrap n lo hi\<close> is the representative of \<open>n\<close> modulo
  \<open>hi - lo\<close> in the half-open interval from \<open>lo\<close> to \<open>hi\<close>.
\<close>

definition wrap :: "real \<Rightarrow> real \<Rightarrow> real \<Rightarrow> real" where
  "wrap n lo hi = (let d = hi - lo in n - d * of_int \<lfloor>(n - lo) / d\<rfloor>)"

text \<open>
  Modelled from the spec: \<^verbatim>\<open>clamp\<close> of \<^verbatim>\<open>util/util\<close> is not among the sources. The
  specification says that the zoom target of \<^verbatim>\<open>flyTo\<close> "is clamped to
  [minZoom,maxZoom]".
\<close>

definition clamp :: "real \<Rightarrow> real \<Rightarrow> real \<Rightarrow> real" where
  "clamp n lo hi = min hi (max lo n)"

text \<open>
  Modelled from the spec: \<^verbatim>\<open>interpolate\<close> (the \<^verbatim>\<open>number\<close> interpolation of the style
  specification) is not among the sources. The specification says that scalar quantities
  between start and end values at parameter \<open>k\<close> use "linear interpolation of the value".
\<close>

definition interpolate :: "real \<Rightarrow> real \<Rightarrow> real \<Rightarrow> real" where
  "interpolate a b t = a * (1 - t) + b * t"

subsection \<open>Bearing normalisation\<close>

text \<open>
  \<^verbatim>\<open>
  _normalizeBearing(bearing, currentBearing) {
      bearing = wrap(bearing, -180, 180);
      const diff = Math.abs(bearing - currentBearing);
      if (Math.abs(bearing - 360 - currentBearing) < diff) bearing -= 360;
      if (Math.abs(bearing + 360 - currentBearing) < diff) bearing += 360;
      return bearing;
  }
  \<close>
  The second test reads the variable the first one may have updated.
\<close>

definition normalizeBearing :: "real \<Rightarrow> real \<Rightarrow> real" where
  "normalizeBearing bearing currentBearing =
     (let bearing0 = wrap bearing (- 180) 180;
          diff = \<bar>bearing0 - currentBearing\<bar>;
          bearing1 = (if \<bar>bearing0 - 360 - currentBearing\<bar> < diff then bearing0 - 360 else bearing0);
          bearing2 = (if \<bar>bearing1 + 360 - currentBearing\<bar> < diff then bearing1 + 360 else bearing1)
      in bearing2)"

section \<open>The event bus (evented.js)\<close>

text \<open>
  A listener is a function; the registry compares listeners by identity
  (\<^verbatim>\<open>indexOf\<close>), so a listener is its identity here and what it does when called is
  given by the environment. An \<^verbatim>\<open>Evented\<close> instance is referred to by other
  instances (its children) and by listeners, so the instances live in a heap. The
  properties of an object are an association list from names to values.
\<close>

type_synonym listener = nat
type_synonym objref = nat
type_synonym jsval = string
type_synonym props = "(string \<times> jsval) list"
type_synonym registry = "string \<Rightarrow> listener list option"

text \<open>
  Modelled from the spec: \<^verbatim>\<open>extend\<close> of \<^verbatim>\<open>util/util\<close> is not among the sources. The
  specification says that a payload is "merged": every property of the source object
  is written into the destination, over a property of the same name.
\<close>

definition js_extend :: "props \<Rightarrow> props \<Rightarrow> props" where
  "js_extend dest src = foldl (\<lambda>d (k, v). AList.update k v d) dest src"

text \<open>
  \<^verbatim>\<open>
  export class Event {
      constructor(type: string, data: Object = {}) { extend(this, data); this.type = type; }
  }
  export class ErrorEvent extends Event {
      constructor(error: Error, data: Object = {}) { super('error', extend({error}, data)); }
  }
  \<close>
  The properties \<^verbatim>\<open>type\<close> and \<^verbatim>\<open>target\<close> are fields of their own; \<open>is_error\<close> says
  that the object is an instance of \<^verbatim>\<open>ErrorEvent\<close>.
\<close>

record event =
  etype :: string
  target :: "objref option"
  props :: props
  is_error :: bool

definition Event :: "string \<Rightarrow> props \<Rightarrow> event" where
  "Event t d = \<lparr>etype = t, target = None, props = d, is_error = False\<rparr>"


text \<open>
  The data a parent adds to a forwarded event is absent, an object, or a function that
  is called at each fire; the function is its identity and the environment gives its
  result in the heap of the moment.
\<close>

datatype parentData = NoData | Static props | Dynamic nat

record evented =
  listeners :: registry
  oneTimeListeners :: registry
  eventedParent :: "objref option"
  eventedParentData :: parentData

type_synonym heap = "objref \<Rightarrow> evented"


definition removeEventListener :: "string \<Rightarrow> listener \<Rightarrow> registry \<Rightarrow> registry" where
  "removeEventListener t l listenerList =
     (case listenerList t of
        None \<Rightarrow> listenerList
      | Some ls \<Rightarrow> if l \<in> set ls then listenerList(t \<mapsto> remove1 l ls) else listenerList)"





definition registered :: "registry \<Rightarrow> string \<Rightarrow> listener list" where
  "registered r t = (case r t of None \<Rightarrow> [] | Some ls \<Rightarrow> ls)"

text \<open>
  \<^verbatim>\<open>
  listens(type: string) {
      return (
          (this._listeners && this._listeners[type] && this._listeners[type].length > 0) ||
          (this._oneTimeListeners && this._oneTimeListeners[type] && this._oneTimeListeners[type].length > 0) ||
          (this._eventedParent && this._eventedParent.listens(type))
      );
  }
  \<close>
  The recursion follows the parent references, which \<^verbatim>\<open>setEventedParent\<close> can make
  cyclic; the first argument bounds its depth, and \<open>None\<close> is the search that did not
  come to an end within it.
\<close>

fun listens :: "nat \<Rightarrow> heap \<Rightarrow> objref \<Rightarrow> string \<Rightarrow> bool option" where
  "listens 0 h this t = None"
| "listens (Suc n) h this t =
     (if 0 < length (registered (listeners (h this)) t) then Some True
      else if 0 < length (registered (oneTimeListeners (h this)) t) then Some True
      else (case eventedParent (h this) of
              None \<Rightarrow> Some False
            | Some parent \<Rightarrow> listens n h parent t))"

text \<open>
  What the listeners and the data functions do is the environment. A listener reads the
  event and may change any instance of the heap (add and remove listeners, set parents).
  The world is the heap, the invocations made so far (which listener, with which event,
  in which heap) and what was printed with \<^verbatim>\<open>console.error\<close>.
\<close>

record env =
  body :: "listener \<Rightarrow> event \<Rightarrow> heap \<Rightarrow> heap"
  dataFn :: "nat \<Rightarrow> heap \<Rightarrow> props"

record invocation =
  who :: listener
  what :: event
  seen :: heap

record world =
  heap :: heap
  calls :: "invocation list"
  console :: "jsval option list"

definition call :: "env \<Rightarrow> listener \<Rightarrow> event \<Rightarrow> world \<Rightarrow> world" where
  "call E l ev w =
     w\<lparr>heap := body E l ev (heap w),
       calls := calls w @ [\<lparr>who = l, what = ev, seen = heap w\<rparr>]\<rparr>"

text \<open>
  \<^verbatim>\<open>
  fire(event: Event) {
      if (typeof event === 'string') { event = new Event(event, arguments[1] || {}); }
      const type = event.type;
      if (this.listens(type)) {
          (event: any).target = this;
          const listeners = this._listeners && this._listeners[type] ?
              this._listeners[type].slice() : [];
          for (const listener of listeners) { listener.call(this, event); }
          const oneTimeListeners = this._oneTimeListeners && this._oneTimeListeners[type] ?
              this._oneTimeListeners[type].slice() : [];
          for (const listener of oneTimeListeners) {
              _removeEventListener(type, listener, this._oneTimeListeners);
              listener.call(this, event);
          }
          const parent = this._eventedParent;
          if (parent) {
              extend(event, typeof this._eventedParentData === 'function' ?
                  this._eventedParentData() : this._eventedParentData);
              parent.fire(event);
          }
      } else if (event instanceof ErrorEvent) {
          console.error(event.error);
      }
      return this;
  }
  \<close>
  \<open>callListeners\<close> and \<open>callOneTime\<close> are the two loops, each over the copy of the
  array (\<^verbatim>\<open>slice\<close>) taken before it; \<open>dispatch\<close> is the part of \<^verbatim>\<open>fire\<close> before the
  parent. \<open>fire\<close> has the depth bound of \<open>listens\<close>.
\<close>

definition callListeners :: "env \<Rightarrow> event \<Rightarrow> listener list \<Rightarrow> world \<Rightarrow> world" where
  "callListeners E ev ls w = foldl (\<lambda>w l. call E l ev w) w ls"

definition unlist :: "objref \<Rightarrow> string \<Rightarrow> listener \<Rightarrow> world \<Rightarrow> world" where
  "unlist this t l w =
     w\<lparr>heap := (heap w)(this := (heap w this)
         \<lparr>oneTimeListeners := removeEventListener t l (oneTimeListeners (heap w this))\<rparr>)\<rparr>"

definition callOneTime :: "env \<Rightarrow> objref \<Rightarrow> string \<Rightarrow> event \<Rightarrow> listener list \<Rightarrow> world \<Rightarrow> world" where
  "callOneTime E this t ev ls w = foldl (\<lambda>w l. call E l ev (unlist this t l w)) w ls"

definition parentDataOf :: "env \<Rightarrow> heap \<Rightarrow> parentData \<Rightarrow> props" where
  "parentDataOf E h d = (case d of NoData \<Rightarrow> [] | Static p \<Rightarrow> p | Dynamic f \<Rightarrow> dataFn E f h)"

definition dispatch :: "env \<Rightarrow> objref \<Rightarrow> event \<Rightarrow> world \<Rightarrow> world" where
  "dispatch E this ev w =
     (let t = etype ev;
          ev1 = ev\<lparr>target := Some this\<rparr>;
          w1 = callListeners E ev1 (registered (listeners (heap w this)) t) w;
          w2 = callOneTime E this t ev1 (registered (oneTimeListeners (heap w1 this)) t) w1
      in w2)"

fun fire :: "nat \<Rightarrow> env \<Rightarrow> objref \<Rightarrow> event \<Rightarrow> world \<Rightarrow> world option" where
  "fire 0 E this ev w = None"
| "fire (Suc n) E this ev w =
     (case listens n (heap w) this (etype ev) of
        None \<Rightarrow> None
      | Some True \<Rightarrow>
          (let w2 = dispatch E this ev w
           in case eventedParent (heap w2 this) of
                None \<Rightarrow> Some w2
              | Some parent \<Rightarrow>
                  fire n E parent
                    ((ev\<lparr>target := Some this\<rparr>)
                       \<lparr>props := js_extend (props ev)
                                  (parentDataOf E (heap w2) (eventedParentData (heap w2 this)))\<rparr>)
                    w2)
      | Some False \<Rightarrow>
          (if is_error ev then Some (w\<lparr>console := console w @ [map_of (props ev) ''error'']\<rparr>)
           else Some w))"

definition fireString :: "nat \<Rightarrow> env \<Rightarrow> objref \<Rightarrow> string \<Rightarrow> props \<Rightarrow> world \<Rightarrow> world option" where
  "fireString n E this t d w = fire n E this (Event t d) w"

section \<open>The camera (camera.js)\<close>

subsection \<open>Points, coordinates and the Transform\<close>

text \<open>
  \<^verbatim>\<open>Point\<close> is the class of the package \<^verbatim>\<open>@mapbox/point-geometry\<close>, and
  \<^verbatim>\<open>LngLat\<close> and \<^verbatim>\<open>LngLatBounds\<close> are the classes of \<^verbatim>\<open>geo/lng_lat\<close> and
  \<^verbatim>\<open>geo/lng_lat_bounds\<close>; camera.js imports them, and the functions below are the
  methods of theirs that it calls. A \<^verbatim>\<open>LngLatLike\<close> or \<^verbatim>\<open>PointLike\<close> argument is
  taken after its conversion (\<^verbatim>\<open>LngLat.convert\<close>, \<^verbatim>\<open>Point.convert\<close>).
\<close>

datatype lnglat = LngLat (lng: real) (lat: real)

datatype point = Point (px: real) (py: real)

definition padd :: "point \<Rightarrow> point \<Rightarrow> point" where
  "padd p q = Point (px p + px q) (py p + py q)"

definition psub :: "point \<Rightarrow> point \<Rightarrow> point" where
  "psub p q = Point (px p - px q) (py p - py q)"

definition pmult :: "point \<Rightarrow> real \<Rightarrow> point" where
  "pmult p k = Point (px p * k) (py p * k)"

definition pdiv :: "point \<Rightarrow> real \<Rightarrow> point" where
  "pdiv p k = Point (px p / k) (py p / k)"

definition pmag :: "point \<Rightarrow> real" where
  "pmag p = sqrt (px p * px p + py p * py p)"

definition lnglat_wrap :: "lnglat \<Rightarrow> lnglat" where
  "lnglat_wrap c = LngLat (wrap (lng c) (- 180) 180) (lat c)"

datatype bounds = LngLatBounds (sw: lnglat) (ne: lnglat)

definition getNorthWest :: "bounds \<Rightarrow> lnglat" where
  "getNorthWest b = LngLat (lng (sw b)) (lat (ne b))"

definition getSouthEast :: "bounds \<Rightarrow> lnglat" where
  "getSouthEast b = LngLat (lng (ne b)) (lat (sw b))"

text \<open>
  Modelled from the spec: the class \<^verbatim>\<open>Transform\<close> of \<^verbatim>\<open>geo/transform\<close> is not among
  the sources. The specification describes it as the "mutable record of \<^verbatim>\<open>center\<close>
  (geographic coordinate), \<^verbatim>\<open>zoom\<close> (scalar, clamped to \<^verbatim>\<open>[minZoom,maxZoom]\<close>),
  \<^verbatim>\<open>bearing\<close> (degrees, compass-relative), \<^verbatim>\<open>pitch\<close> (degrees)" that the camera
  writes, with readable \<^verbatim>\<open>minZoom, maxZoom, width, height\<close>. So an assignment to
  \<^verbatim>\<open>tr.zoom\<close> is \<open>assignZoom\<close>, which stores the value clamped to the bounds, and the
  other fields hold the value assigned to them. Its projection operations are
  parameters (\<open>collaborators\<close>): nothing is assumed of them except where a theorem
  says so. \<open>setLocationAtPoint\<close> "solves center such that geo renders exactly at
  screenPoint": it gives the new centre. \<open>defaultEasing\<close> is the function \<^verbatim>\<open>ease\<close> of
  \<^verbatim>\<open>util/util\<close>.
\<close>

record transform =
  center :: lnglat
  zoom :: real
  bearing :: real
  pitch :: real
  minZoom :: real
  maxZoom :: real
  width :: real
  height :: real
  renderWorldCopies :: bool
  lngRange :: "(real \<times> real) option"

definition assignZoom :: "real \<Rightarrow> transform \<Rightarrow> transform" where
  "assignZoom z tr = tr\<lparr>zoom := clamp z (minZoom tr) (maxZoom tr)\<rparr>"

record collaborators =
  project :: "transform \<Rightarrow> lnglat \<Rightarrow> point"
  unproject :: "transform \<Rightarrow> point \<Rightarrow> lnglat"
  pointLocation :: "transform \<Rightarrow> point \<Rightarrow> lnglat"
  locationPoint :: "transform \<Rightarrow> lnglat \<Rightarrow> point"
  setLocationAtPoint :: "transform \<Rightarrow> lnglat \<Rightarrow> point \<Rightarrow> lnglat"
  centerPoint :: "transform \<Rightarrow> point"
  scale :: "transform \<Rightarrow> real"
  zoomScale :: "real \<Rightarrow> real"
  scaleZoom :: "real \<Rightarrow> real"
  defaultEasing :: "real \<Rightarrow> real"

subsection \<open>Options\<close>

text \<open>
  The options object of the camera methods: \<^verbatim>\<open>CameraOptions\<close>,
  \<^verbatim>\<open>AnimationOptions\<close> and the further properties that \<^verbatim>\<open>easeTo\<close>, \<^verbatim>\<open>flyTo\<close>,
  \<^verbatim>\<open>cameraForBounds\<close> and \<^verbatim>\<open>fitBounds\<close> read. A property that is absent is
  \<open>None\<close>, so \<^verbatim>\<open>'zoom' in options\<close> is \<open>opt_zoom options \<noteq> None\<close>.
  \<^verbatim>\<open>extend(dest, src)\<close> on such objects is \<open>extendOptions dest src\<close>: the properties
  of \<open>src\<close> that are present replace those of \<open>dest\<close>.
\<close>

datatype padding = PadNumber real | PadObject "(string \<times> real) list"

record options =
  opt_center :: "lnglat option"
  opt_zoom :: "real option"
  opt_bearing :: "real option"
  opt_pitch :: "real option"
  opt_around :: "lnglat option"
  opt_duration :: "real option"
  opt_easing :: "(real \<Rightarrow> real) option"
  opt_offset :: "point option"
  opt_animate :: "bool option"
  opt_delayEndEvents :: "real option"
  opt_noMoveStart :: "bool option"
  opt_curve :: "real option"
  opt_minZoom :: "real option"
  opt_speed :: "real option"
  opt_screenSpeed :: "real option"
  opt_maxDuration :: "real option"
  opt_padding :: "padding option"
  opt_maxZoom :: "real option"
  opt_linear :: "bool option"

definition noOptions :: options where
  "noOptions = \<lparr>opt_center = None, opt_zoom = None, opt_bearing = None, opt_pitch = None,
     opt_around = None, opt_duration = None, opt_easing = None, opt_offset = None,
     opt_animate = None, opt_delayEndEvents = None, opt_noMoveStart = None, opt_curve = None,
     opt_minZoom = None, opt_speed = None, opt_screenSpeed = None, opt_maxDuration = None,
     opt_padding = None, opt_maxZoom = None, opt_linear = None\<rparr>"

definition orElse :: "'a option \<Rightarrow> 'a option \<Rightarrow> 'a option" where
  "orElse src dest = (case src of None \<Rightarrow> dest | Some v \<Rightarrow> Some v)"

definition extendOptions :: "options \<Rightarrow> options \<Rightarrow> options" where
  "extendOptions dest src =
     \<lparr>opt_center = orElse (opt_center src) (opt_center dest),
      opt_zoom = orElse (opt_zoom src) (opt_zoom dest),
      opt_bearing = orElse (opt_bearing src) (opt_bearing dest),
      opt_pitch = orElse (opt_pitch src) (opt_pitch dest),
      opt_around = orElse (opt_around src) (opt_around dest),
      opt_duration = orElse (opt_duration src) (opt_duration dest),
      opt_easing = orElse (opt_easing src) (opt_easing dest),
      opt_offset = orElse (opt_offset src) (opt_offset dest),
      opt_animate = orElse (opt_animate src) (opt_animate dest),
      opt_delayEndEvents = orElse (opt_delayEndEvents src) (opt_delayEndEvents dest),
      opt_noMoveStart = orElse (opt_noMoveStart src) (opt_noMoveStart dest),
      opt_curve = orElse (opt_curve src) (opt_curve dest),
      opt_minZoom = orElse (opt_minZoom src) (opt_minZoom dest),
      opt_speed = orElse (opt_speed src) (opt_speed dest),
      opt_screenSpeed = orElse (opt_screenSpeed src) (opt_screenSpeed dest),
      opt_maxDuration = orElse (opt_maxDuration src) (opt_maxDuration dest),
      opt_padding = orElse (opt_padding src) (opt_padding dest),
      opt_maxZoom = orElse (opt_maxZoom src) (opt_maxZoom dest),
      opt_linear = orElse (opt_linear src) (opt_linear dest)\<rparr>"

text \<open>A number used as a condition is true unless it is absent or zero.\<close>

definition truthy :: "real option \<Rightarrow> bool" where
  "truthy v = (case v of None \<Rightarrow> False | Some x \<Rightarrow> x \<noteq> 0)"

subsection \<open>State\<close>

text \<open>
  The closures that \<^verbatim>\<open>easeTo\<close> and \<^verbatim>\<open>flyTo\<close> hand to \<^verbatim>\<open>_ease\<close> are values:
  a \<open>frame\<close> holds what the per-frame closure has captured and a \<open>finish\<close> what the
  completion closure has captured (the event data and, for \<^verbatim>\<open>easeTo\<close>, the option
  \<^verbatim>\<open>delayEndEvents\<close>); \<open>frameTransform\<close>, \<open>applyFrame\<close> and \<open>runFinish\<close> run them.
  The flight path of \<^verbatim>\<open>flyTo\<close> is the pair of functions \<^verbatim>\<open>w\<close> and \<^verbatim>\<open>u\<close>, in one
  of the two forms the source gives them.
\<close>

datatype fault = NonFinite | TypeError

datatype finish = EaseFinish props "real option" | FlyFinish props

datatype path = VanWijk real real real real real | ZoomOnly real real

text \<open>
  \<^verbatim>\<open>
  function sinh(n) { return (Math.exp(n) - Math.exp(-n)) / 2; }
  function cosh(n) { return (Math.exp(n) + Math.exp(-n)) / 2; }
  function tanh(n) { return sinh(n) / cosh(n); }
  let w = function (s) { return (cosh(r0) / cosh(r0 + rho * s)); };
  let u = function (s) { return w0 * ((cosh(r0) * tanh(r0 + rho * s) - sinh(r0)) / rho2) / u1; };
  ...
      u = function() { return 0; };
      w = function(s) { return Math.exp(k * rho * s); };
  \<close>
  \<open>VanWijk r0 rho rho2 w0 u1\<close> is the first pair and \<open>ZoomOnly k rho\<close> the second.
\<close>

definition fly_sinh :: "real \<Rightarrow> real" where
  "fly_sinh n = (exp n - exp (- n)) / 2"

definition fly_cosh :: "real \<Rightarrow> real" where
  "fly_cosh n = (exp n + exp (- n)) / 2"

definition fly_tanh :: "real \<Rightarrow> real" where
  "fly_tanh n = fly_sinh n / fly_cosh n"

fun path_w :: "path \<Rightarrow> real \<Rightarrow> real" where
  "path_w (VanWijk r0 rho rho2 w0 u1) s = fly_cosh r0 / fly_cosh (r0 + rho * s)"
| "path_w (ZoomOnly k rho) s = exp (k * rho * s)"

fun path_u :: "path \<Rightarrow> real \<Rightarrow> jsnum" where
  "path_u (VanWijk r0 rho rho2 w0 u1) s =
     js_div (js_mul (Fin w0)
               (js_div (Fin (fly_cosh r0 * fly_tanh (r0 + rho * s) - fly_sinh r0)) (Fin rho2)))
       (Fin u1)"
| "path_u (ZoomOnly k rho) s = Fin 0"

definition path_rho :: "path \<Rightarrow> real" where
  "path_rho pa = (case pa of VanWijk r0 rho rho2 w0 u1 \<Rightarrow> rho | ZoomOnly k rho \<Rightarrow> rho)"

record easeFrame =
  ef_around :: "(lnglat \<times> point) option"
  ef_startZoom :: real
  ef_zoom :: real
  ef_startBearing :: real
  ef_bearing :: real
  ef_startPitch :: real
  ef_pitch :: real
  ef_from :: point
  ef_delta :: point
  ef_finalScale :: real
  ef_pointAtOffset :: point
  ef_eventData :: props

record flyFrame =
  ff_S :: real
  ff_path :: path
  ff_startZoom :: real
  ff_zoom :: real
  ff_startBearing :: real
  ff_bearing :: real
  ff_startPitch :: real
  ff_pitch :: real
  ff_from :: point
  ff_delta :: point
  ff_pointAtOffset :: point
  ff_eventData :: props

datatype frame = EaseFrame easeFrame | FlyFrame flyFrame

record easeOptions =
  eo_duration :: real
  eo_easing :: "real \<Rightarrow> real"

text \<open>
  The fields of the class \<^verbatim>\<open>Camera\<close>, and with them what the camera's environment
  holds on its behalf: the render frames requested and not yet run or cancelled, the
  timeouts set and not yet run or cleared (with the event data of the delayed
  \<^verbatim>\<open>_afterEase\<close>), the warnings given to \<^verbatim>\<open>warnOnce\<close>, and the events given to
  \<^verbatim>\<open>fire\<close>, in order.
\<close>

record camera =
  transform :: transform
  moving :: bool
  zooming :: bool
  rotating :: bool
  pitching :: bool
  bearingSnap :: real
  easeEndTimeoutID :: "nat option"
  easeStart :: real
  easeOpts :: "easeOptions option"
  onEaseFrame :: "frame option"
  onEaseEnd :: "finish option"
  easeFrameId :: "nat option"
  renderFrames :: "nat list"
  lastFrame :: nat
  timeouts :: "(nat \<times> real \<times> props) list"
  lastTimeout :: nat
  warnings :: "string list"
  fired :: "event list"

subsection \<open>The environment of the camera\<close>

text \<open>
  \<^verbatim>\<open>Camera\<close> extends \<^verbatim>\<open>Evented\<close>. What the listeners of the camera do when an
  event is fired is the parameter \<open>react\<close> of every operation: any function from the
  event and the state of the camera to a state of the camera, so that a listener may
  call the camera back. \<open>quiet\<close> is the reaction of listeners that leave the camera as
  it is (and of no listener at all).
\<close>

type_synonym reaction = "event \<Rightarrow> camera \<Rightarrow> camera"

definition quiet :: reaction where
  "quiet ev s = s"

definition camera_fire :: "reaction \<Rightarrow> event \<Rightarrow> camera \<Rightarrow> camera" where
  "camera_fire react ev s = react ev (s\<lparr>fired := fired s @ [ev]\<rparr>)"

text \<open>
  Modelled from the spec: \<^verbatim>\<open>_requestRenderFrame\<close> and \<^verbatim>\<open>_cancelRenderFrame\<close> are
  declared in \<^verbatim>\<open>Camera\<close> and implemented outside the sources. The specification
  gives the frame scheduler as "requestRenderFrame(cb) -> opaque handle,
  cancelRenderFrame(handle)"; a handle is a fresh positive number. \<^verbatim>\<open>setTimeout\<close>
  and \<^verbatim>\<open>clearTimeout\<close> are those of the browser, and \<open>runTimeout\<close> is the browser
  running a timeout that is due: the closure \<^verbatim>\<open>() => this._afterEase(eventData)\<close>.
  \<^verbatim>\<open>warnOnce\<close> of \<^verbatim>\<open>util/util\<close> is recorded by the message it is given.
\<close>

definition requestRenderFrame :: "camera \<Rightarrow> nat \<times> camera" where
  "requestRenderFrame s =
     (let fid = Suc (lastFrame s)
      in (fid, s\<lparr>lastFrame := fid, renderFrames := renderFrames s @ [fid]\<rparr>))"

definition cancelRenderFrame :: "nat \<Rightarrow> camera \<Rightarrow> camera" where
  "cancelRenderFrame fid s = s\<lparr>renderFrames := removeAll fid (renderFrames s)\<rparr>"

definition setTimeout :: "props \<Rightarrow> real \<Rightarrow> camera \<Rightarrow> nat \<times> camera" where
  "setTimeout eventData delay s =
     (let tid = Suc (lastTimeout s)
      in (tid, s\<lparr>lastTimeout := tid, timeouts := timeouts s @ [(tid, delay, eventData)]\<rparr>))"

definition clearTimeout :: "nat option \<Rightarrow> camera \<Rightarrow> camera" where
  "clearTimeout tid s =
     (case tid of
        None \<Rightarrow> s
      | Some i \<Rightarrow> s\<lparr>timeouts := filter (\<lambda>(j, d, e). j \<noteq> i) (timeouts s)\<rparr>)"

definition warnOnce :: "string \<Rightarrow> camera \<Rightarrow> camera" where
  "warnOnce message s = s\<lparr>warnings := warnings s @ [message]\<rparr>"

subsection \<open>Getters\<close>

definition getCenter :: "camera \<Rightarrow> lnglat" where
  "getCenter s = center (transform s)"

definition getZoom :: "camera \<Rightarrow> real" where
  "getZoom s = zoom (transform s)"

definition getBearing :: "camera \<Rightarrow> real" where
  "getBearing s = bearing (transform s)"

definition getPitch :: "camera \<Rightarrow> real" where
  "getPitch s = pitch (transform s)"

text \<open>\<^verbatim>\<open>isEasing() { return !!this._easeFrameId; }\<close>\<close>

definition isEasing :: "camera \<Rightarrow> bool" where
  "isEasing s = (case easeFrameId s of None \<Rightarrow> False | Some fid \<Rightarrow> fid \<noteq> 0)"

subsection \<open>The events of an ease\<close>

text \<open>
  \<^verbatim>\<open>
  _prepareEase(eventData?: Object, noMoveStart: boolean) {
      this._moving = true;
      if (!noMoveStart) { this.fire(new Event('movestart', eventData)); }
      if (this._zooming) { this.fire(new Event('zoomstart', eventData)); }
      if (this._rotating) { this.fire(new Event('rotatestart', eventData)); }
      if (this._pitching) { this.fire(new Event('pitchstart', eventData)); }
  }
  _fireMoveEvents(eventData?: Object) {
      this.fire(new Event('move', eventData));
      if (this._zooming) { this.fire(new Event('zoom', eventData)); }
      if (this._rotating) { this.fire(new Event('rotate', eventData)); }
      if (this._pitching) { this.fire(new Event('pitch', eventData)); }
  }
  _afterEase(eventData?: Object) {
      const wasZooming = this._zooming;
      const wasRotating = this._rotating;
      const wasPitching = this._pitching;
      this._moving = false;
      this._zooming = false;
      this._rotating = false;
      this._pitching = false;
      if (wasZooming) { this.fire(new Event('zoomend', eventData)); }
      if (wasRotating) { this.fire(new Event('rotateend', eventData)); }
      if (wasPitching) { this.fire(new Event('pitchend', eventData)); }
      this.fire(new Event('moveend', eventData));
  }
  \<close>
\<close>

definition prepareEase :: "reaction \<Rightarrow> props \<Rightarrow> bool \<Rightarrow> camera \<Rightarrow> camera" where
  "prepareEase react eventData noMoveStart s =
     (let s1 = s\<lparr>moving := True\<rparr>;
          s2 = (if \<not> noMoveStart then camera_fire react (Event ''movestart'' eventData) s1 else s1);
          s3 = (if zooming s2 then camera_fire react (Event ''zoomstart'' eventData) s2 else s2);
          s4 = (if rotating s3 then camera_fire react (Event ''rotatestart'' eventData) s3 else s3);
          s5 = (if pitching s4 then camera_fire react (Event ''pitchstart'' eventData) s4 else s4)
      in s5)"

definition fireMoveEvents :: "reaction \<Rightarrow> props \<Rightarrow> camera \<Rightarrow> camera" where
  "fireMoveEvents react eventData s =
     (let s1 = camera_fire react (Event ''move'' eventData) s;
          s2 = (if zooming s1 then camera_fire react (Event ''zoom'' eventData) s1 else s1);
          s3 = (if rotating s2 then camera_fire react (Event ''rotate'' eventData) s2 else s2);
          s4 = (if pitching s3 then camera_fire react (Event ''pitch'' eventData) s3 else s3)
      in s4)"

definition afterEase :: "reaction \<Rightarrow> props \<Rightarrow> camera \<Rightarrow> camera" where
  "afterEase react eventData s =
     (let wasZooming = zooming s;
          wasRotating = rotating s;
          wasPitching = pitching s;
          s1 = s\<lparr>moving := False, zooming := False, rotating := False, pitching := False\<rparr>;
          s2 = (if wasZooming then camera_fire react (Event ''zoomend'' eventData) s1 else s1);
          s3 = (if wasRotating then camera_fire react (Event ''rotateend'' eventData) s2 else s2);
          s4 = (if wasPitching then camera_fire react (Event ''pitchend'' eventData) s3 else s3)
      in camera_fire react (Event ''moveend'' eventData) s4)"

text \<open>
  The completion closures: of \<^verbatim>\<open>easeTo\<close>,
  \<^verbatim>\<open>
  () => {
      if (options.delayEndEvents) {
          this._easeEndTimeoutID = setTimeout(() => this._afterEase(eventData), options.delayEndEvents);
      } else {
          this._afterEase(eventData);
      }
  }
  \<close>
  and of \<^verbatim>\<open>flyTo\<close>, \<^verbatim>\<open>() => this._afterEase(eventData)\<close>.
\<close>

fun runFinish :: "reaction \<Rightarrow> finish \<Rightarrow> camera \<Rightarrow> camera" where
  "runFinish react (EaseFinish eventData delayEndEvents) s =
     (if truthy delayEndEvents
      then (let (tid, s1) = setTimeout eventData (the delayEndEvents) s
            in s1\<lparr>easeEndTimeoutID := Some tid\<rparr>)
      else afterEase react eventData s)"
| "runFinish react (FlyFinish eventData) s = afterEase react eventData s"

definition runTimeout :: "reaction \<Rightarrow> nat \<Rightarrow> camera \<Rightarrow> camera" where
  "runTimeout react tid s =
     (case filter (\<lambda>(j, d, e). j = tid) (timeouts s) of
        [] \<Rightarrow> s
      | (j, d, eventData) # rest \<Rightarrow>
          afterEase react eventData (s\<lparr>timeouts := filter (\<lambda>(j, d, e). j \<noteq> tid) (timeouts s)\<rparr>))"

subsection \<open>\<^verbatim>\<open>stop\<close> and \<^verbatim>\<open>jumpTo\<close>\<close>

text \<open>
  \<^verbatim>\<open>
  stop(): this {
      if (this._easeFrameId) {
          this._cancelRenderFrame(this._easeFrameId);
          delete this._easeFrameId;
          delete this._onEaseFrame;
      }
      if (this._onEaseEnd) {
          // The _onEaseEnd function might emit events which trigger new
          // animation, which sets a new _onEaseEnd. Ensure we don't delete
          // it unintentionally.
          const onEaseEnd = this._onEaseEnd;
          delete this._onEaseEnd;
          onEaseEnd.call(this);
      }
      return this;
  }
  \<close>
\<close>

definition stop :: "reaction \<Rightarrow> camera \<Rightarrow> camera" where
  "stop react s =
     (let s1 = (if isEasing s
                then (cancelRenderFrame (the (easeFrameId s)) s)
                       \<lparr>easeFrameId := None, onEaseFrame := None\<rparr>
                else s)
      in case onEaseEnd s1 of
           None \<Rightarrow> s1
         | Some onEaseEnd' \<Rightarrow> runFinish react onEaseEnd' (s1\<lparr>onEaseEnd := None\<rparr>))"

text \<open>
  \<^verbatim>\<open>
  jumpTo(options: CameraOptions, eventData?: Object) {
      this.stop();
      const tr = this.transform;
      let zoomChanged = false, bearingChanged = false, pitchChanged = false;
      if ('zoom' in options && tr.zoom !== +options.zoom) {
          zoomChanged = true;
          tr.zoom = +options.zoom;
      }
      if (options.center !== undefined) { tr.center = LngLat.convert(options.center); }
      if ('bearing' in options && tr.bearing !== +options.bearing) {
          bearingChanged = true;
          tr.bearing = +options.bearing;
      }
      if ('pitch' in options && tr.pitch !== +options.pitch) {
          pitchChanged = true;
          tr.pitch = +options.pitch;
      }
      this.fire(new Event('movestart', eventData)).fire(new Event('move', eventData));
      if (zoomChanged) {
          this.fire(new Event('zoomstart', eventData))
              .fire(new Event('zoom', eventData))
              .fire(new Event('zoomend', eventData));
      }
      if (bearingChanged) {
          this.fire(new Event('rotatestart', eventData))
              .fire(new Event('rotate', eventData))
              .fire(new Event('rotateend', eventData));
      }
      if (pitchChanged) {
          this.fire(new Event('pitchstart', eventData))
              .fire(new Event('pitch', eventData))
              .fire(new Event('pitchend', eventData));
      }
      return this.fire(new Event('moveend', eventData));
  }
  \<close>
\<close>

definition jumpTo :: "reaction \<Rightarrow> options \<Rightarrow> props \<Rightarrow> camera \<Rightarrow> camera" where
  "jumpTo react options eventData s =
     (let s0 = stop react s;
          tr = transform s0;
          zoomChanged = (case opt_zoom options of None \<Rightarrow> False | Some z \<Rightarrow> zoom tr \<noteq> z);
          tr1 = (if zoomChanged then assignZoom (the (opt_zoom options)) tr else tr);
          tr2 = (case opt_center options of None \<Rightarrow> tr1 | Some c \<Rightarrow> tr1\<lparr>center := c\<rparr>);
          bearingChanged = (case opt_bearing options of None \<Rightarrow> False | Some b \<Rightarrow> bearing tr2 \<noteq> b);
          tr3 = (if bearingChanged then tr2\<lparr>bearing := the (opt_bearing options)\<rparr> else tr2);
          pitchChanged = (case opt_pitch options of None \<Rightarrow> False | Some p \<Rightarrow> pitch tr3 \<noteq> p);
          tr4 = (if pitchChanged then tr3\<lparr>pitch := the (opt_pitch options)\<rparr> else tr3);
          s1 = s0\<lparr>transform := tr4\<rparr>;
          s2 = camera_fire react (Event ''move'' eventData)
                 (camera_fire react (Event ''movestart'' eventData) s1);
          s3 = (if zoomChanged
                then camera_fire react (Event ''zoomend'' eventData)
                       (camera_fire react (Event ''zoom'' eventData)
                          (camera_fire react (Event ''zoomstart'' eventData) s2))
                else s2);
          s4 = (if bearingChanged
                then camera_fire react (Event ''rotateend'' eventData)
                       (camera_fire react (Event ''rotate'' eventData)
                          (camera_fire react (Event ''rotatestart'' eventData) s3))
                else s3);
          s5 = (if pitchChanged
                then camera_fire react (Event ''pitchend'' eventData)
                       (camera_fire react (Event ''pitch'' eventData)
                          (camera_fire react (Event ''pitchstart'' eventData) s4))
                else s4)
      in camera_fire react (Event ''moveend'' eventData) s5)"

subsection \<open>\<^verbatim>\<open>easeTo\<close>, \<^verbatim>\<open>_ease\<close> and the frame callback\<close>

text \<open>
  \<^verbatim>\<open>
  _normalizeCenter(center: LngLat) {
      const tr = this.transform;
      if (!tr.renderWorldCopies || tr.lngRange) return;
      const delta = center.lng - tr.center.lng;
      center.lng += delta > 180 ? -360 : delta < -180 ? 360 : 0;
  }
  \<close>
\<close>

definition normalizeCenter :: "transform \<Rightarrow> lnglat \<Rightarrow> lnglat" where
  "normalizeCenter tr c =
     (if \<not> renderWorldCopies tr \<or> lngRange tr \<noteq> None then c
      else (let delta = lng c - lng (center tr)
            in LngLat (lng c + (if 180 < delta then - 360 else if delta < - 180 then 360 else 0))
                 (lat c)))"

definition easeToDefaults :: "collaborators \<Rightarrow> options" where
  "easeToDefaults X =
     noOptions\<lparr>opt_offset := Some (Point 0 0), opt_duration := Some 500,
               opt_easing := Some (defaultEasing X)\<rparr>"

text \<open>
  The per-frame closure of \<^verbatim>\<open>easeTo\<close>:
  \<^verbatim>\<open>
  (k) => {
      if (this._zooming) { tr.zoom = interpolate(startZoom, zoom, k); }
      if (this._rotating) { tr.bearing = interpolate(startBearing, bearing, k); }
      if (this._pitching) { tr.pitch = interpolate(startPitch, pitch, k); }
      if (around) {
          tr.setLocationAtPoint(around, aroundPoint);
      } else {
          const scale = tr.zoomScale(tr.zoom - startZoom);
          const base = zoom > startZoom ? Math.min(2, finalScale) : Math.max(0.5, finalScale);
          const speedup = Math.pow(base, 1 - k);
          const newCenter = tr.unproject(from.add(delta.mult(k * speedup)).mult(scale));
          tr.setLocationAtPoint(tr.renderWorldCopies ? newCenter.wrap() : newCenter, pointAtOffset);
      }
      this._fireMoveEvents(eventData);
  }
  \<close>
  and of \<^verbatim>\<open>flyTo\<close>:
  \<^verbatim>\<open>
  (k) => {
      const s = k * S;
      const scale = 1 / w(s);
      tr.zoom = k === 1 ? zoom : startZoom + tr.scaleZoom(scale);
      if (this._rotating) { tr.bearing = interpolate(startBearing, bearing, k); }
      if (this._pitching) { tr.pitch = interpolate(startPitch, pitch, k); }
      const newCenter = tr.unproject(from.add(delta.mult(u(s))).mult(scale));
      tr.setLocationAtPoint(tr.renderWorldCopies ? newCenter.wrap() : newCenter, pointAtOffset);
      this._fireMoveEvents(eventData);
  }
  \<close>
  Both read the flags \<^verbatim>\<open>_zooming\<close>, \<^verbatim>\<open>_rotating\<close>, \<^verbatim>\<open>_pitching\<close> of the moment.
  \<open>frameTransform\<close> is the closure up to the events and \<open>applyFrame\<close> the whole of it.
\<close>

definition moveCenter :: "collaborators \<Rightarrow> transform \<Rightarrow> lnglat \<Rightarrow> point \<Rightarrow> transform" where
  "moveCenter X tr newCenter pointAtOffset =
     tr\<lparr>center := setLocationAtPoint X tr
                     (if renderWorldCopies tr then lnglat_wrap newCenter else newCenter)
                     pointAtOffset\<rparr>"

definition turn :: "camera \<Rightarrow> real \<Rightarrow> real \<Rightarrow> real \<Rightarrow> real \<Rightarrow> real \<Rightarrow> transform \<Rightarrow> transform" where
  "turn s startBearing bearing' startPitch pitch' k tr =
     (let tr1 = (if rotating s then tr\<lparr>bearing := interpolate startBearing bearing' k\<rparr> else tr);
          tr2 = (if pitching s then tr1\<lparr>pitch := interpolate startPitch pitch' k\<rparr> else tr1)
      in tr2)"

fun frameTransform :: "collaborators \<Rightarrow> frame \<Rightarrow> real \<Rightarrow> camera \<Rightarrow> fault + transform" where
  "frameTransform X (EaseFrame f) k s =
     (let tr = transform s;
          tr1 = (if zooming s then assignZoom (interpolate (ef_startZoom f) (ef_zoom f) k) tr else tr);
          tr3 = turn s (ef_startBearing f) (ef_bearing f) (ef_startPitch f) (ef_pitch f) k tr1
      in case ef_around f of
           Some (around, aroundPoint) \<Rightarrow>
             Inr (tr3\<lparr>center := setLocationAtPoint X tr3 around aroundPoint\<rparr>)
         | None \<Rightarrow>
             (let scale' = zoomScale X (zoom tr3 - ef_startZoom f);
                  base = (if ef_startZoom f < ef_zoom f then min 2 (ef_finalScale f)
                          else max (1 / 2) (ef_finalScale f))
              in case Math_pow base (1 - k) of
                   None \<Rightarrow> Inl NonFinite
                 | Some speedup \<Rightarrow>
                     Inr (moveCenter X tr3
                            (unproject X tr3
                               (pmult (padd (ef_from f) (pmult (ef_delta f) (k * speedup))) scale'))
                            (ef_pointAtOffset f))))"
| "frameTransform X (FlyFrame f) k s =
     (let s' = k * ff_S f;
          scale' = 1 / path_w (ff_path f) s';
          tr = transform s;
          tr1 = assignZoom (if k = 1 then ff_zoom f else ff_startZoom f + scaleZoom X scale') tr;
          tr3 = turn s (ff_startBearing f) (ff_bearing f) (ff_startPitch f) (ff_pitch f) k tr1
      in case path_u (ff_path f) s' of
           Fin u \<Rightarrow>
             Inr (moveCenter X tr3
                    (unproject X tr3 (pmult (padd (ff_from f) (pmult (ff_delta f) u)) scale'))
                    (ff_pointAtOffset f))
         | _ \<Rightarrow> Inl NonFinite)"

definition frameEventData :: "frame \<Rightarrow> props" where
  "frameEventData fr = (case fr of EaseFrame f \<Rightarrow> ef_eventData f | FlyFrame f \<Rightarrow> ff_eventData f)"

definition applyFrame :: "collaborators \<Rightarrow> reaction \<Rightarrow> frame \<Rightarrow> real \<Rightarrow> camera \<Rightarrow> fault + camera" where
  "applyFrame X react fr k s =
     (case frameTransform X fr k s of
        Inl e \<Rightarrow> Inl e
      | Inr tr \<Rightarrow> Inr (fireMoveEvents react (frameEventData fr) (s\<lparr>transform := tr\<rparr>)))"

text \<open>
  \<^verbatim>\<open>
  _ease(frame, finish, options) {
      if (options.animate === false || options.duration === 0) {
          frame(1);
          finish();
      } else {
          this._easeStart = browser.now();
          this._easeOptions = options;
          this._onEaseFrame = frame;
          this._onEaseEnd = finish;
          this._easeFrameId = this._requestRenderFrame(this._renderFrameCallback);
      }
  }
  _renderFrameCallback() {
      const t = Math.min((browser.now() - this._easeStart) / this._easeOptions.duration, 1);
      this._onEaseFrame(this._easeOptions.easing(t));
      if (t < 1) {
          this._easeFrameId = this._requestRenderFrame(this._renderFrameCallback);
      } else {
          this.stop();
      }
  }
  \<close>
  The clock \<^verbatim>\<open>browser.now()\<close> is the argument \<open>now\<close>. \<open>runRenderFrame\<close> is the
  scheduler running a frame that was requested and not cancelled.
\<close>

definition ease :: "collaborators \<Rightarrow> reaction \<Rightarrow> real \<Rightarrow> frame \<Rightarrow> finish \<Rightarrow> options \<Rightarrow> camera \<Rightarrow> fault + camera" where
  "ease X react now fr finish' options s =
     (if opt_animate options = Some False \<or> opt_duration options = Some 0
      then (case applyFrame X react fr 1 s of
              Inl e \<Rightarrow> Inl e
            | Inr s1 \<Rightarrow> Inr (runFinish react finish' s1))
      else (let s1 = s\<lparr>easeStart := now,
                        easeOpts := Some \<lparr>eo_duration = the (opt_duration options),
                                         eo_easing = the (opt_easing options)\<rparr>,
                        onEaseFrame := Some fr,
                        onEaseEnd := Some finish'\<rparr>;
                (fid, s2) = requestRenderFrame s1
            in Inr (s2\<lparr>easeFrameId := Some fid\<rparr>)))"

definition renderFrameCallback :: "collaborators \<Rightarrow> reaction \<Rightarrow> real \<Rightarrow> camera \<Rightarrow> fault + camera" where
  "renderFrameCallback X react now s =
     (case (onEaseFrame s, easeOpts s) of
        (Some fr, Some eo) \<Rightarrow>
          (case js_min (js_div (Fin (now - easeStart s)) (Fin (eo_duration eo))) (Fin 1) of
             Fin t \<Rightarrow>
               (case applyFrame X react fr (eo_easing eo t) s of
                  Inl e \<Rightarrow> Inl e
                | Inr s1 \<Rightarrow>
                    (if t < 1
                     then (let (fid, s2) = requestRenderFrame s1 in Inr (s2\<lparr>easeFrameId := Some fid\<rparr>))
                     else Inr (stop react s1)))
           | _ \<Rightarrow> Inl NonFinite)
      | _ \<Rightarrow> Inl TypeError)"

definition runRenderFrame :: "collaborators \<Rightarrow> reaction \<Rightarrow> real \<Rightarrow> nat \<Rightarrow> camera \<Rightarrow> fault + camera" where
  "runRenderFrame X react now fid s =
     (if fid \<in> set (renderFrames s)
      then renderFrameCallback X react now (s\<lparr>renderFrames := removeAll fid (renderFrames s)\<rparr>)
      else Inr s)"

text \<open>
  \<^verbatim>\<open>
  easeTo(options, eventData?: Object) {
      this.stop();
      options = extend({ offset: [0, 0], duration: 500, easing: defaultEasing }, options);
      if (options.animate === false) options.duration = 0;
      const tr = this.transform,
          startZoom = this.getZoom(),
          startBearing = this.getBearing(),
          startPitch = this.getPitch(),
          zoom = 'zoom' in options ? +options.zoom : startZoom,
          bearing = 'bearing' in options ?
              this._normalizeBearing(options.bearing, startBearing) : startBearing,
          pitch = 'pitch' in options ? +options.pitch : startPitch;
      const pointAtOffset = tr.centerPoint.add(Point.convert(options.offset));
      const locationAtOffset = tr.pointLocation(pointAtOffset);
      const center = LngLat.convert(options.center || locationAtOffset);
      this._normalizeCenter(center);
      const from = tr.project(locationAtOffset);
      const delta = tr.project(center).sub(from);
      const finalScale = tr.zoomScale(zoom - startZoom);
      let around, aroundPoint;
      if (options.around) {
          around = LngLat.convert(options.around);
          aroundPoint = tr.locationPoint(around);
      }
      this._zooming = (zoom !== startZoom);
      this._rotating = (startBearing !== bearing);
      this._pitching = (pitch !== startPitch);
      this._prepareEase(eventData, options.noMoveStart);
      clearTimeout(this._easeEndTimeoutID);
      this._ease((k) => { ... }, () => { ... }, options);
      return this;
  }
  \<close>
\<close>

definition easeTo :: "collaborators \<Rightarrow> reaction \<Rightarrow> real \<Rightarrow> options \<Rightarrow> props \<Rightarrow> camera \<Rightarrow> fault + camera" where
  "easeTo X react now options0 eventData s =
     (let s0 = stop react s;
          options1 = extendOptions (easeToDefaults X) options0;
          options = (if opt_animate options1 = Some False then options1\<lparr>opt_duration := Some 0\<rparr>
                     else options1);
          tr = transform s0;
          startZoom = getZoom s0;
          startBearing = getBearing s0;
          startPitch = getPitch s0;
          zoom' = (case opt_zoom options of Some z \<Rightarrow> z | None \<Rightarrow> startZoom);
          bearing' = (case opt_bearing options of
                        Some b \<Rightarrow> normalizeBearing b startBearing
                      | None \<Rightarrow> startBearing);
          pitch' = (case opt_pitch options of Some p \<Rightarrow> p | None \<Rightarrow> startPitch);
          pointAtOffset = padd (centerPoint X tr) (the (opt_offset options));
          locationAtOffset = pointLocation X tr pointAtOffset;
          center' = normalizeCenter tr
                      (case opt_center options of Some c \<Rightarrow> c | None \<Rightarrow> locationAtOffset);
          from = project X tr locationAtOffset;
          delta = psub (project X tr center') from;
          finalScale = zoomScale X (zoom' - startZoom);
          around = (case opt_around options of
                      Some a \<Rightarrow> Some (a, locationPoint X tr a)
                    | None \<Rightarrow> None);
          s1 = s0\<lparr>zooming := (zoom' \<noteq> startZoom),
                  rotating := (startBearing \<noteq> bearing'),
                  pitching := (pitch' \<noteq> startPitch)\<rparr>;
          s2 = prepareEase react eventData (opt_noMoveStart options = Some True) s1;
          s3 = clearTimeout (easeEndTimeoutID s2) s2
      in ease X react now
           (EaseFrame \<lparr>ef_around = around, ef_startZoom = startZoom, ef_zoom = zoom',
                        ef_startBearing = startBearing, ef_bearing = bearing',
                        ef_startPitch = startPitch, ef_pitch = pitch',
                        ef_from = from, ef_delta = delta, ef_finalScale = finalScale,
                        ef_pointAtOffset = pointAtOffset, ef_eventData = eventData\<rparr>)
           (EaseFinish eventData (opt_delayEndEvents options))
           options s3)"

subsection \<open>\<^verbatim>\<open>flyTo\<close>\<close>

text \<open>
  \<^verbatim>\<open>
  flyTo(options: Object, eventData?: Object) {
      this.stop();
      options = extend({ offset: [0, 0], speed: 1.2, curve: 1.42, easing: defaultEasing }, options);
      const tr = this.transform,
          startZoom = this.getZoom(),
          startBearing = this.getBearing(),
          startPitch = this.getPitch();
      const zoom = 'zoom' in options ? clamp(+options.zoom, tr.minZoom, tr.maxZoom) : startZoom;
      const bearing = 'bearing' in options ?
          this._normalizeBearing(options.bearing, startBearing) : startBearing;
      const pitch = 'pitch' in options ? +options.pitch : startPitch;
      const scale = tr.zoomScale(zoom - startZoom);
      const pointAtOffset = tr.centerPoint.add(Point.convert(options.offset));
      const locationAtOffset = tr.pointLocation(pointAtOffset);
      const center = LngLat.convert(options.center || locationAtOffset);
      this._normalizeCenter(center);
      const from = tr.project(locationAtOffset);
      const delta = tr.project(center).sub(from);
      let rho = options.curve;
      const w0 = Math.max(tr.width, tr.height),
          w1 = w0 / scale,
          u1 = delta.mag();
      if ('minZoom' in options) {
          const minZoom = clamp(Math.min(options.minZoom, startZoom, zoom), tr.minZoom, tr.maxZoom);
          const wMax = w0 / tr.zoomScale(minZoom - startZoom);
          rho = Math.sqrt(wMax / u1 * 2);
      }
      const rho2 = rho * rho;
      function r(i) {
          const b = (w1 * w1 - w0 * w0 + (i ? -1 : 1) * rho2 * rho2 * u1 * u1) /
              (2 * (i ? w1 : w0) * rho2 * u1);
          return Math.log(Math.sqrt(b * b + 1) - b);
      }
      const r0 = r(0);
      let w = ..., u = ...;
      let S = (r(1) - r0) / rho;
      if (Math.abs(u1) < 0.000001 || !isFinite(S)) {
          if (Math.abs(w0 - w1) < 0.000001) return this.easeTo(options, eventData);
          const k = w1 < w0 ? -1 : 1;
          S = Math.abs(Math.log(w1 / w0)) / rho;
          u = function() { return 0; };
          w = function(s) { return Math.exp(k * rho * s); };
      }
      if ('duration' in options) {
          options.duration = +options.duration;
      } else {
          const V = 'screenSpeed' in options ? +options.screenSpeed / rho : +options.speed;
          options.duration = 1000 * S / V;
      }
      if (options.maxDuration && options.duration > options.maxDuration) {
          options.duration = 0;
      }
      this._zooming = true;
      this._rotating = (startBearing !== bearing);
      this._pitching = (pitch !== startPitch);
      this._prepareEase(eventData, false);
      this._ease((k) => { ... }, () => this._afterEase(eventData), options);
      return this;
  }
  \<close>
  \<open>flightPlan\<close> is the part up to \<^verbatim>\<open>S\<close>, in the extended numbers; \<open>degenerate\<close> and
  \<open>sameSpan\<close> are the two tests, \<open>flightPath\<close> the choice of \<^verbatim>\<open>w\<close>, \<^verbatim>\<open>u\<close> and
  \<^verbatim>\<open>S\<close>, and \<open>flightDuration\<close> the duration. A path or a duration that is not finite
  is the outcome \<open>NonFinite\<close>.
\<close>

definition flyToDefaults :: "collaborators \<Rightarrow> options" where
  "flyToDefaults X =
     noOptions\<lparr>opt_offset := Some (Point 0 0), opt_speed := Some (12 / 10),
               opt_curve := Some (142 / 100), opt_easing := Some (defaultEasing X)\<rparr>"

definition fly_r :: "real \<Rightarrow> jsnum \<Rightarrow> real \<Rightarrow> jsnum \<Rightarrow> bool \<Rightarrow> jsnum" where
  "fly_r w0 w1 u1 rho2 i =
     (let b = js_div
                (js_add (js_sub (js_mul w1 w1) (Fin (w0 * w0)))
                   (js_mul (js_mul (js_mul (js_mul (Fin (if i then - 1 else 1)) rho2) rho2) (Fin u1))
                      (Fin u1)))
                (js_mul (js_mul (js_mul (Fin 2) (if i then w1 else Fin w0)) rho2) (Fin u1))
      in js_log (js_sub (js_sqrt (js_add (js_mul b b) (Fin 1))) b))"

record flightPlan =
  fp_zoom :: real
  fp_bearing :: real
  fp_pitch :: real
  fp_pointAtOffset :: point
  fp_from :: point
  fp_delta :: point
  fp_w0 :: real
  fp_w1 :: jsnum
  fp_u1 :: real
  fp_rho :: jsnum
  fp_rho2 :: jsnum
  fp_r0 :: jsnum
  fp_S :: jsnum

definition flightPlan :: "collaborators \<Rightarrow> options \<Rightarrow> transform \<Rightarrow> flightPlan" where
  "flightPlan X options tr =
     (let startZoom = zoom tr;
          startBearing = bearing tr;
          startPitch = pitch tr;
          zoom' = (case opt_zoom options of
                     Some z \<Rightarrow> clamp z (minZoom tr) (maxZoom tr)
                   | None \<Rightarrow> startZoom);
          bearing' = (case opt_bearing options of
                        Some b \<Rightarrow> normalizeBearing b startBearing
                      | None \<Rightarrow> startBearing);
          pitch' = (case opt_pitch options of Some p \<Rightarrow> p | None \<Rightarrow> startPitch);
          scale' = zoomScale X (zoom' - startZoom);
          pointAtOffset = padd (centerPoint X tr) (the (opt_offset options));
          locationAtOffset = pointLocation X tr pointAtOffset;
          center' = normalizeCenter tr
                      (case opt_center options of Some c \<Rightarrow> c | None \<Rightarrow> locationAtOffset);
          from = project X tr locationAtOffset;
          delta = psub (project X tr center') from;
          w0 = max (width tr) (height tr);
          w1 = js_div (Fin w0) (Fin scale');
          u1 = pmag delta;
          rho = (case opt_minZoom options of
                   Some mz \<Rightarrow>
                     (let minZoom' = clamp (min mz (min startZoom zoom')) (minZoom tr) (maxZoom tr);
                          wMax = js_div (Fin w0) (Fin (zoomScale X (minZoom' - startZoom)))
                      in js_sqrt (js_mul (js_div wMax (Fin u1)) (Fin 2)))
                 | None \<Rightarrow> Fin (the (opt_curve options)));
          rho2 = js_mul rho rho;
          r0 = fly_r w0 w1 u1 rho2 False;
          S = js_div (js_sub (fly_r w0 w1 u1 rho2 True) r0) rho
      in \<lparr>fp_zoom = zoom', fp_bearing = bearing', fp_pitch = pitch',
          fp_pointAtOffset = pointAtOffset, fp_from = from, fp_delta = delta,
          fp_w0 = w0, fp_w1 = w1, fp_u1 = u1, fp_rho = rho, fp_rho2 = rho2, fp_r0 = r0, fp_S = S\<rparr>)"

definition degenerate :: "flightPlan \<Rightarrow> bool" where
  "degenerate p = (\<bar>fp_u1 p\<bar> < 1 / 1000000 \<or> \<not> js_isFinite (fp_S p))"

definition sameSpan :: "flightPlan \<Rightarrow> bool" where
  "sameSpan p = js_lt (js_abs (js_sub (Fin (fp_w0 p)) (fp_w1 p))) (Fin (1 / 1000000))"

definition flightPath :: "flightPlan \<Rightarrow> fault + path \<times> real" where
  "flightPath p =
     (if degenerate p
      then (let k = (if js_lt (fp_w1 p) (Fin (fp_w0 p)) then - 1 else 1);
                S = js_div (js_abs (js_log (js_div (fp_w1 p) (Fin (fp_w0 p))))) (fp_rho p)
            in case (fp_rho p, S) of
                 (Fin rho, Fin S') \<Rightarrow> Inr (ZoomOnly k rho, S')
               | _ \<Rightarrow> Inl NonFinite)
      else (case (fp_r0 p, fp_rho p, fp_rho2 p, fp_S p) of
              (Fin r0, Fin rho, Fin rho2, Fin S') \<Rightarrow>
                Inr (VanWijk r0 rho rho2 (fp_w0 p) (fp_u1 p), S')
            | _ \<Rightarrow> Inl NonFinite))"

definition flightDuration :: "options \<Rightarrow> real \<Rightarrow> real \<Rightarrow> jsnum" where
  "flightDuration options rho S =
     (let duration = (case opt_duration options of
                        Some d \<Rightarrow> Fin d
                      | None \<Rightarrow>
                          (let V = (case opt_screenSpeed options of
                                      Some v \<Rightarrow> js_div (Fin v) (Fin rho)
                                    | None \<Rightarrow> Fin (the (opt_speed options)))
                           in js_div (js_mul (Fin 1000) (Fin S)) V))
      in if truthy (opt_maxDuration options) \<and> js_lt (Fin (the (opt_maxDuration options))) duration
         then Fin 0 else duration)"

definition flyTo :: "collaborators \<Rightarrow> reaction \<Rightarrow> real \<Rightarrow> options \<Rightarrow> props \<Rightarrow> camera \<Rightarrow> fault + camera" where
  "flyTo X react now options0 eventData s =
     (let s0 = stop react s;
          options = extendOptions (flyToDefaults X) options0;
          tr = transform s0;
          startZoom = getZoom s0;
          startBearing = getBearing s0;
          startPitch = getPitch s0;
          p = flightPlan X options tr
      in if degenerate p \<and> sameSpan p then easeTo X react now options eventData s0
         else (case flightPath p of
                 Inl e \<Rightarrow> Inl e
               | Inr (pa, S) \<Rightarrow>
                   (case flightDuration options (path_rho pa) S of
                      Fin duration \<Rightarrow>
                        (let s1 = s0\<lparr>zooming := True,
                                      rotating := (startBearing \<noteq> fp_bearing p),
                                      pitching := (fp_pitch p \<noteq> startPitch)\<rparr>;
                             s2 = prepareEase react eventData False s1
                         in ease X react now
                              (FlyFrame \<lparr>ff_S = S, ff_path = pa,
                                          ff_startZoom = startZoom, ff_zoom = fp_zoom p,
                                          ff_startBearing = startBearing, ff_bearing = fp_bearing p,
                                          ff_startPitch = startPitch, ff_pitch = fp_pitch p,
                                          ff_from = fp_from p, ff_delta = fp_delta p,
                                          ff_pointAtOffset = fp_pointAtOffset p,
                                          ff_eventData = eventData\<rparr>)
                              (FlyFinish eventData)
                              (options\<lparr>opt_duration := Some duration\<rparr>) s2)
                    | _ \<Rightarrow> Inl NonFinite)))"

subsection \<open>\<^verbatim>\<open>cameraForBounds\<close> and \<^verbatim>\<open>fitBounds\<close>\<close>

text \<open>
  \<^verbatim>\<open>
  cameraForBounds(bounds: LngLatBoundsLike, options?: CameraOptions) {
      options = extend({
          padding: { top: 0, bottom: 0, right: 0, left: 0 },
          offset: [0, 0],
          maxZoom: this.transform.maxZoom
      }, options);
      if (typeof options.padding === 'number') {
          const p = options.padding;
          options.padding = { top: p, bottom: p, right: p, left: p };
      }
      if (!deepEqual(Object.keys(options.padding).sort((a, b) => {
          if (a < b) return -1;
          if (a > b) return 1;
          return 0;
      }), ["bottom", "left", "right", "top"])) {
          warnOnce("options.padding must be a positive number, or an Object with keys ...");
          return;
      }
      bounds = LngLatBounds.convert(bounds);
      const paddingOffset = [(options.padding.left - options.padding.right) / 2,
                             (options.padding.top - options.padding.bottom) / 2],
          lateralPadding = Math.min(options.padding.right, options.padding.left),
          verticalPadding = Math.min(options.padding.top, options.padding.bottom);
      options.offset = [options.offset[0] + paddingOffset[0], options.offset[1] + paddingOffset[1]];
      const offset = Point.convert(options.offset),
          tr = this.transform,
          nw = tr.project(bounds.getNorthWest()),
          se = tr.project(bounds.getSouthEast()),
          size = se.sub(nw),
          scaleX = (tr.width - lateralPadding * 2 - Math.abs(offset.x) * 2) / size.x,
          scaleY = (tr.height - verticalPadding * 2 - Math.abs(offset.y) * 2) / size.y;
      if (scaleY < 0 || scaleX < 0) {
          warnOnce('Map cannot fit within canvas with the given bounds, padding, and/or offset.');
          return;
      }
      options.center = tr.unproject(nw.add(se).div(2));
      options.zoom = Math.min(tr.scaleZoom(tr.scale * Math.min(scaleX, scaleY)), options.maxZoom);
      options.bearing = 0;
      return options;
  }
  fitBounds(bounds, options, eventData?: Object) {
      const calculatedOptions = this.cameraForBounds(bounds, options);
      // cameraForBounds warns + returns undefined if unable to fit:
      if (!calculatedOptions) return this;
      options = extend(calculatedOptions, options);
      return options.linear ? this.easeTo(options, eventData) : this.flyTo(options, eventData);
  }
  \<close>
  The first warning is written here without the quotation marks around its four key
  names. The result of \<open>cameraForBounds\<close> is the state (with the warning, if any) and
  the options returned, \<open>None\<close> for \<^verbatim>\<open>undefined\<close>. \<^verbatim>\<open>scaleZoom\<close> is applied to a
  positive finite scale only; any other is the outcome \<open>NonFinite\<close>.
\<close>

definition paddingKeys :: "string list" where
  "paddingKeys = [''bottom'', ''left'', ''right'', ''top'']"

definition paddingWarning :: string where
  "paddingWarning =
     ''options.padding must be a positive number, or an Object with keys bottom, left, right, top''"

definition fitWarning :: string where
  "fitWarning = ''Map cannot fit within canvas with the given bounds, padding, and/or offset.''"

definition cameraForBoundsDefaults :: "transform \<Rightarrow> options" where
  "cameraForBoundsDefaults tr =
     noOptions\<lparr>opt_padding := Some (PadObject [(''top'', 0), (''bottom'', 0), (''right'', 0), (''left'', 0)]),
               opt_offset := Some (Point 0 0),
               opt_maxZoom := Some (maxZoom tr)\<rparr>"

definition paddingObject :: "padding \<Rightarrow> (string \<times> real) list" where
  "paddingObject pad =
     (case pad of
        PadNumber p \<Rightarrow> [(''top'', p), (''bottom'', p), (''right'', p), (''left'', p)]
      | PadObject kvs \<Rightarrow> kvs)"

definition fitOffset :: "(string \<times> real) list \<Rightarrow> point \<Rightarrow> point" where
  "fitOffset pad offset0 =
     (let side = (\<lambda>k. the (map_of pad k));
          paddingOffset = Point ((side ''left'' - side ''right'') / 2)
                            ((side ''top'' - side ''bottom'') / 2)
      in padd offset0 paddingOffset)"

definition scaleFactors ::
  "collaborators \<Rightarrow> bounds \<Rightarrow> transform \<Rightarrow> (string \<times> real) list \<Rightarrow> point \<Rightarrow> jsnum \<times> jsnum" where
  "scaleFactors X bounds' tr pad offset =
     (let side = (\<lambda>k. the (map_of pad k));
          lateralPadding = min (side ''right'') (side ''left'');
          verticalPadding = min (side ''top'') (side ''bottom'');
          nw = project X tr (getNorthWest bounds');
          se = project X tr (getSouthEast bounds');
          size' = psub se nw;
          scaleX = js_div (Fin (width tr - lateralPadding * 2 - \<bar>px offset\<bar> * 2)) (Fin (px size'));
          scaleY = js_div (Fin (height tr - verticalPadding * 2 - \<bar>py offset\<bar> * 2)) (Fin (py size'))
      in (scaleX, scaleY))"

definition cameraForBounds ::
  "collaborators \<Rightarrow> bounds \<Rightarrow> options \<Rightarrow> camera \<Rightarrow> fault + camera \<times> options option" where
  "cameraForBounds X bounds' options0 s =
     (let options1 = extendOptions (cameraForBoundsDefaults (transform s)) options0;
          pad = paddingObject (the (opt_padding options1));
          options2 = options1\<lparr>opt_padding := Some (PadObject pad)\<rparr>
      in if sort (map fst pad) \<noteq> paddingKeys
         then Inr (warnOnce paddingWarning s, None)
         else (let offset = fitOffset pad (the (opt_offset options2));
                   tr = transform s;
                   nw = project X tr (getNorthWest bounds');
                   se = project X tr (getSouthEast bounds');
                   (scaleX, scaleY) = scaleFactors X bounds' tr pad offset
               in if js_lt scaleY (Fin 0) \<or> js_lt scaleX (Fin 0)
                  then Inr (warnOnce fitWarning s, None)
                  else (case js_mul (Fin (scale X tr)) (js_min scaleX scaleY) of
                          Fin a \<Rightarrow>
                            (if 0 < a
                             then Inr (s, Some (options2
                                    \<lparr>opt_offset := Some offset,
                                     opt_center := Some (unproject X tr (pdiv (padd nw se) 2)),
                                     opt_zoom := Some (min (scaleZoom X a) (the (opt_maxZoom options2))),
                                     opt_bearing := Some 0\<rparr>))
                             else Inl NonFinite)
                        | _ \<Rightarrow> Inl NonFinite)))"

definition fitBounds :: "collaborators \<Rightarrow> reaction \<Rightarrow> real \<Rightarrow> bounds \<Rightarrow> options \<Rightarrow> props \<Rightarrow> camera \<Rightarrow> fault + camera" where
  "fitBounds X react now bounds' options eventData s =
     (case cameraForBounds X bounds' options s of
        Inl e \<Rightarrow> Inl e
      | Inr (s1, None) \<Rightarrow> Inr s1
      | Inr (s1, Some calculatedOptions) \<Rightarrow>
          (let options' = extendOptions calculatedOptions options
           in if opt_linear options' = Some True
              then easeTo X react now options' eventData s1
              else flyTo X react now options' eventData s1))"

subsection \<open>The setters and the eases built on \<^verbatim>\<open>jumpTo\<close> and \<^verbatim>\<open>easeTo\<close>\<close>

definition setCenter :: "reaction \<Rightarrow> lnglat \<Rightarrow> props \<Rightarrow> camera \<Rightarrow> camera" where
  "setCenter react c eventData s = jumpTo react (noOptions\<lparr>opt_center := Some c\<rparr>) eventData s"

definition setZoom :: "reaction \<Rightarrow> real \<Rightarrow> props \<Rightarrow> camera \<Rightarrow> camera" where
  "setZoom react z eventData s = jumpTo react (noOptions\<lparr>opt_zoom := Some z\<rparr>) eventData s"

definition setBearing :: "reaction \<Rightarrow> real \<Rightarrow> props \<Rightarrow> camera \<Rightarrow> camera" where
  "setBearing react b eventData s = jumpTo react (noOptions\<lparr>opt_bearing := Some b\<rparr>) eventData s"

definition setPitch :: "reaction \<Rightarrow> real \<Rightarrow> props \<Rightarrow> camera \<Rightarrow> camera" where
  "setPitch react p eventData s = jumpTo react (noOptions\<lparr>opt_pitch := Some p\<rparr>) eventData s"

definition zoomTo :: "collaborators \<Rightarrow> reaction \<Rightarrow> real \<Rightarrow> real \<Rightarrow> options \<Rightarrow> props \<Rightarrow> camera \<Rightarrow> fault + camera" where
  "zoomTo X react now z options eventData s =
     easeTo X react now (extendOptions (noOptions\<lparr>opt_zoom := Some z\<rparr>) options) eventData s"

definition rotateTo :: "collaborators \<Rightarrow> reaction \<Rightarrow> real \<Rightarrow> real \<Rightarrow> options \<Rightarrow> props \<Rightarrow> camera \<Rightarrow> fault + camera" where
  "rotateTo X react now b options eventData s =
     easeTo X react now (extendOptions (noOptions\<lparr>opt_bearing := Some b\<rparr>) options) eventData s"

definition panTo :: "collaborators \<Rightarrow> reaction \<Rightarrow> real \<Rightarrow> lnglat \<Rightarrow> options \<Rightarrow> props \<Rightarrow> camera \<Rightarrow> fault + camera" where
  "panTo X react now c options eventData s =
     easeTo X react now (extendOptions (noOptions\<lparr>opt_center := Some c\<rparr>) options) eventData s"

section \<open>Notions used in the statements\<close>

subsection \<open>Event bus\<close>








subsection \<open>Camera\<close>

text \<open>
  The events of \<^verbatim>\<open>_prepareEase\<close>, \<^verbatim>\<open>_fireMoveEvents\<close> and \<^verbatim>\<open>_afterEase\<close> in a
  state, as lists; \<open>idle\<close> clears the four flags; \<open>occurrences t evs\<close> counts the events
  of type \<open>t\<close> in \<open>evs\<close>.
\<close>

definition axisEvents :: "string \<Rightarrow> props \<Rightarrow> bool \<Rightarrow> bool \<Rightarrow> bool \<Rightarrow> event list" where
  "axisEvents suffix eventData z r p =
     (if z then [Event (''zoom'' @ suffix) eventData] else [])
     @ (if r then [Event (''rotate'' @ suffix) eventData] else [])
     @ (if p then [Event (''pitch'' @ suffix) eventData] else [])"

definition startEvents :: "props \<Rightarrow> bool \<Rightarrow> camera \<Rightarrow> event list" where
  "startEvents eventData noMoveStart s =
     (if noMoveStart then [] else [Event ''movestart'' eventData])
     @ axisEvents ''start'' eventData (zooming s) (rotating s) (pitching s)"

definition moveEvents :: "props \<Rightarrow> camera \<Rightarrow> event list" where
  "moveEvents eventData s =
     Event ''move'' eventData # axisEvents [] eventData (zooming s) (rotating s) (pitching s)"

definition endEvents :: "props \<Rightarrow> camera \<Rightarrow> event list" where
  "endEvents eventData s =
     axisEvents ''end'' eventData (zooming s) (rotating s) (pitching s)
     @ [Event ''moveend'' eventData]"

definition idle :: "camera \<Rightarrow> camera" where
  "idle s = s\<lparr>moving := False, zooming := False, rotating := False, pitching := False\<rparr>"

definition occurrences :: "string \<Rightarrow> event list \<Rightarrow> nat" where
  "occurrences t evs = length (filter (\<lambda>e. etype e = t) evs)"

text \<open>
  \<open>cancelled s\<close> is the state after the first half of \<^verbatim>\<open>stop\<close> (the scheduled frame
  cancelled); a completion callback \<open>delays\<close> when it was made with a true
  \<^verbatim>\<open>delayEndEvents\<close>, and \<open>finishData\<close> is the event data it holds. In a state with
  \<open>timersFresh\<close> no timeout has a handle beyond the last one given out.
\<close>

definition cancelled :: "camera \<Rightarrow> camera" where
  "cancelled s =
     (if isEasing s
      then (cancelRenderFrame (the (easeFrameId s)) s)\<lparr>easeFrameId := None, onEaseFrame := None\<rparr>
      else s)"

definition delays :: "finish \<Rightarrow> bool" where
  "delays f = (case f of EaseFinish eventData d \<Rightarrow> truthy d | FlyFinish eventData \<Rightarrow> False)"

definition finishData :: "finish \<Rightarrow> props" where
  "finishData f = (case f of EaseFinish eventData d \<Rightarrow> eventData | FlyFinish eventData \<Rightarrow> eventData)"

text \<open>
  An example of collaborators (a flat map whose projection is the identity and whose
  scale doubles with each zoom level), a camera at rest, the camera after
  \<^verbatim>\<open>easeTo({zoom: 6})\<close> (\<open>demoInFlight\<close>) and after
  \<^verbatim>\<open>easeTo({zoom: 6, delayEndEvents: 200})\<close> (\<open>demoDelayed\<close>), and a listener that
  answers every \<^verbatim>\<open>moveend\<close> with \<^verbatim>\<open>easeTo({pitch: 30})\<close> (\<open>restart\<close>).
\<close>

definition flat :: collaborators where
  "flat = \<lparr>project = (\<lambda>tr c. Point (lng c) (lat c)),
            unproject = (\<lambda>tr p. LngLat (px p) (py p)),
            pointLocation = (\<lambda>tr p. LngLat (px p) (py p)),
            locationPoint = (\<lambda>tr c. Point (lng c) (lat c)),
            setLocationAtPoint = (\<lambda>tr c p. LngLat (lng c - px p + lng (center tr)) (lat c - py p + lat (center tr))),
            centerPoint = (\<lambda>tr. Point (lng (center tr)) (lat (center tr))),
            scale = (\<lambda>tr. 2 powr zoom tr),
            zoomScale = (\<lambda>z. 2 powr z),
            scaleZoom = (\<lambda>k. log 2 k),
            defaultEasing = (\<lambda>t. t)\<rparr>"

definition demoTransform :: transform where
  "demoTransform = \<lparr>center = LngLat 10 20, zoom = 4, bearing = 0, pitch = 0, minZoom = 0,
                     maxZoom = 22, width = 400, height = 300, renderWorldCopies = True,
                     lngRange = None\<rparr>"

definition demoCamera :: camera where
  "demoCamera = \<lparr>transform = demoTransform, moving = False, zooming = False, rotating = False,
                  pitching = False, bearingSnap = 7, easeEndTimeoutID = None, easeStart = 0,
                  easeOpts = None, onEaseFrame = None, onEaseEnd = None, easeFrameId = None,
                  renderFrames = [], lastFrame = 0, timeouts = [], lastTimeout = 0,
                  warnings = [], fired = []\<rparr>"

definition demoHigh :: camera where
  "demoHigh = demoCamera\<lparr>transform := demoTransform\<lparr>zoom := 21\<rparr>\<rparr>"

definition started :: "fault + camera \<Rightarrow> camera" where
  "started r = (case r of Inr s \<Rightarrow> s | Inl e \<Rightarrow> demoCamera)"

definition demoInFlight :: camera where
  "demoInFlight = started (easeTo flat quiet 0 (noOptions\<lparr>opt_zoom := Some 6\<rparr>) [] demoCamera)"

definition demoDelayed :: camera where
  "demoDelayed =
     started (easeTo flat quiet 0 (noOptions\<lparr>opt_zoom := Some 6, opt_delayEndEvents := Some 200\<rparr>)
                [] demoCamera)"

definition restart :: reaction where
  "restart ev s =
     (if etype ev = ''moveend''
      then (case easeTo flat quiet 0 (noOptions\<lparr>opt_pitch := Some 30\<rparr>) [(''by'', ''listener'')] s of
              Inr s' \<Rightarrow> s' | Inl e \<Rightarrow> s)
      else s)"

definition timersFresh :: "camera \<Rightarrow> bool" where
  "timersFresh s = list_all (\<lambda>(j, d, e). j \<le> lastTimeout s) (timeouts s)"


definition orCurrent :: "'a option \<Rightarrow> 'a \<Rightarrow> 'a" where
  "orCurrent target' current = (case target' of None \<Rightarrow> current | Some v \<Rightarrow> v)"

text \<open>
  \<open>zoomSet v tr\<close> is the zoom that the Transform holds once \<^verbatim>\<open>jumpTo\<close> has assigned the
  option \<open>v\<close>, if it is present and differs from the current zoom: the Transform keeps
  the zoom within its bounds. The zoom \<open>v\<close> is \<open>withinBounds\<close> when the Transform
  stores it as it is.
\<close>

definition zoomSet :: "real option \<Rightarrow> transform \<Rightarrow> real" where
  "zoomSet target' tr =
     (case target' of
        None \<Rightarrow> zoom tr
      | Some z \<Rightarrow> if zoom tr \<noteq> z then clamp z (minZoom tr) (maxZoom tr) else zoom tr)"

definition withinBounds :: "real option \<Rightarrow> transform \<Rightarrow> bool" where
  "withinBounds target' tr =
     (case target' of None \<Rightarrow> True | Some z \<Rightarrow> minZoom tr \<le> z \<and> z \<le> maxZoom tr)"



definition readsOnly :: "reaction \<Rightarrow> bool" where
  "readsOnly react = (\<forall>ev s. transform (react ev s) = transform s)"

text \<open>
  For \<^verbatim>\<open>easeTo\<close>: \<open>easeToOptions\<close> is the options object after the defaults and the
  rule for \<^verbatim>\<open>animate\<close>; an ease is \<open>immediate\<close> when \<^verbatim>\<open>_ease\<close> runs the frame and
  the completion at once; \<open>zoomChanges\<close>, \<open>bearingChanges\<close> and \<open>pitchChanges\<close> are
  the three flags \<^verbatim>\<open>easeTo\<close> sets, and \<open>easeStarts\<close>, \<open>easeMoves\<close>, \<open>easeEnds\<close>
  the events of the three phases under those flags. \<open>easeFrameOf\<close> is the per-frame
  closure that \<^verbatim>\<open>easeTo\<close> builds and \<open>easeReady\<close> the state in which it calls
  \<^verbatim>\<open>_ease\<close>. The collaborators have a \<open>positiveScale\<close> when every scale factor is
  positive.
\<close>

definition easeToOptions :: "collaborators \<Rightarrow> options \<Rightarrow> options" where
  "easeToOptions X options0 =
     (let options1 = extendOptions (easeToDefaults X) options0
      in if opt_animate options1 = Some False then options1\<lparr>opt_duration := Some 0\<rparr> else options1)"

definition immediate :: "options \<Rightarrow> bool" where
  "immediate options0 = (opt_animate options0 = Some False \<or> opt_duration options0 = Some 0)"

definition bearingTarget :: "options \<Rightarrow> camera \<Rightarrow> real" where
  "bearingTarget options s =
     (case opt_bearing options of
        Some b \<Rightarrow> normalizeBearing b (getBearing s)
      | None \<Rightarrow> getBearing s)"

definition zoomChanges :: "options \<Rightarrow> camera \<Rightarrow> bool" where
  "zoomChanges options s = (orCurrent (opt_zoom options) (getZoom s) \<noteq> getZoom s)"

definition bearingChanges :: "options \<Rightarrow> camera \<Rightarrow> bool" where
  "bearingChanges options s = (getBearing s \<noteq> bearingTarget options s)"

definition pitchChanges :: "options \<Rightarrow> camera \<Rightarrow> bool" where
  "pitchChanges options s = (orCurrent (opt_pitch options) (getPitch s) \<noteq> getPitch s)"

definition easeStarts :: "options \<Rightarrow> props \<Rightarrow> camera \<Rightarrow> event list" where
  "easeStarts options eventData s =
     (if opt_noMoveStart options = Some True then [] else [Event ''movestart'' eventData])
     @ axisEvents ''start'' eventData (zoomChanges options s) (bearingChanges options s)
         (pitchChanges options s)"

definition easeMoves :: "options \<Rightarrow> props \<Rightarrow> camera \<Rightarrow> event list" where
  "easeMoves options eventData s =
     Event ''move'' eventData
     # axisEvents [] eventData (zoomChanges options s) (bearingChanges options s)
         (pitchChanges options s)"

definition easeEnds :: "options \<Rightarrow> props \<Rightarrow> camera \<Rightarrow> event list" where
  "easeEnds options eventData s =
     axisEvents ''end'' eventData (zoomChanges options s) (bearingChanges options s)
       (pitchChanges options s)
     @ [Event ''moveend'' eventData]"

definition easeFlags :: "options \<Rightarrow> camera \<Rightarrow> camera" where
  "easeFlags options s0 =
     s0\<lparr>zooming := zoomChanges options s0,
         rotating := bearingChanges options s0,
         pitching := pitchChanges options s0\<rparr>"

definition easeFrameOf :: "collaborators \<Rightarrow> options \<Rightarrow> props \<Rightarrow> camera \<Rightarrow> easeFrame" where
  "easeFrameOf X options0 eventData s0 =
     (let options = easeToOptions X options0;
          tr = transform s0;
          pointAtOffset = padd (centerPoint X tr) (the (opt_offset options));
          locationAtOffset = pointLocation X tr pointAtOffset;
          center' = normalizeCenter tr
                      (case opt_center options of Some c \<Rightarrow> c | None \<Rightarrow> locationAtOffset);
          from = project X tr locationAtOffset
      in \<lparr>ef_around = (case opt_around options of
                          Some a \<Rightarrow> Some (a, locationPoint X tr a)
                        | None \<Rightarrow> None),
          ef_startZoom = getZoom s0,
          ef_zoom = orCurrent (opt_zoom options0) (getZoom s0),
          ef_startBearing = getBearing s0,
          ef_bearing = bearingTarget options0 s0,
          ef_startPitch = getPitch s0,
          ef_pitch = orCurrent (opt_pitch options0) (getPitch s0),
          ef_from = from,
          ef_delta = psub (project X tr center') from,
          ef_finalScale = zoomScale X (orCurrent (opt_zoom options0) (getZoom s0) - getZoom s0),
          ef_pointAtOffset = pointAtOffset,
          ef_eventData = eventData\<rparr>)"

definition easeReady :: "reaction \<Rightarrow> options \<Rightarrow> props \<Rightarrow> camera \<Rightarrow> camera" where
  "easeReady react options eventData s0 =
     (let s2 = prepareEase react eventData (opt_noMoveStart options = Some True)
                 (easeFlags options s0)
      in clearTimeout (easeEndTimeoutID s2) s2)"

definition positiveScale :: "collaborators \<Rightarrow> bool" where
  "positiveScale X = (\<forall>z. 0 < zoomScale X z)"


text \<open>
  For a whole \<^verbatim>\<open>easeTo\<close>: \<open>easeAll\<close> is the list of events that the call itself fires
  (the start events and, when the ease is immediate, the move events and the end
  events unless they are delayed). A camera is \<open>inFlight\<close> when an animation is under
  way: its frame is the only one scheduled and its completion callback is pending.
\<close>

definition easeAll :: "options \<Rightarrow> props \<Rightarrow> camera \<Rightarrow> event list" where
  "easeAll options eventData s =
     easeStarts options eventData s
     @ (if immediate options
        then easeMoves options eventData s
             @ (if truthy (opt_delayEndEvents options) then [] else easeEnds options eventData s)
        else [])"

definition inFlight :: "camera \<Rightarrow> bool" where
  "inFlight s =
     (case easeFrameId s of
        None \<Rightarrow> False
      | Some fid \<Rightarrow> fid \<noteq> 0 \<and> fid \<le> lastFrame s \<and> renderFrames s = [fid] \<and> onEaseEnd s \<noteq> None)"


text \<open>
  For \<^verbatim>\<open>cameraForBounds\<close>: \<open>fitPadding\<close> is the padding object that the call works
  with (the default, or four times the number given). The padding is \<open>malformed\<close>
  when its keys are not exactly \<^verbatim>\<open>bottom\<close>, \<^verbatim>\<open>left\<close>, \<^verbatim>\<open>right\<close> and \<^verbatim>\<open>top\<close>.
  \<open>scaleFactor\<close> is the quotient of the dimension left by twice the padding and twice
  the size of the offset, and of the projected size of the bounds; the canvas is
  \<open>tooSmall\<close> when this is negative in one of the axes.
\<close>

definition fitPadding :: "options \<Rightarrow> (string \<times> real) list" where
  "fitPadding options =
     paddingObject (orCurrent (opt_padding options)
       (PadObject [(''top'', 0), (''bottom'', 0), (''right'', 0), (''left'', 0)]))"

definition malformed :: "options \<Rightarrow> bool" where
  "malformed options =
     (\<not> (distinct (map fst (fitPadding options))
         \<and> set (map fst (fitPadding options)) = {''bottom'', ''left'', ''right'', ''top''}))"

definition scaleFactor :: "real \<Rightarrow> real \<Rightarrow> real \<Rightarrow> real \<Rightarrow> jsnum" where
  "scaleFactor available padding' offset' size' =
     js_div (Fin (available - 2 * padding' - 2 * \<bar>offset'\<bar>)) (Fin size')"

definition tooSmall :: "collaborators \<Rightarrow> bounds \<Rightarrow> options \<Rightarrow> transform \<Rightarrow> bool" where
  "tooSmall X bounds' options tr =
     (let pad = fitPadding options;
          side = (\<lambda>k. the (map_of pad k));
          offset = fitOffset pad (orCurrent (opt_offset options) (Point 0 0));
          size' = psub (project X tr (getSouthEast bounds')) (project X tr (getNorthWest bounds'))
      in js_lt (scaleFactor (height tr) (min (side ''top'') (side ''bottom'')) (py offset) (py size'))
           (Fin 0)
         \<or> js_lt (scaleFactor (width tr) (min (side ''right'') (side ''left'')) (px offset) (px size'))
              (Fin 0))"

text \<open>
  The examples of \<^verbatim>\<open>cameraForBounds\<close> use \<open>screen\<close>, the toy collaborators with the
  vertical axis of the screen pointing down, and the bounds from (0, 0) to (20, 10).
\<close>

definition screen :: collaborators where
  "screen = flat\<lparr>project := (\<lambda>tr c. Point (lng c) (- lat c)),
                  unproject := (\<lambda>tr p. LngLat (px p) (- py p))\<rparr>"

definition demoBounds :: bounds where
  "demoBounds = LngLatBounds (LngLat 0 0) (LngLat 20 10)"


text \<open>
  For \<^verbatim>\<open>flyTo\<close>: \<open>flyToOptions\<close> are the options extended with the defaults of
  \<^verbatim>\<open>flyTo\<close> and \<open>flyPlan\<close> the quantities that the call computes from them on the
  stopped camera. \<open>stay s\<close> are the options \<^verbatim>\<open>{center: currentCenter, zoom:
  currentZoom}\<close>. A Transform is \<open>centred\<close> when the centre of the viewport is the
  projection of the centre of the map, no change of zoom is the scale 1, and the zoom is
  within its bounds.
\<close>

definition flyToOptions :: "collaborators \<Rightarrow> options \<Rightarrow> options" where
  "flyToOptions X options = extendOptions (flyToDefaults X) options"




section \<open>Properties\<close>

subsection \<open>Bearing normalisation\<close>

lemma wrap_range: "lo < hi \<Longrightarrow> lo \<le> wrap n lo hi \<and> wrap n lo hi < hi"
proof -
  assume lt: "lo < hi"
  define d where "d = hi - lo"
  define q where "q = (n - lo) / d"
  have dpos: "0 < d" using lt by (simp add: d_def)
  have fl: "of_int \<lfloor>q\<rfloor> \<le> q" "q < of_int \<lfloor>q\<rfloor> + 1" by linarith+
  have nq: "n - lo = d * q" using dpos by (simp add: q_def)
  have w: "wrap n lo hi = n - d * of_int \<lfloor>q\<rfloor>"
    by (simp add: wrap_def Let_def d_def q_def)
  have a: "d * of_int \<lfloor>q\<rfloor> \<le> d * q"
    using dpos fl(1) by (simp add: mult_left_mono)
  have b: "d * q < d * (of_int \<lfloor>q\<rfloor> + 1)"
    using dpos fl(2) by (simp add: mult_strict_left_mono)
  have b': "d * q < d * of_int \<lfloor>q\<rfloor> + d"
    using b by (simp add: algebra_simps)
  show ?thesis using w a b' nq d_def by linarith
qed

lemma wrap_same_direction: "\<exists>k::int. wrap n lo hi = n + (hi - lo) * of_int k"
proof -
  have "wrap n lo hi = n + (hi - lo) * of_int (- \<lfloor>(n - lo) / (hi - lo)\<rfloor>)"
    by (simp add: wrap_def Let_def)
  then show ?thesis by blast
qed

lemma wrap_170: "wrap 170 (- 180) 180 = 170"
  by (simp add: wrap_def Let_def)

text \<open>
  C6. For every target bearing \<open>b\<close> and current bearing \<open>c\<close>, \<open>_normalizeBearing(b, c)\<close>
  first wraps \<open>b\<close> into the interval from -180 (included) to 180 (excluded), a value
  that differs from \<open>b\<close> by a multiple of 360, and returns the one of the wrapped
  value, the wrapped value minus 360 and the wrapped value plus 360 whose absolute
  difference to \<open>c\<close> is least; \<open>_normalizeBearing(170, -170)\<close> is -190.
\<close>

theorem normalizeBearing_nearest:
  "- 180 \<le> wrap b (- 180) 180 \<and> wrap b (- 180) 180 < 180
   \<and> (\<exists>k::int. wrap b (- 180) 180 = b + 360 * of_int k)
   \<and> (normalizeBearing b c = wrap b (- 180) 180
        \<or> normalizeBearing b c = wrap b (- 180) 180 - 360
        \<or> normalizeBearing b c = wrap b (- 180) 180 + 360)
   \<and> \<bar>normalizeBearing b c - c\<bar> \<le> \<bar>wrap b (- 180) 180 - c\<bar>
   \<and> \<bar>normalizeBearing b c - c\<bar> \<le> \<bar>wrap b (- 180) 180 - 360 - c\<bar>
   \<and> \<bar>normalizeBearing b c - c\<bar> \<le> \<bar>wrap b (- 180) 180 + 360 - c\<bar>
   \<and> normalizeBearing 170 (- 170) = - 190"
proof -
  have r: "- 180 \<le> wrap b (- 180) 180 \<and> wrap b (- 180) 180 < 180"
    using wrap_range [of "- 180" 180 b] by simp
  have k: "\<exists>k::int. wrap b (- 180) 180 = b + 360 * of_int k"
    using wrap_same_direction [of b "- 180" 180] by simp
  have m: "(normalizeBearing b c = wrap b (- 180) 180
        \<or> normalizeBearing b c = wrap b (- 180) 180 - 360
        \<or> normalizeBearing b c = wrap b (- 180) 180 + 360)
   \<and> \<bar>normalizeBearing b c - c\<bar> \<le> \<bar>wrap b (- 180) 180 - c\<bar>
   \<and> \<bar>normalizeBearing b c - c\<bar> \<le> \<bar>wrap b (- 180) 180 - 360 - c\<bar>
   \<and> \<bar>normalizeBearing b c - c\<bar> \<le> \<bar>wrap b (- 180) 180 + 360 - c\<bar>"
    unfolding normalizeBearing_def Let_def by (simp split: if_splits) linarith
  have e: "normalizeBearing 170 (- 170) = - 190"
    by (simp add: normalizeBearing_def Let_def wrap_170)
  show ?thesis using r k m e by blast
qed

subsection \<open>Event bus\<close>



























subsection \<open>Camera: stopping and jumping\<close>

lemma fire_quiet: "camera_fire quiet ev s = s\<lparr>fired := fired s @ [ev]\<rparr>"
  by (simp add: camera_fire_def quiet_def)

lemma prepareEase_quiet:
  "prepareEase quiet eventData noMoveStart s =
     s\<lparr>moving := True, fired := fired s @ startEvents eventData noMoveStart s\<rparr>"
  by (simp add: prepareEase_def fire_quiet startEvents_def axisEvents_def Let_def)

lemma fireMoveEvents_quiet:
  "fireMoveEvents quiet eventData s = s\<lparr>fired := fired s @ moveEvents eventData s\<rparr>"
  by (simp add: fireMoveEvents_def fire_quiet moveEvents_def axisEvents_def Let_def)

lemma afterEase_quiet:
  "afterEase quiet eventData s = (idle s)\<lparr>fired := fired s @ endEvents eventData s\<rparr>"
  by (simp add: afterEase_def fire_quiet endEvents_def axisEvents_def Let_def idle_def)

lemma stop_unfold:
  "stop react s =
     (case onEaseEnd s of
        None \<Rightarrow> cancelled s
      | Some cb \<Rightarrow> runFinish react cb ((cancelled s)\<lparr>onEaseEnd := None\<rparr>))"
  by (simp add: stop_def cancelled_def Let_def cancelRenderFrame_def split: option.splits)

lemma cancelled_fields [simp]:
  "transform (cancelled s) = transform s"
  "fired (cancelled s) = fired s"
  "onEaseEnd (cancelled s) = onEaseEnd s"
  "zooming (cancelled s) = zooming s"
  "rotating (cancelled s) = rotating s"
  "pitching (cancelled s) = pitching s"
  "moving (cancelled s) = moving s"
  "timeouts (cancelled s) = timeouts s"
  "lastTimeout (cancelled s) = lastTimeout s"
  "lastFrame (cancelled s) = lastFrame s"
  "easeEndTimeoutID (cancelled s) = easeEndTimeoutID s"
  "warnings (cancelled s) = warnings s"
  "\<not> isEasing (cancelled s)"
  by (simp_all add: cancelled_def cancelRenderFrame_def isEasing_def split: option.splits)


lemma cancelled_idle: "\<not> isEasing s \<Longrightarrow> cancelled s = s"
  by (simp add: cancelled_def)

lemma runFinish_quiet:
  "runFinish quiet cb s =
     (if delays cb
      then s\<lparr>lastTimeout := Suc (lastTimeout s),
             timeouts := timeouts s @ [(Suc (lastTimeout s), the (case cb of EaseFinish e d \<Rightarrow> d | FlyFinish e \<Rightarrow> None), finishData cb)],
             easeEndTimeoutID := Some (Suc (lastTimeout s))\<rparr>
      else (idle s)\<lparr>fired := fired s @ endEvents (finishData cb) s\<rparr>)"
  by (cases cb) (simp_all add: delays_def finishData_def afterEase_quiet setTimeout_def Let_def)

lemma occurrences_append [simp]:
  "occurrences t (xs @ ys) = occurrences t xs + occurrences t ys"
  by (simp add: occurrences_def)

lemma occurrences_moveend_endEvents [simp]: "occurrences ''moveend'' (endEvents eventData s) = 1"
  by (simp add: occurrences_def endEvents_def axisEvents_def Event_def)

lemma stop_idle: "\<not> isEasing s \<Longrightarrow> onEaseEnd s = None \<Longrightarrow> stop react s = s"
  by (simp add: stop_unfold cancelled_idle)

lemma stop_pending:
  "onEaseEnd s = Some cb \<Longrightarrow> stop react s = runFinish react cb ((cancelled s)\<lparr>onEaseEnd := None\<rparr>)"
  by (simp add: stop_unfold)

lemma stop_quiet_undelayed:
  assumes "onEaseEnd s = Some cb" "\<not> delays cb"
  shows "stop quiet s = (idle ((cancelled s)\<lparr>onEaseEnd := None\<rparr>))
                          \<lparr>fired := fired s @ endEvents (finishData cb) s\<rparr>"
  using assms by (simp add: stop_pending runFinish_quiet endEvents_def)

lemma stop_quiet_twice:
  assumes "onEaseEnd s = Some cb" "\<not> delays cb"
  shows "stop quiet (stop quiet s) = stop quiet s"
proof -
  let ?s' = "stop quiet s"
  have a: "?s' = (idle ((cancelled s)\<lparr>onEaseEnd := None\<rparr>))\<lparr>fired := fired s @ endEvents (finishData cb) s\<rparr>"
    using assms by (rule stop_quiet_undelayed)
  have "onEaseEnd ?s' = None" by (simp add: a idle_def)
  moreover have "\<not> isEasing ?s'"
    using cancelled_fields(13) [of s] by (simp add: a idle_def isEasing_def)
  ultimately show ?thesis by (rule stop_idle [rotated])
qed

lemma filter_fresh:
  "list_all (\<lambda>(j, d, e). j \<le> n) ts \<Longrightarrow>
   filter (\<lambda>(j, d, e). j = Suc n) ts = [] \<and> filter (\<lambda>(j, d, e). j \<noteq> Suc n) ts = ts"
  by (induction ts) auto

lemma stop_quiet_delayed:
  assumes "onEaseEnd s = Some cb" "delays cb" "timersFresh s"
  shows "fired (stop quiet s) = fired s
         \<and> fired (runTimeout quiet (Suc (lastTimeout s)) (stop quiet s))
             = fired s @ endEvents (finishData cb) s
         \<and> timeouts (runTimeout quiet (Suc (lastTimeout s)) (stop quiet s)) = timeouts s"
proof -
  have f: "filter (\<lambda>(j, d, e). j = Suc (lastTimeout s)) (timeouts s) = []"
          "filter (\<lambda>(j, d, e). j \<noteq> Suc (lastTimeout s)) (timeouts s) = timeouts s"
    using assms(3) filter_fresh [of "lastTimeout s" "timeouts s"] by (simp_all add: timersFresh_def)
  show ?thesis
    using assms(1,2) f
    by (simp add: stop_pending runFinish_quiet runTimeout_def afterEase_quiet endEvents_def idle_def)
qed

lemma stop_quiet_cleared:
  assumes "onEaseEnd s = Some cb" "delays cb" "timersFresh s"
  shows "runTimeout quiet (Suc (lastTimeout s))
           (clearTimeout (easeEndTimeoutID (stop quiet s)) (stop quiet s))
         = clearTimeout (easeEndTimeoutID (stop quiet s)) (stop quiet s)"
proof -
  have f: "filter (\<lambda>(j, d, e). j = Suc (lastTimeout s)) (timeouts s) = []"
          "filter (\<lambda>(j, d, e). j \<noteq> Suc (lastTimeout s)) (timeouts s) = timeouts s"
    using assms(3) filter_fresh [of "lastTimeout s" "timeouts s"] by (simp_all add: timersFresh_def)
  show ?thesis
    using assms(1,2) f
    by (simp add: stop_pending runFinish_quiet runTimeout_def clearTimeout_def)
qed

text \<open>
  C2 (as the code has it). \<open>stop\<close> in a state where no frame is scheduled and no
  completion callback is pending changes nothing, whatever the listeners: no event, no
  error. When a completion callback is pending, \<open>stop\<close> is, whatever the listeners, one
  run of that callback in the state in which the frame is cancelled and the slot of the
  callback is already empty; so what the callback leaves in the slot (the completion
  callback of an animation that a listener has started meanwhile) is what the slot
  holds when \<open>stop\<close> returns, and \<open>stop\<close> has not run it. With listeners that leave the
  camera alone, a callback that does not delay its end events fires the axis-end events
  and then exactly one \<^verbatim>\<open>moveend\<close>, and a second \<open>stop\<close> fires nothing more; a
  callback that delays them (\<open>delayEndEvents\<close>) fires nothing at once: it sets a
  timeout, which fires them, once, if it runs, and which fires nothing once it has been
  cleared, as \<^verbatim>\<open>easeTo\<close> clears it.
\<close>

theorem stop_capture_clear_invoke:
  "(\<not> isEasing s \<and> onEaseEnd s = None \<longrightarrow> stop react s = s)
   \<and> (onEaseEnd s = Some cb \<longrightarrow>
        stop react s = runFinish react cb ((cancelled s)\<lparr>onEaseEnd := None\<rparr>))
   \<and> (onEaseEnd s = Some cb \<and> \<not> delays cb \<longrightarrow>
        fired (stop quiet s) = fired s @ endEvents (finishData cb) s
        \<and> occurrences ''moveend'' (fired (stop quiet s)) = Suc (occurrences ''moveend'' (fired s))
        \<and> stop quiet (stop quiet s) = stop quiet s)
   \<and> (onEaseEnd s = Some cb \<and> delays cb \<and> timersFresh s \<longrightarrow>
        fired (stop quiet s) = fired s
        \<and> fired (runTimeout quiet (Suc (lastTimeout s)) (stop quiet s))
             = fired s @ endEvents (finishData cb) s
        \<and> timeouts (runTimeout quiet (Suc (lastTimeout s)) (stop quiet s)) = timeouts s
        \<and> runTimeout quiet (Suc (lastTimeout s))
             (clearTimeout (easeEndTimeoutID (stop quiet s)) (stop quiet s))
           = clearTimeout (easeEndTimeoutID (stop quiet s)) (stop quiet s))"
proof (intro conjI impI)
  assume "\<not> isEasing s \<and> onEaseEnd s = None"
  then show "stop react s = s" by (simp add: stop_idle)
next
  assume "onEaseEnd s = Some cb"
  then show "stop react s = runFinish react cb ((cancelled s)\<lparr>onEaseEnd := None\<rparr>)"
    by (rule stop_pending)
next
  assume a: "onEaseEnd s = Some cb \<and> \<not> delays cb"
  then have e: "stop quiet s = (idle ((cancelled s)\<lparr>onEaseEnd := None\<rparr>))
                          \<lparr>fired := fired s @ endEvents (finishData cb) s\<rparr>"
    by (simp add: stop_quiet_undelayed)
  show "fired (stop quiet s) = fired s @ endEvents (finishData cb) s"
    by (simp add: e)
  show "occurrences ''moveend'' (fired (stop quiet s)) = Suc (occurrences ''moveend'' (fired s))"
    by (simp add: e)
  show "stop quiet (stop quiet s) = stop quiet s"
    using a by (simp add: stop_quiet_twice)
next
  assume a: "onEaseEnd s = Some cb \<and> delays cb \<and> timersFresh s"
  note d = stop_quiet_delayed [of s cb]
  show "fired (stop quiet s) = fired s" using a d by blast
  show "fired (runTimeout quiet (Suc (lastTimeout s)) (stop quiet s))
             = fired s @ endEvents (finishData cb) s" using a d by blast
  show "timeouts (runTimeout quiet (Suc (lastTimeout s)) (stop quiet s)) = timeouts s"
    using a d by blast
  show "runTimeout quiet (Suc (lastTimeout s))
             (clearTimeout (easeEndTimeoutID (stop quiet s)) (stop quiet s))
           = clearTimeout (easeEndTimeoutID (stop quiet s)) (stop quiet s)"
    using a stop_quiet_cleared [of s cb] by blast
qed

lemmas camera_eval =
  easeTo_def stop_unfold cancelled_def isEasing_def cancelRenderFrame_def
  noOptions_def extendOptions_def orElse_def easeToDefaults_def
  getZoom_def getBearing_def getPitch_def normalizeCenter_def padd_def psub_def
  prepareEase_quiet startEvents_def axisEvents_def clearTimeout_def ease_def
  requestRenderFrame_def Let_def started_def truthy_def

lemma demoInFlight_fields:
  "fired demoInFlight = [Event ''movestart'' [], Event ''zoomstart'' []]"
  "onEaseEnd demoInFlight = Some (EaseFinish [] None)"
  "easeFrameId demoInFlight = Some (Suc 0)"
  "renderFrames demoInFlight = [Suc 0]"
  "lastFrame demoInFlight = Suc 0"
  "zooming demoInFlight" "\<not> rotating demoInFlight" "\<not> pitching demoInFlight"
  "moving demoInFlight"
  "transform demoInFlight = demoTransform"
  "timeouts demoInFlight = []"
  "easeEndTimeoutID demoInFlight = None"
  by (simp_all add: demoInFlight_def camera_eval demoCamera_def demoTransform_def flat_def)

lemma demoDelayed_fields:
  "fired demoDelayed = [Event ''movestart'' [], Event ''zoomstart'' []]"
  "onEaseEnd demoDelayed = Some (EaseFinish [] (Some 200))"
  "easeFrameId demoDelayed = Some (Suc 0)"
  "renderFrames demoDelayed = [Suc 0]"
  "zooming demoDelayed" "\<not> rotating demoDelayed" "\<not> pitching demoDelayed"
  "timeouts demoDelayed = []"
  "lastTimeout demoDelayed = 0"
  by (simp_all add: demoDelayed_def camera_eval demoCamera_def demoTransform_def flat_def)

lemma restart_other: "etype ev \<noteq> ''moveend'' \<Longrightarrow> restart ev s = s"
  by (simp add: restart_def)

lemma demo_restarted:
  "map etype (fired (stop restart demoInFlight))
     = [''movestart'', ''zoomstart'', ''zoomend'', ''moveend'', ''movestart'', ''pitchstart'']"
  "onEaseEnd (stop restart demoInFlight) = Some (EaseFinish [(''by'', ''listener'')] None)"
  "renderFrames (stop restart demoInFlight) = [2]"
  "easeFrameId (stop restart demoInFlight) = Some 2"
  by (simp_all add: stop_pending demoInFlight_fields afterEase_def camera_fire_def restart_def
        Event_def camera_eval flat_def demoTransform_def)

text \<open>
  The example: with the listener \<open>restart\<close>, \<open>stop\<close> on the camera in flight fires the
  end events of the first animation and, from within them, starts the second; when
  \<open>stop\<close> returns the completion callback of the second is pending and its frame is the
  only one scheduled.
\<close>

theorem stop_capture_clear_invoke_witness:
  "\<not> isEasing demoCamera \<and> onEaseEnd demoCamera = None \<and> stop restart demoCamera = demoCamera
   \<and> onEaseEnd demoInFlight = Some (EaseFinish [] None)
   \<and> stop restart demoInFlight
       = runFinish restart (EaseFinish [] None) ((cancelled demoInFlight)\<lparr>onEaseEnd := None\<rparr>)
   \<and> map etype (fired (stop restart demoInFlight))
       = [''movestart'', ''zoomstart'', ''zoomend'', ''moveend'', ''movestart'', ''pitchstart'']
   \<and> onEaseEnd (stop restart demoInFlight) = Some (EaseFinish [(''by'', ''listener'')] None)
   \<and> renderFrames (stop restart demoInFlight) = [2]
   \<and> \<not> delays (EaseFinish [] None)
   \<and> map etype (fired (stop quiet demoInFlight))
       = [''movestart'', ''zoomstart'', ''zoomend'', ''moveend'']
   \<and> stop quiet (stop quiet demoInFlight) = stop quiet demoInFlight
   \<and> onEaseEnd demoDelayed = Some (EaseFinish [] (Some 200))
   \<and> delays (EaseFinish [] (Some 200)) \<and> timersFresh demoDelayed
   \<and> map etype (fired (stop quiet demoDelayed)) = [''movestart'', ''zoomstart'']
   \<and> map etype (fired (runTimeout quiet (Suc (lastTimeout demoDelayed)) (stop quiet demoDelayed)))
       = [''movestart'', ''zoomstart'', ''zoomend'', ''moveend'']"
proof -
  note t1 = stop_capture_clear_invoke [of demoCamera restart]
  note t2 = stop_capture_clear_invoke [of demoInFlight restart "EaseFinish [] None"]
  note t3 = stop_capture_clear_invoke [of demoDelayed restart "EaseFinish [] (Some 200)"]
  have i: "\<not> isEasing demoCamera \<and> onEaseEnd demoCamera = None"
    by (simp add: demoCamera_def isEasing_def)
  have d: "\<not> delays (EaseFinish [] None)" "delays (EaseFinish [] (Some 200))"
    "finishData (EaseFinish [] None) = []" "finishData (EaseFinish [] (Some 200)) = []"
    by (simp_all add: delays_def truthy_def finishData_def)
  have f: "timersFresh demoDelayed"
    by (simp add: timersFresh_def demoDelayed_fields)
  have e1: "endEvents [] demoInFlight = [Event ''zoomend'' [], Event ''moveend'' []]"
    "endEvents [] demoDelayed = [Event ''zoomend'' [], Event ''moveend'' []]"
    by (simp_all add: endEvents_def axisEvents_def demoInFlight_fields demoDelayed_fields)
  have a: "stop restart demoCamera = demoCamera" using t1 i by blast
  have b: "stop restart demoInFlight
       = runFinish restart (EaseFinish [] None) ((cancelled demoInFlight)\<lparr>onEaseEnd := None\<rparr>)"
    using t2 demoInFlight_fields(2) by blast
  have c: "map etype (fired (stop quiet demoInFlight))
       = [''movestart'', ''zoomstart'', ''zoomend'', ''moveend'']
     \<and> stop quiet (stop quiet demoInFlight) = stop quiet demoInFlight"
    using t2 demoInFlight_fields(1,2) d e1 by (simp add: Event_def)
  have g: "map etype (fired (stop quiet demoDelayed)) = [''movestart'', ''zoomstart'']
     \<and> map etype (fired (runTimeout quiet (Suc (lastTimeout demoDelayed)) (stop quiet demoDelayed)))
       = [''movestart'', ''zoomstart'', ''zoomend'', ''moveend'']"
    using t3 demoDelayed_fields(1,2) d f e1 by (simp add: Event_def)
  show ?thesis
    using i a b c g d f demoInFlight_fields(2) demoDelayed_fields(2) demo_restarted by blast
qed

lemma stop_quiet_fields:
  "transform (stop quiet s) = transform s"
  "lastFrame (stop quiet s) = lastFrame s"
  "\<not> isEasing (stop quiet s)"
  "onEaseEnd (stop quiet s) = None"
  "easeFrameId (stop quiet s) = easeFrameId (cancelled s)"
  "renderFrames (stop quiet s) = renderFrames (cancelled s)"
  "warnings (stop quiet s) = warnings s"
  using cancelled_fields(13) [of s]
  by (auto simp: stop_unfold runFinish_quiet idle_def isEasing_def split: option.splits)


lemma zoomSet_within:
  "withinBounds target' tr \<Longrightarrow> zoomSet target' tr = orCurrent target' (zoom tr)"
  by (auto simp: withinBounds_def zoomSet_def orCurrent_def clamp_def split: option.splits)


lemma readsOnly_fire: "readsOnly react \<Longrightarrow> transform (camera_fire react ev s) = transform s"
  by (simp add: readsOnly_def camera_fire_def)

lemma readsOnly_afterEase: "readsOnly react \<Longrightarrow> transform (afterEase react eventData s) = transform s"
  by (simp add: afterEase_def Let_def readsOnly_fire)

lemma readsOnly_runFinish: "readsOnly react \<Longrightarrow> transform (runFinish react cb s) = transform s"
  by (cases cb) (simp_all add: readsOnly_afterEase setTimeout_def Let_def)

lemma readsOnly_stop: "readsOnly react \<Longrightarrow> transform (stop react s) = transform s"
  by (simp add: stop_unfold readsOnly_runFinish split: option.splits)

lemma readsOnly_jumpTo:
  "readsOnly react \<Longrightarrow>
   transform (jumpTo react options eventData s) =
     (transform s)
          \<lparr>zoom := zoomSet (opt_zoom options) (transform s),
           center := orCurrent (opt_center options) (center (transform s)),
           bearing := orCurrent (opt_bearing options) (bearing (transform s)),
           pitch := orCurrent (opt_pitch options) (pitch (transform s))\<rparr>"
  by (cases "opt_zoom options"; cases "opt_center options"; cases "opt_bearing options";
      cases "opt_pitch options")
     (simp_all add: jumpTo_def Let_def readsOnly_fire readsOnly_stop orCurrent_def zoomSet_def
        assignZoom_def)

text \<open>
  C9. For all options passed to \<open>jumpTo\<close>, with listeners that do not write the
  Transform: \<open>getCenter\<close>, \<open>getBearing\<close> and \<open>getPitch\<close> read back, right
  afterwards, exactly the value set, for each of them that the options hold, and the
  value of before for the others; \<open>getZoom\<close> reads back the zoom as the Transform has
  stored it, which is exactly the value set for valid options, whose zoom is within
  the bounds of the Transform.
\<close>

theorem jumpTo_roundtrip:
  "readsOnly react \<longrightarrow>
     getCenter (jumpTo react options eventData s) = orCurrent (opt_center options) (getCenter s)
     \<and> getZoom (jumpTo react options eventData s) = zoomSet (opt_zoom options) (transform s)
     \<and> (withinBounds (opt_zoom options) (transform s) \<longrightarrow>
          getZoom (jumpTo react options eventData s) = orCurrent (opt_zoom options) (getZoom s))
     \<and> getBearing (jumpTo react options eventData s) = orCurrent (opt_bearing options) (getBearing s)
     \<and> getPitch (jumpTo react options eventData s) = orCurrent (opt_pitch options) (getPitch s)"
  by (simp add: readsOnly_jumpTo getCenter_def getZoom_def getBearing_def getPitch_def
        zoomSet_within)

theorem jumpTo_roundtrip_witness:
  "readsOnly quiet
   \<and> withinBounds (Some 7) (transform demoInFlight)
   \<and> getCenter (jumpTo quiet (noOptions\<lparr>opt_center := Some (LngLat 1 2), opt_zoom := Some 7,
         opt_bearing := Some 30, opt_pitch := Some 45\<rparr>) [] demoInFlight) = LngLat 1 2
   \<and> getZoom (jumpTo quiet (noOptions\<lparr>opt_center := Some (LngLat 1 2), opt_zoom := Some 7,
         opt_bearing := Some 30, opt_pitch := Some 45\<rparr>) [] demoInFlight) = 7
   \<and> getBearing (jumpTo quiet (noOptions\<lparr>opt_center := Some (LngLat 1 2), opt_zoom := Some 7,
         opt_bearing := Some 30, opt_pitch := Some 45\<rparr>) [] demoInFlight) = 30
   \<and> getPitch (jumpTo quiet (noOptions\<lparr>opt_center := Some (LngLat 1 2), opt_zoom := Some 7,
         opt_bearing := Some 30, opt_pitch := Some 45\<rparr>) [] demoInFlight) = 45"
proof -
  have p: "readsOnly quiet" by (simp add: readsOnly_def quiet_def)
  have w: "withinBounds (Some 7) (transform demoInFlight)"
    by (simp add: withinBounds_def demoInFlight_fields demoTransform_def)
  have o: "opt_zoom (noOptions\<lparr>opt_center := Some (LngLat 1 2), opt_zoom := Some 7,
         opt_bearing := Some 30, opt_pitch := Some 45\<rparr>) = Some 7"
    by simp
  show ?thesis
    using p w jumpTo_roundtrip [of quiet "noOptions\<lparr>opt_center := Some (LngLat 1 2), opt_zoom := Some 7,
         opt_bearing := Some 30, opt_pitch := Some 45\<rparr>" "[]" demoInFlight]
    unfolding o
    by (simp add: orCurrent_def noOptions_def)
qed

subsection \<open>Camera: easing\<close>

lemma Math_pow_zero [simp]: "Math_pow b 0 = Some 1"
  by (simp add: Math_pow_def)

lemma interpolate_one [simp]: "interpolate a b 1 = b"
  by (simp add: interpolate_def)

lemma frameTransform_ease_final:
  "\<exists>tr. frameTransform X (EaseFrame f) 1 s = Inr tr
        \<and> zoom tr = (if zooming s
                     then clamp (ef_zoom f) (minZoom (transform s)) (maxZoom (transform s))
                     else zoom (transform s))
        \<and> bearing tr = (if rotating s then ef_bearing f else bearing (transform s))
        \<and> pitch tr = (if pitching s then ef_pitch f else pitch (transform s))"
  by (cases "ef_around f") (auto simp: Let_def turn_def moveCenter_def assignZoom_def)

lemma applyFrame_quiet:
  "frameTransform X fr k s = Inr tr \<Longrightarrow>
   applyFrame X quiet fr k s
     = Inr (s\<lparr>transform := tr, fired := fired s @ moveEvents (frameEventData fr) s\<rparr>)"
  by (simp add: applyFrame_def fireMoveEvents_quiet moveEvents_def)

lemma easeToOptions_fields [simp]:
  "opt_zoom (easeToOptions X o') = opt_zoom o'"
  "opt_bearing (easeToOptions X o') = opt_bearing o'"
  "opt_pitch (easeToOptions X o') = opt_pitch o'"
  "opt_center (easeToOptions X o') = opt_center o'"
  "opt_around (easeToOptions X o') = opt_around o'"
  "opt_noMoveStart (easeToOptions X o') = opt_noMoveStart o'"
  "opt_delayEndEvents (easeToOptions X o') = opt_delayEndEvents o'"
  "opt_animate (easeToOptions X o') = opt_animate o'"
  "opt_offset (easeToOptions X o') = Some (orCurrent (opt_offset o') (Point 0 0))"
  by (simp_all add: easeToOptions_def extendOptions_def easeToDefaults_def noOptions_def orElse_def
        orCurrent_def Let_def split: option.splits)

lemma easeToOptions_immediate [simp]:
  "(opt_duration (easeToOptions X o') = Some 0) = immediate o'"
  by (auto simp: easeToOptions_def extendOptions_def easeToDefaults_def noOptions_def orElse_def
        immediate_def Let_def split: option.splits)

lemma immediate_animate [simp]: "opt_animate o' = Some False \<Longrightarrow> immediate o'"
  by (simp add: immediate_def)

lemma getters_stop_quiet [simp]:
  "getZoom (stop quiet s) = getZoom s"
  "getBearing (stop quiet s) = getBearing s"
  "getPitch (stop quiet s) = getPitch s"
  "getCenter (stop quiet s) = getCenter s"
  by (simp_all add: getZoom_def getBearing_def getPitch_def getCenter_def stop_quiet_fields)

lemma easeTo_steps:
  "easeTo X react now options eventData s =
     ease X react now (EaseFrame (easeFrameOf X options eventData (stop react s)))
       (EaseFinish eventData (opt_delayEndEvents options))
       (easeToOptions X options)
       (easeReady react options eventData (stop react s))"
  unfolding easeTo_def Let_def easeToOptions_def [unfolded Let_def, symmetric]
  by (cases "opt_zoom options"; cases "opt_pitch options")
     (simp_all add: easeReady_def easeFrameOf_def easeFlags_def Let_def orCurrent_def
        bearingTarget_def zoomChanges_def bearingChanges_def pitchChanges_def
        split: option.splits)

lemma easeReady_quiet:
  "easeReady quiet options eventData s0 =
     s0\<lparr>zooming := zoomChanges options s0,
         rotating := bearingChanges options s0,
         pitching := pitchChanges options s0,
         moving := True,
         fired := fired s0 @ startEvents eventData (opt_noMoveStart options = Some True)
                               (easeFlags options s0),
         timeouts := timeouts (clearTimeout (easeEndTimeoutID s0) s0)\<rparr>"
  by (cases "easeEndTimeoutID s0")
     (simp_all add: easeReady_def Let_def prepareEase_quiet easeFlags_def clearTimeout_def)

lemma startEvents_easeFlags:
  "startEvents eventData (opt_noMoveStart options = Some True) (easeFlags options s0)
     = (if opt_noMoveStart options = Some True then [] else [Event ''movestart'' eventData])
       @ axisEvents ''start'' eventData (zoomChanges options s0) (bearingChanges options s0)
           (pitchChanges options s0)"
  by (simp add: startEvents_def easeFlags_def)

lemma changes_stop_quiet [simp]:
  "zoomChanges options (stop quiet s) = zoomChanges options s"
  "bearingChanges options (stop quiet s) = bearingChanges options s"
  "pitchChanges options (stop quiet s) = pitchChanges options s"
  "bearingTarget options (stop quiet s) = bearingTarget options s"
  by (simp_all add: zoomChanges_def bearingChanges_def pitchChanges_def bearingTarget_def
        split: option.splits)

lemma ease_animated:
  assumes "\<not> immediate options"
  shows "ease X react now fr fin (easeToOptions X options) s3 =
     Inr (s3\<lparr>easeStart := now,
              easeOpts := Some \<lparr>eo_duration = the (opt_duration (easeToOptions X options)),
                                eo_easing = the (opt_easing (easeToOptions X options))\<rparr>,
              onEaseFrame := Some fr, onEaseEnd := Some fin,
              lastFrame := Suc (lastFrame s3),
              renderFrames := renderFrames s3 @ [Suc (lastFrame s3)],
              easeFrameId := Some (Suc (lastFrame s3))\<rparr>)"
proof -
  have i: "opt_animate options \<noteq> Some False" using assms by (auto simp: immediate_def)
  show ?thesis using assms i by (simp add: ease_def requestRenderFrame_def Let_def)
qed

lemma ease_immediate:
  assumes "immediate options"
  shows "ease X react now fr fin (easeToOptions X options) s3 =
     (case applyFrame X react fr 1 s3 of
        Inl e \<Rightarrow> Inl e
      | Inr s4 \<Rightarrow> Inr (runFinish react fin s4))"
  using assms by (simp add: ease_def)

lemma easeTo_quiet_animated:
  assumes "\<not> immediate options"
  shows "\<exists>s'. easeTo X quiet now options eventData s = Inr s'
     \<and> fired s' = fired (stop quiet s) @ easeStarts options eventData s
     \<and> zooming s' = zoomChanges options s
     \<and> rotating s' = bearingChanges options s
     \<and> pitching s' = pitchChanges options s
     \<and> moving s'
     \<and> transform s' = transform s
     \<and> onEaseEnd s' = Some (EaseFinish eventData (opt_delayEndEvents options))
     \<and> onEaseFrame s' = Some (EaseFrame (easeFrameOf X options eventData (stop quiet s)))
     \<and> easeFrameId s' = Some (Suc (lastFrame s))
     \<and> renderFrames s' = renderFrames (cancelled s) @ [Suc (lastFrame s)]
     \<and> lastFrame s' = Suc (lastFrame s)
     \<and> easeStart s' = now
     \<and> easeOpts s' = Some \<lparr>eo_duration = orCurrent (opt_duration options) 500,
                              eo_easing = orCurrent (opt_easing options) (defaultEasing X)\<rparr>
     \<and> timeouts s' = timeouts (clearTimeout (easeEndTimeoutID (stop quiet s)) (stop quiet s))"
proof -
  have i: "opt_animate options \<noteq> Some False" using assms by (auto simp: immediate_def)
  have d: "the (opt_duration (easeToOptions X options)) = orCurrent (opt_duration options) 500"
    "the (opt_easing (easeToOptions X options)) = orCurrent (opt_easing options) (defaultEasing X)"
    using i by (auto simp: easeToOptions_def extendOptions_def easeToDefaults_def noOptions_def
          orElse_def orCurrent_def Let_def split: option.splits)
  show ?thesis
    by (simp add: easeTo_steps ease_animated [OF assms] easeReady_quiet startEvents_easeFlags
        easeStarts_def stop_quiet_fields d)
qed

lemma easeTo_quiet_immediate:
  assumes "immediate options"
  shows "\<exists>s'. easeTo X quiet now options eventData s = Inr s'
     \<and> fired s' = fired (stop quiet s) @ easeStarts options eventData s
                   @ easeMoves options eventData s
                   @ (if truthy (opt_delayEndEvents options) then []
                      else easeEnds options eventData s)
     \<and> zoom (transform s')
         = (if zoomChanges options s
            then clamp (orCurrent (opt_zoom options) (getZoom s))
                   (minZoom (transform s)) (maxZoom (transform s))
            else getZoom s)
     \<and> bearing (transform s') = bearingTarget options s
     \<and> pitch (transform s') = orCurrent (opt_pitch options) (getPitch s)
     \<and> \<not> isEasing s'
     \<and> onEaseEnd s' = None
     \<and> lastFrame s' = lastFrame s
     \<and> renderFrames s' = renderFrames (cancelled s)
     \<and> timeouts s' =
         timeouts (clearTimeout (easeEndTimeoutID (stop quiet s)) (stop quiet s))
         @ (if truthy (opt_delayEndEvents options)
            then [(Suc (lastTimeout (stop quiet s)), the (opt_delayEndEvents options), eventData)]
            else [])"
proof -
  let ?s0 = "stop quiet s"
  let ?f = "easeFrameOf X options eventData ?s0"
  let ?fin = "EaseFinish eventData (opt_delayEndEvents options)"
  let ?s3 = "easeReady quiet options eventData ?s0"
  obtain tr where tr: "frameTransform X (EaseFrame ?f) 1 ?s3 = Inr tr"
    "zoom tr = (if zooming ?s3
                then clamp (ef_zoom ?f) (minZoom (transform ?s3)) (maxZoom (transform ?s3))
                else zoom (transform ?s3))"
    "bearing tr = (if rotating ?s3 then ef_bearing ?f else bearing (transform ?s3))"
    "pitch tr = (if pitching ?s3 then ef_pitch ?f else pitch (transform ?s3))"
    using frameTransform_ease_final [of X ?f ?s3] by blast
  let ?s4 = "?s3\<lparr>transform := tr, fired := fired ?s3 @ moveEvents eventData ?s3\<rparr>"
  have ed: "frameEventData (EaseFrame ?f) = eventData"
    by (simp add: frameEventData_def easeFrameOf_def Let_def)
  have e: "easeTo X quiet now options eventData s = Inr (runFinish quiet ?fin ?s4)"
    using applyFrame_quiet [OF tr(1)] by (simp add: easeTo_steps ease_immediate [OF assms] ed)
  have s3: "zooming ?s3 = zoomChanges options s" "rotating ?s3 = bearingChanges options s"
    "pitching ?s3 = pitchChanges options s" "transform ?s3 = transform s"
    "fired ?s3 = fired ?s0 @ easeStarts options eventData s"
    "onEaseEnd ?s3 = None" "lastFrame ?s3 = lastFrame s"
    "renderFrames ?s3 = renderFrames (cancelled s)" "\<not> isEasing ?s3"
    "timeouts ?s3 = timeouts (clearTimeout (easeEndTimeoutID ?s0) ?s0)"
    "lastTimeout ?s3 = lastTimeout ?s0"
    using stop_quiet_fields(3) [of s]
    by (simp_all add: easeReady_quiet startEvents_easeFlags easeStarts_def stop_quiet_fields
          isEasing_def)
  have f: "ef_zoom ?f = orCurrent (opt_zoom options) (getZoom s)"
    "ef_bearing ?f = bearingTarget options s"
    "ef_pitch ?f = orCurrent (opt_pitch options) (getPitch s)"
    by (simp_all add: easeFrameOf_def Let_def)
  have z: "zoom tr = (if zoomChanges options s
            then clamp (orCurrent (opt_zoom options) (getZoom s))
                   (minZoom (transform s)) (maxZoom (transform s))
            else getZoom s)"
    using tr(2) by (simp add: s3 f getZoom_def)
  have b: "bearing tr = bearingTarget options s"
    using tr(3) by (auto simp: s3 f bearingChanges_def getBearing_def)
  have p: "pitch tr = orCurrent (opt_pitch options) (getPitch s)"
    using tr(4) by (auto simp: s3 f pitchChanges_def getPitch_def)
  have m: "moveEvents eventData ?s3 = easeMoves options eventData s"
    by (simp add: moveEvents_def easeMoves_def s3)
  have n: "endEvents eventData ?s4 = easeEnds options eventData s"
    by (simp add: endEvents_def easeEnds_def s3)
  have d: "delays ?fin = truthy (opt_delayEndEvents options)" "finishData ?fin = eventData"
    by (simp_all add: delays_def finishData_def)
  have r: "runFinish quiet ?fin ?s4 =
     (if truthy (opt_delayEndEvents options)
      then ?s4\<lparr>lastTimeout := Suc (lastTimeout ?s4),
             timeouts := timeouts ?s4 @ [(Suc (lastTimeout ?s4), the (opt_delayEndEvents options), eventData)],
             easeEndTimeoutID := Some (Suc (lastTimeout ?s4))\<rparr>
      else (idle ?s4)\<lparr>fired := fired ?s4 @ easeEnds options eventData s\<rparr>)"
    unfolding runFinish_quiet d n by simp
  have i: "\<not> isEasing (runFinish quiet ?fin ?s4)"
    using s3(9) unfolding r by (simp add: isEasing_def idle_def)
  have "fired (runFinish quiet ?fin ?s4) = fired (stop quiet s) @ easeStarts options eventData s
                   @ easeMoves options eventData s
                   @ (if truthy (opt_delayEndEvents options) then []
                      else easeEnds options eventData s)"
    unfolding r by (simp add: s3 m idle_def)
  moreover have "transform (runFinish quiet ?fin ?s4) = tr"
    unfolding r by (simp add: idle_def)
  moreover have "onEaseEnd (runFinish quiet ?fin ?s4) = None"
    "lastFrame (runFinish quiet ?fin ?s4) = lastFrame s"
    "renderFrames (runFinish quiet ?fin ?s4) = renderFrames (cancelled s)"
    "timeouts (runFinish quiet ?fin ?s4) =
         timeouts (clearTimeout (easeEndTimeoutID ?s0) ?s0)
         @ (if truthy (opt_delayEndEvents options)
            then [(Suc (lastTimeout ?s0), the (opt_delayEndEvents options), eventData)]
            else [])"
    unfolding r by (simp_all add: s3 idle_def)
  ultimately show ?thesis
    using i z b p e by simp
qed

lemma Math_pow_positive: "0 < b \<Longrightarrow> \<exists>v. Math_pow b e = Some v"
  by (simp add: Math_pow_def)

lemma frameTransform_ease_ok:
  assumes "0 < ef_finalScale f"
  shows "\<exists>tr. frameTransform X (EaseFrame f) k s = Inr tr"
proof (cases "ef_around f")
  case None
  let ?base = "if ef_startZoom f < ef_zoom f then min 2 (ef_finalScale f)
               else max (1 / 2) (ef_finalScale f)"
  have "0 < ?base" using assms by (simp add: less_max_iff_disj)
  then obtain v where "Math_pow ?base (1 - k) = Some v"
    using Math_pow_positive by blast
  then show ?thesis using None by (simp add: Let_def)
next
  case (Some a)
  then show ?thesis by (cases a) (simp add: Let_def)
qed

lemma easeFrameOf_fields:
  "ef_finalScale (easeFrameOf X options eventData s0)
     = zoomScale X (orCurrent (opt_zoom options) (getZoom s0) - getZoom s0)"
  "ef_eventData (easeFrameOf X options eventData s0) = eventData"
  by (simp_all add: easeFrameOf_def Let_def)

lemma renderFrameCallback_quiet:
  assumes fr: "onEaseFrame s = Some fr" and eo: "easeOpts s = Some eo"
      and d: "eo_duration eo \<noteq> 0"
      and tr: "frameTransform X fr (eo_easing eo (min ((now - easeStart s) / eo_duration eo) 1)) s = Inr tr"
  shows "renderFrameCallback X quiet now s =
     Inr (let s1 = s\<lparr>transform := tr, fired := fired s @ moveEvents (frameEventData fr) s\<rparr>
          in if (now - easeStart s) / eo_duration eo < 1
             then s1\<lparr>lastFrame := Suc (lastFrame s), renderFrames := renderFrames s @ [Suc (lastFrame s)],
                      easeFrameId := Some (Suc (lastFrame s))\<rparr>
             else stop quiet s1)"
proof -
  let ?q = "(now - easeStart s) / eo_duration eo"
  have t: "js_min (js_div (Fin (now - easeStart s)) (Fin (eo_duration eo))) (Fin 1) = Fin (min ?q 1)"
    using d by (auto simp: js_min_def min_def)
  have m: "(min ?q 1 < 1) = (?q < 1)" by auto
  have r: "renderFrameCallback X quiet now s =
     (case js_min (js_div (Fin (now - easeStart s)) (Fin (eo_duration eo))) (Fin 1) of
        Fin t \<Rightarrow>
          (case applyFrame X quiet fr (eo_easing eo t) s of
             Inl e \<Rightarrow> Inl e
           | Inr s1 \<Rightarrow>
               (if t < 1
                then (let (fid, s2) = requestRenderFrame s1 in Inr (s2\<lparr>easeFrameId := Some fid\<rparr>))
                else Inr (stop quiet s1)))
      | _ \<Rightarrow> Inl NonFinite)"
    by (simp only: renderFrameCallback_def fr eo option.case prod.case)
  show ?thesis
    unfolding r t
    by (simp add: m applyFrame_quiet [OF tr] requestRenderFrame_def Let_def)
qed

lemma easeFrameOf_cong:
  assumes "opt_zoom a = opt_zoom b" "opt_bearing a = opt_bearing b" "opt_pitch a = opt_pitch b"
    "opt_center a = opt_center b" "opt_around a = opt_around b" "opt_offset a = opt_offset b"
  shows "easeFrameOf X a eventData s0 = easeFrameOf X b eventData s0"
  using assms
  by (simp add: easeFrameOf_def Let_def bearingTarget_def cong: option.case_cong)

lemma easeReady_cong:
  assumes "opt_zoom a = opt_zoom b" "opt_bearing a = opt_bearing b" "opt_pitch a = opt_pitch b"
    "opt_noMoveStart a = opt_noMoveStart b"
  shows "easeReady react a eventData s0 = easeReady react b eventData s0"
  using assms
  by (simp add: easeReady_def easeFlags_def zoomChanges_def bearingChanges_def pitchChanges_def
        bearingTarget_def Let_def)

lemma easeTo_animate_false:
  "easeTo X react now (options\<lparr>opt_animate := Some False\<rparr>) eventData s
     = easeTo X react now (options\<lparr>opt_duration := Some 0\<rparr>) eventData s"
proof -
  have i: "immediate (options\<lparr>opt_animate := Some False\<rparr>)"
          "immediate (options\<lparr>opt_duration := Some 0\<rparr>)"
    by (simp_all add: immediate_def)
  have f: "easeFrameOf X (options\<lparr>opt_animate := Some False\<rparr>) eventData (stop react s)
           = easeFrameOf X (options\<lparr>opt_duration := Some 0\<rparr>) eventData (stop react s)"
    by (rule easeFrameOf_cong) simp_all
  have r: "easeReady react (options\<lparr>opt_animate := Some False\<rparr>) eventData (stop react s)
           = easeReady react (options\<lparr>opt_duration := Some 0\<rparr>) eventData (stop react s)"
    by (rule easeReady_cong) simp_all
  show ?thesis
    by (simp add: easeTo_steps ease_immediate [OF i(1)] ease_immediate [OF i(2)] f r)
qed

text \<open>
  C5 (as the code has it). For every camera, with listeners that leave it alone:
  \<open>easeTo({zoom: startZoom + 2, duration: 0})\<close>, where \<open>startZoom\<close> is the current
  zoom, returns with the ease complete (no frame requested, no completion pending), has
  fired, after the events of \<^verbatim>\<open>stop\<close>, \<^verbatim>\<open>movestart, zoomstart, move, zoom, zoomend,
  moveend\<close> in this order, and the zoom is then \<open>startZoom + 2\<close> as the Transform
  stores it, clamped to its bounds: it is \<open>startZoom + 2\<close> when this is within the
  bounds. With \<open>animate: false\<close> the duration of the options is 0, and the call is the
  same as the one with \<open>duration: 0\<close>, for all options and all listeners.
\<close>

theorem easeTo_zoom_immediate:
  "(\<exists>s'. easeTo X quiet now (noOptions\<lparr>opt_zoom := Some (getZoom s + 2), opt_duration := Some 0\<rparr>)
            eventData s = Inr s'
      \<and> fired s' = fired (stop quiet s)
           @ [Event ''movestart'' eventData, Event ''zoomstart'' eventData,
              Event ''move'' eventData, Event ''zoom'' eventData,
              Event ''zoomend'' eventData, Event ''moveend'' eventData]
      \<and> getZoom s' = clamp (getZoom s + 2) (minZoom (transform s)) (maxZoom (transform s))
      \<and> (withinBounds (Some (getZoom s + 2)) (transform s) \<longrightarrow> getZoom s' = getZoom s + 2)
      \<and> \<not> isEasing s' \<and> onEaseEnd s' = None \<and> lastFrame s' = lastFrame s)
   \<and> opt_duration (easeToOptions X (options\<lparr>opt_animate := Some False\<rparr>)) = Some 0
   \<and> easeTo X react now (options\<lparr>opt_animate := Some False\<rparr>) eventData s
       = easeTo X react now (options\<lparr>opt_duration := Some 0\<rparr>) eventData s"
proof -
  let ?o = "noOptions\<lparr>opt_zoom := Some (getZoom s + 2), opt_duration := Some 0\<rparr>"
  let ?z = "clamp (getZoom s + 2) (minZoom (transform s)) (maxZoom (transform s))"
  have i: "immediate ?o" by (simp add: immediate_def)
  have c: "zoomChanges ?o s" "\<not> bearingChanges ?o s" "\<not> pitchChanges ?o s"
    by (simp_all add: zoomChanges_def bearingChanges_def pitchChanges_def bearingTarget_def
          noOptions_def orCurrent_def)
  have o: "opt_noMoveStart ?o = None" "opt_delayEndEvents ?o = None"
    "opt_zoom ?o = Some (getZoom s + 2)"
    by (simp_all add: noOptions_def)
  have e: "easeStarts ?o eventData s = [Event ''movestart'' eventData, Event ''zoomstart'' eventData]"
    "easeMoves ?o eventData s = [Event ''move'' eventData, Event ''zoom'' eventData]"
    "easeEnds ?o eventData s = [Event ''zoomend'' eventData, Event ''moveend'' eventData]"
    by (simp_all add: easeStarts_def easeMoves_def easeEnds_def axisEvents_def c o)
  obtain s' where s': "easeTo X quiet now ?o eventData s = Inr s'"
     "fired s' = fired (stop quiet s) @ easeStarts ?o eventData s @ easeMoves ?o eventData s
                   @ (if truthy (opt_delayEndEvents ?o) then [] else easeEnds ?o eventData s)"
     "zoom (transform s')
         = (if zoomChanges ?o s
            then clamp (orCurrent (opt_zoom ?o) (getZoom s))
                   (minZoom (transform s)) (maxZoom (transform s))
            else getZoom s)"
     "\<not> isEasing s'" "onEaseEnd s' = None" "lastFrame s' = lastFrame s"
    using easeTo_quiet_immediate [OF i, of X now eventData s] by blast
  have a: "\<exists>s'. easeTo X quiet now ?o eventData s = Inr s'
      \<and> fired s' = fired (stop quiet s)
           @ [Event ''movestart'' eventData, Event ''zoomstart'' eventData,
              Event ''move'' eventData, Event ''zoom'' eventData,
              Event ''zoomend'' eventData, Event ''moveend'' eventData]
      \<and> getZoom s' = ?z
      \<and> (withinBounds (Some (getZoom s + 2)) (transform s) \<longrightarrow> getZoom s' = getZoom s + 2)
      \<and> \<not> isEasing s' \<and> onEaseEnd s' = None \<and> lastFrame s' = lastFrame s"
  proof -
    have f: "fired s' = fired (stop quiet s)
           @ [Event ''movestart'' eventData, Event ''zoomstart'' eventData,
              Event ''move'' eventData, Event ''zoom'' eventData,
              Event ''zoomend'' eventData, Event ''moveend'' eventData]"
      using s'(2) unfolding e o by (simp add: truthy_def)
    have z: "getZoom s' = ?z"
      using s'(3) c(1) unfolding o by (simp add: orCurrent_def getZoom_def)
    have w: "withinBounds (Some (getZoom s + 2)) (transform s) \<longrightarrow> getZoom s' = getZoom s + 2"
      unfolding z by (auto simp: withinBounds_def clamp_def)
    show ?thesis using s'(1,4,5,6) f z w by blast
  qed
  have b: "opt_duration (easeToOptions X (options\<lparr>opt_animate := Some False\<rparr>)) = Some 0"
    by simp
  show ?thesis using a b easeTo_animate_false by blast
qed

lemma demo_rest: "stop quiet demoCamera = demoCamera" "getZoom demoCamera = 4"
  "withinBounds (Some 6) (transform demoCamera)" "fired demoCamera = []"
  by (simp_all add: stop_idle demoCamera_def isEasing_def getZoom_def demoTransform_def
        withinBounds_def)

text \<open>
  The example: \<^verbatim>\<open>easeTo({zoom: 6, duration: 0})\<close> on the camera at rest at zoom 4, whose
  bounds are 0 and 22.
\<close>

theorem easeTo_zoom_immediate_witness:
  "withinBounds (Some (getZoom demoCamera + 2)) (transform demoCamera)
   \<and> getZoom demoCamera + 2 = 6
   \<and> (\<exists>s'. easeTo flat quiet 0
              (noOptions\<lparr>opt_zoom := Some (getZoom demoCamera + 2), opt_duration := Some 0\<rparr>) []
              demoCamera = Inr s'
         \<and> map etype (fired s')
             = [''movestart'', ''zoomstart'', ''move'', ''zoom'', ''zoomend'', ''moveend'']
         \<and> getZoom s' = 6 \<and> \<not> isEasing s')"
proof -
  note t = easeTo_zoom_immediate [of flat 0 demoCamera "[]" noOptions quiet]
  have w: "withinBounds (Some (getZoom demoCamera + 2)) (transform demoCamera)"
    "getZoom demoCamera + 2 = 6"
    using demo_rest(3) by (simp_all add: demo_rest(2))
  obtain s' where s': "easeTo flat quiet 0
              (noOptions\<lparr>opt_zoom := Some (getZoom demoCamera + 2), opt_duration := Some 0\<rparr>) []
              demoCamera = Inr s'"
    "fired s' = fired (stop quiet demoCamera)
           @ [Event ''movestart'' [], Event ''zoomstart'' [],
              Event ''move'' [], Event ''zoom'' [],
              Event ''zoomend'' [], Event ''moveend'' []]"
    "getZoom s' = getZoom demoCamera + 2" "\<not> isEasing s'"
    using t w(1) by blast
  have f: "map etype (fired s')
             = [''movestart'', ''zoomstart'', ''move'', ''zoom'', ''zoomend'', ''moveend'']"
    by (simp add: s'(2) demo_rest(1,4) Event_def)
  have z: "getZoom s' = 6" using s'(3) w(2) by simp
  have "easeTo flat quiet 0
              (noOptions\<lparr>opt_zoom := Some (getZoom demoCamera + 2), opt_duration := Some 0\<rparr>) []
              demoCamera = Inr s'
         \<and> map etype (fired s')
             = [''movestart'', ''zoomstart'', ''move'', ''zoom'', ''zoomend'', ''moveend'']
         \<and> getZoom s' = 6 \<and> \<not> isEasing s'"
    using s'(1,4) f z by simp
  then have "\<exists>s'. easeTo flat quiet 0
              (noOptions\<lparr>opt_zoom := Some (getZoom demoCamera + 2), opt_duration := Some 0\<rparr>) []
              demoCamera = Inr s'
         \<and> map etype (fired s')
             = [''movestart'', ''zoomstart'', ''move'', ''zoom'', ''zoomend'', ''moveend'']
         \<and> getZoom s' = 6 \<and> \<not> isEasing s'"
    by (rule exI)
  then show ?thesis using w by simp
qed

lemma demoHigh_fields: "stop quiet demoHigh = demoHigh" "getZoom demoHigh = 21"
  "minZoom (transform demoHigh) = 0" "maxZoom (transform demoHigh) = 22" "fired demoHigh = []"
  by (simp_all add: stop_idle demoHigh_def demoCamera_def isEasing_def getZoom_def
        demoTransform_def)

text \<open>
  The sentence of C5 as it was written fails on the camera at rest at zoom 21 with
  the bounds 0 and 22: \<^verbatim>\<open>easeTo({zoom: 23, duration: 0})\<close> fires the six events and the
  zoom is then 22 and not 23.
\<close>

theorem easeTo_zoom_clamped:
  "getZoom demoHigh = 21 \<and> maxZoom (transform demoHigh) = 22
   \<and> (\<exists>s'. easeTo flat quiet 0
              (noOptions\<lparr>opt_zoom := Some (getZoom demoHigh + 2), opt_duration := Some 0\<rparr>) []
              demoHigh = Inr s'
         \<and> map etype (fired s')
             = [''movestart'', ''zoomstart'', ''move'', ''zoom'', ''zoomend'', ''moveend'']
         \<and> getZoom s' = 22 \<and> getZoom s' \<noteq> getZoom demoHigh + 2)"
proof -
  let ?o = "noOptions\<lparr>opt_zoom := Some (getZoom demoHigh + 2), opt_duration := Some 0\<rparr>"
  have i: "immediate ?o" by (simp add: immediate_def)
  have c: "zoomChanges ?o demoHigh" "\<not> bearingChanges ?o demoHigh" "\<not> pitchChanges ?o demoHigh"
    by (simp_all add: zoomChanges_def bearingChanges_def pitchChanges_def bearingTarget_def
          noOptions_def orCurrent_def)
  have o: "opt_noMoveStart ?o = None" "opt_delayEndEvents ?o = None"
    "opt_zoom ?o = Some (getZoom demoHigh + 2)"
    by (simp_all add: noOptions_def)
  obtain s' where s': "easeTo flat quiet 0 ?o [] demoHigh = Inr s'"
     "fired s' = fired (stop quiet demoHigh) @ easeStarts ?o [] demoHigh @ easeMoves ?o [] demoHigh
                   @ (if truthy (opt_delayEndEvents ?o) then [] else easeEnds ?o [] demoHigh)"
     "zoom (transform s')
         = (if zoomChanges ?o demoHigh
            then clamp (orCurrent (opt_zoom ?o) (getZoom demoHigh))
                   (minZoom (transform demoHigh)) (maxZoom (transform demoHigh))
            else getZoom demoHigh)"
    using easeTo_quiet_immediate [OF i, of flat 0 "[]" demoHigh] by blast
  have e: "easeStarts ?o [] demoHigh = [Event ''movestart'' [], Event ''zoomstart'' []]"
    "easeMoves ?o [] demoHigh = [Event ''move'' [], Event ''zoom'' []]"
    "easeEnds ?o [] demoHigh = [Event ''zoomend'' [], Event ''moveend'' []]"
    by (simp_all add: easeStarts_def easeMoves_def easeEnds_def axisEvents_def c o)
  have f: "map etype (fired s')
             = [''movestart'', ''zoomstart'', ''move'', ''zoom'', ''zoomend'', ''moveend'']"
    unfolding s'(2) e o
    by (simp add: truthy_def demoHigh_fields Event_def)
  have z: "getZoom s' = 22"
    using s'(3) c(1) unfolding o
    by (simp add: orCurrent_def getZoom_def [of s'] demoHigh_fields clamp_def)
  show ?thesis
    using s'(1) f z by (auto simp: demoHigh_fields)
qed


subsection \<open>One animation at a time\<close>

lemma easeTo_quiet_events:
  "\<exists>s'. easeTo X quiet now options eventData s = Inr s'
     \<and> fired s' = fired (stop quiet s) @ easeAll options eventData s
     \<and> renderFrames s' = renderFrames (cancelled s) @ (if immediate options then [] else [Suc (lastFrame s)])
     \<and> timeouts s' =
         timeouts (clearTimeout (easeEndTimeoutID (stop quiet s)) (stop quiet s))
         @ (if immediate options \<and> truthy (opt_delayEndEvents options)
            then [(Suc (lastTimeout (stop quiet s)), the (opt_delayEndEvents options), eventData)]
            else [])
     \<and> (immediate options \<longrightarrow> \<not> isEasing s' \<and> onEaseEnd s' = None)
     \<and> (\<not> immediate options \<longrightarrow>
           onEaseEnd s' = Some (EaseFinish eventData (opt_delayEndEvents options))
           \<and> easeFrameId s' = Some (Suc (lastFrame s)))"
proof (cases "immediate options")
  case True
  then show ?thesis
    using easeTo_quiet_immediate [OF True, of X now eventData s]
    by (auto simp: easeAll_def)
next
  case False
  then show ?thesis
    using easeTo_quiet_animated [OF False, of X now eventData s]
    by (auto simp: easeAll_def)
qed

lemma inFlight_cancelled:
  "inFlight s \<Longrightarrow> renderFrames (cancelled s) = [] \<and> isEasing s"
  by (auto simp: inFlight_def cancelled_def cancelRenderFrame_def isEasing_def split: option.splits)

lemma easeAll_head:
  "opt_noMoveStart options \<noteq> Some True \<Longrightarrow>
   easeAll options eventData s = Event ''movestart'' eventData # tl (easeAll options eventData s)"
  by (simp add: easeAll_def easeStarts_def)


lemma stop_quiet_idem: "stop quiet (stop quiet s) = stop quiet s"
  by (rule stop_idle) (simp_all add: stop_quiet_fields)

lemma jumpTo_stops_first: "jumpTo quiet options eventData (stop quiet s) = jumpTo quiet options eventData s"
  by (simp only: jumpTo_def stop_quiet_idem)

lemma easeTo_stops_first:
  "easeTo X quiet now options eventData (stop quiet s) = easeTo X quiet now options eventData s"
  by (simp only: easeTo_steps stop_quiet_idem)

lemma flyTo_stops_first:
  "flyTo X quiet now options eventData (stop quiet s) = flyTo X quiet now options eventData s"
  by (simp only: flyTo_def stop_quiet_idem)

lemma jumpTo_after_stop:
  assumes "stop react s = stop react t"
  shows "jumpTo react options eventData s = jumpTo react options eventData t"
  using assms by (simp only: jumpTo_def)

lemma easeTo_after_stop:
  assumes "stop react s = stop react t"
  shows "easeTo X react now options eventData s = easeTo X react now options eventData t"
  using assms by (simp only: easeTo_steps)

lemma flyTo_after_stop:
  assumes "stop react s = stop react t"
  shows "flyTo X react now options eventData s = flyTo X react now options eventData t"
  using assms by (simp only: flyTo_def)

lemma stop_quiet_delayed_state:
  assumes "onEaseEnd s = Some cb" "delays cb" "timersFresh s"
  shows "fired (stop quiet s) = fired s"
    "timeouts (clearTimeout (easeEndTimeoutID (stop quiet s)) (stop quiet s)) = timeouts s"
    "lastTimeout (stop quiet s) = Suc (lastTimeout s)"
proof -
  have f: "filter (\<lambda>(j, d, e). j \<noteq> Suc (lastTimeout s)) (timeouts s) = timeouts s"
    using assms(3) filter_fresh [of "lastTimeout s" "timeouts s"] by (simp add: timersFresh_def)
  show "fired (stop quiet s) = fired s"
    "timeouts (clearTimeout (easeEndTimeoutID (stop quiet s)) (stop quiet s)) = timeouts s"
    "lastTimeout (stop quiet s) = Suc (lastTimeout s)"
    using assms(1,2) f by (simp_all add: stop_pending runFinish_quiet clearTimeout_def)
qed

lemma fresh_not_pending:
  "timersFresh s \<Longrightarrow> Suc (lastTimeout s) \<notin> set (map fst (timeouts s))"
  by (auto simp: timersFresh_def list_all_iff)

text \<open>
  C1 (as the code has it). Each of \<^verbatim>\<open>jumpTo\<close>, \<^verbatim>\<open>easeTo\<close> and \<^verbatim>\<open>flyTo\<close> starts with
  \<^verbatim>\<open>stop\<close>: whatever the listeners, what it does depends on the camera only through
  the stopped camera, and with listeners that leave the camera alone it does on the
  stopped camera what it does on the camera itself. With listeners that leave the
  camera alone, for every camera with an animation in flight, a second \<^verbatim>\<open>easeTo\<close>
  (without \<open>noMoveStart\<close>) returns with at most its own frame scheduled. When the
  completion callback of the first animation does not delay its end events, the second
  call fires the end events of the first, with exactly one \<^verbatim>\<open>moveend\<close>, and then its
  own \<^verbatim>\<open>movestart\<close>. When the first animation was started with \<open>delayEndEvents\<close>, no
  \<^verbatim>\<open>moveend\<close> is fired before the \<^verbatim>\<open>movestart\<close> of the second: \<^verbatim>\<open>stop\<close> only sets the
  timer of the end events and \<^verbatim>\<open>easeTo\<close> clears it, so that this timer is no longer
  pending when the call returns.
\<close>

theorem easeTo_second:
  "(stop react s = stop react t \<longrightarrow>
      jumpTo react options eventData s = jumpTo react options eventData t
      \<and> easeTo X react now options eventData s = easeTo X react now options eventData t
      \<and> flyTo X react now options eventData s = flyTo X react now options eventData t)
   \<and> jumpTo quiet options eventData (stop quiet s) = jumpTo quiet options eventData s
   \<and> easeTo X quiet now options eventData (stop quiet s) = easeTo X quiet now options eventData s
   \<and> flyTo X quiet now options eventData (stop quiet s) = flyTo X quiet now options eventData s
   \<and> (inFlight s \<and> onEaseEnd s = Some cb \<and> opt_noMoveStart options \<noteq> Some True \<longrightarrow>
        (\<exists>s'. easeTo X quiet now options eventData s = Inr s'
           \<and> renderFrames s' = (if immediate options then [] else [Suc (lastFrame s)])
           \<and> (\<not> delays cb \<longrightarrow>
                fired s' = fired s @ endEvents (finishData cb) s
                           @ Event ''movestart'' eventData # tl (easeAll options eventData s)
                \<and> occurrences ''moveend'' (endEvents (finishData cb) s) = 1)
           \<and> (delays cb \<and> timersFresh s \<longrightarrow>
                fired s' = fired s @ Event ''movestart'' eventData # tl (easeAll options eventData s)
                \<and> Suc (lastTimeout s) \<notin> set (map fst (timeouts s')))))"
proof (intro conjI impI)
  assume a: "inFlight s \<and> onEaseEnd s = Some cb \<and> opt_noMoveStart options \<noteq> Some True"
  obtain s' where s': "easeTo X quiet now options eventData s = Inr s'"
    "fired s' = fired (stop quiet s) @ easeAll options eventData s"
    "renderFrames s' = renderFrames (cancelled s) @ (if immediate options then [] else [Suc (lastFrame s)])"
    "timeouts s' =
         timeouts (clearTimeout (easeEndTimeoutID (stop quiet s)) (stop quiet s))
         @ (if immediate options \<and> truthy (opt_delayEndEvents options)
            then [(Suc (lastTimeout (stop quiet s)), the (opt_delayEndEvents options), eventData)]
            else [])"
    using easeTo_quiet_events [of X now options eventData s] by blast
  have h: "easeAll options eventData s
             = Event ''movestart'' eventData # tl (easeAll options eventData s)"
    using a easeAll_head [of options eventData s] by blast
  have r: "renderFrames s' = (if immediate options then [] else [Suc (lastFrame s)])"
    using s'(3) a inFlight_cancelled [of s] by simp
  have u: "\<not> delays cb \<longrightarrow>
                fired s' = fired s @ endEvents (finishData cb) s
                           @ Event ''movestart'' eventData # tl (easeAll options eventData s)
                \<and> occurrences ''moveend'' (endEvents (finishData cb) s) = 1"
  proof
    assume n: "\<not> delays cb"
    have "fired (stop quiet s) = fired s @ endEvents (finishData cb) s"
      using a n by (simp add: stop_quiet_undelayed)
    then show "fired s' = fired s @ endEvents (finishData cb) s
                           @ Event ''movestart'' eventData # tl (easeAll options eventData s)
                \<and> occurrences ''moveend'' (endEvents (finishData cb) s) = 1"
      using s'(2) h by simp
  qed
  have d: "delays cb \<and> timersFresh s \<longrightarrow>
                fired s' = fired s @ Event ''movestart'' eventData # tl (easeAll options eventData s)
                \<and> Suc (lastTimeout s) \<notin> set (map fst (timeouts s'))"
  proof
    assume n: "delays cb \<and> timersFresh s"
    note q = stop_quiet_delayed_state [of s cb]
    have q1: "fired (stop quiet s) = fired s" using q(1) a n by blast
    have q2: "timeouts (clearTimeout (easeEndTimeoutID (stop quiet s)) (stop quiet s)) = timeouts s"
      using q(2) a n by blast
    have q3: "lastTimeout (stop quiet s) = Suc (lastTimeout s)" using q(3) a n by blast
    have "Suc (lastTimeout s) \<notin> set (map fst (timeouts s'))"
      using fresh_not_pending [of s] n by (auto simp: s'(4) q2 q3)
    then show "fired s' = fired s @ Event ''movestart'' eventData # tl (easeAll options eventData s)
                \<and> Suc (lastTimeout s) \<notin> set (map fst (timeouts s'))"
      using s'(2) h q1 by simp
  qed
  show "\<exists>s'. easeTo X quiet now options eventData s = Inr s'
           \<and> renderFrames s' = (if immediate options then [] else [Suc (lastFrame s)])
           \<and> (\<not> delays cb \<longrightarrow>
                fired s' = fired s @ endEvents (finishData cb) s
                           @ Event ''movestart'' eventData # tl (easeAll options eventData s)
                \<and> occurrences ''moveend'' (endEvents (finishData cb) s) = 1)
           \<and> (delays cb \<and> timersFresh s \<longrightarrow>
                fired s' = fired s @ Event ''movestart'' eventData # tl (easeAll options eventData s)
                \<and> Suc (lastTimeout s) \<notin> set (map fst (timeouts s')))"
    using s'(1) r u d by blast
next
  assume e: "stop react s = stop react t"
  show "jumpTo react options eventData s = jumpTo react options eventData t"
    using e by (rule jumpTo_after_stop)
  show "easeTo X react now options eventData s = easeTo X react now options eventData t"
    using e by (rule easeTo_after_stop)
  show "flyTo X react now options eventData s = flyTo X react now options eventData t"
    using e by (rule flyTo_after_stop)
qed (simp_all add: jumpTo_stops_first easeTo_stops_first flyTo_stops_first)


lemma demoDelayed_frame: "lastFrame demoDelayed = Suc 0" "transform demoDelayed = demoTransform"
  "easeEndTimeoutID demoDelayed = None" "moving demoDelayed"
  by (simp_all add: demoDelayed_def camera_eval demoCamera_def demoTransform_def flat_def)

lemma demo_inFlight: "inFlight demoInFlight" "inFlight demoDelayed"
  by (simp_all add: inFlight_def demoInFlight_fields demoDelayed_fields demoDelayed_frame)

lemma demo_second_events:
  "easeAll (noOptions\<lparr>opt_zoom := Some 7\<rparr>) [] demoInFlight
     = [Event ''movestart'' [], Event ''zoomstart'' []]"
  "easeAll (noOptions\<lparr>opt_zoom := Some 7\<rparr>) [] demoDelayed
     = [Event ''movestart'' [], Event ''zoomstart'' []]"
  "\<not> immediate (noOptions\<lparr>opt_zoom := Some 7\<rparr>)"
  by (simp_all add: easeAll_def easeStarts_def immediate_def noOptions_def axisEvents_def
        zoomChanges_def bearingChanges_def pitchChanges_def bearingTarget_def orCurrent_def
        getZoom_def getBearing_def getPitch_def demoInFlight_fields demoDelayed_frame
        demoTransform_def)

text \<open>
  The examples: a second \<^verbatim>\<open>easeTo({zoom: 7})\<close> on the camera in flight to zoom 6, and on
  the one whose end events are delayed by 200 ms.
\<close>

theorem easeTo_second_witness:
  "stop quiet demoInFlight = stop quiet (stop quiet demoInFlight)
   \<and> easeTo flat quiet 10 (noOptions\<lparr>opt_zoom := Some 7\<rparr>) [] demoInFlight
       = easeTo flat quiet 10 (noOptions\<lparr>opt_zoom := Some 7\<rparr>) [] (stop quiet demoInFlight)
   \<and> inFlight demoInFlight \<and> onEaseEnd demoInFlight = Some (EaseFinish [] None)
   \<and> \<not> delays (EaseFinish [] None)
   \<and> map etype (fired (started (easeTo flat quiet 10 (noOptions\<lparr>opt_zoom := Some 7\<rparr>) [] demoInFlight)))
       = [''movestart'', ''zoomstart'', ''zoomend'', ''moveend'', ''movestart'', ''zoomstart'']
   \<and> renderFrames (started (easeTo flat quiet 10 (noOptions\<lparr>opt_zoom := Some 7\<rparr>) [] demoInFlight))
       = [2]
   \<and> inFlight demoDelayed \<and> onEaseEnd demoDelayed = Some (EaseFinish [] (Some 200))
   \<and> delays (EaseFinish [] (Some 200)) \<and> timersFresh demoDelayed
   \<and> map etype (fired (started (easeTo flat quiet 10 (noOptions\<lparr>opt_zoom := Some 7\<rparr>) [] demoDelayed)))
       = [''movestart'', ''zoomstart'', ''movestart'', ''zoomstart'']
   \<and> 1 \<notin> set (map fst (timeouts (started (easeTo flat quiet 10 (noOptions\<lparr>opt_zoom := Some 7\<rparr>) [] demoDelayed))))"
proof -
  let ?o = "noOptions\<lparr>opt_zoom := Some 7\<rparr>"
  note t1 = easeTo_second [where options = ?o and eventData = "[]" and s = demoInFlight
      and X = flat and now = 10 and cb = "EaseFinish [] None" and react = quiet
      and t = "stop quiet demoInFlight"]
  note t2 = easeTo_second [where options = ?o and eventData = "[]" and s = demoDelayed
      and X = flat and now = 10 and cb = "EaseFinish [] (Some 200)" and react = quiet
      and t = "stop quiet demoDelayed"]
  have e0: "stop quiet demoInFlight = stop quiet (stop quiet demoInFlight)"
    by (simp add: stop_quiet_idem)
  have e1': "easeTo flat quiet 10 ?o [] demoInFlight
       = easeTo flat quiet 10 ?o [] (stop quiet demoInFlight)"
    using t1 e0 by blast
  have n: "opt_noMoveStart ?o \<noteq> Some True" by (simp add: noOptions_def)
  have d: "\<not> delays (EaseFinish [] None)" "delays (EaseFinish [] (Some 200))"
    "finishData (EaseFinish [] None) = []" "finishData (EaseFinish [] (Some 200)) = []"
    by (simp_all add: delays_def truthy_def finishData_def)
  have f: "timersFresh demoDelayed"
    by (simp add: timersFresh_def demoDelayed_fields)
  have e1: "endEvents [] demoInFlight = [Event ''zoomend'' [], Event ''moveend'' []]"
    by (simp add: endEvents_def axisEvents_def demoInFlight_fields)
  obtain s1 where s1: "easeTo flat quiet 10 ?o [] demoInFlight = Inr s1"
    "renderFrames s1 = (if immediate ?o then [] else [Suc (lastFrame demoInFlight)])"
    "fired s1 = fired demoInFlight @ endEvents (finishData (EaseFinish [] None)) demoInFlight
                           @ Event ''movestart'' [] # tl (easeAll ?o [] demoInFlight)"
    using t1 demo_inFlight(1) demoInFlight_fields(2) n d(1) by blast
  obtain s2 where s2: "easeTo flat quiet 10 ?o [] demoDelayed = Inr s2"
    "fired s2 = fired demoDelayed @ Event ''movestart'' [] # tl (easeAll ?o [] demoDelayed)"
    "Suc (lastTimeout demoDelayed) \<notin> set (map fst (timeouts s2))"
    using t2 demo_inFlight(2) demoDelayed_fields(2) n d(2) f by blast
  have a: "map etype (fired (started (easeTo flat quiet 10 ?o [] demoInFlight)))
       = [''movestart'', ''zoomstart'', ''zoomend'', ''moveend'', ''movestart'', ''zoomstart'']"
    by (simp add: s1 started_def d e1 demo_second_events demoInFlight_fields Event_def)
  have b: "renderFrames (started (easeTo flat quiet 10 ?o [] demoInFlight)) = [2]"
    by (simp add: s1 started_def demo_second_events demoInFlight_fields)
  have c: "map etype (fired (started (easeTo flat quiet 10 ?o [] demoDelayed)))
       = [''movestart'', ''zoomstart'', ''movestart'', ''zoomstart'']"
    by (simp add: s2 started_def demo_second_events demoDelayed_fields Event_def)
  have g: "1 \<notin> set (map fst (timeouts (started (easeTo flat quiet 10 ?o [] demoDelayed))))"
    using s2(3) by (simp add: s2(1) started_def demoDelayed_fields)
  show ?thesis
    using e0 e1' a b c g d f demo_inFlight demoInFlight_fields(2) demoDelayed_fields(2) by blast
qed

lemma demo_restarted_state:
  "lastFrame (stop restart demoInFlight) = 2"
  "transform (stop restart demoInFlight) = demoTransform"
  "easeEndTimeoutID (stop restart demoInFlight) = None"
  "timeouts (stop restart demoInFlight) = []"
  by (simp_all add: stop_pending demoInFlight_fields afterEase_def camera_fire_def restart_def
        Event_def camera_eval flat_def demoTransform_def)

lemma prepareEase_restart:
  "prepareEase restart eventData noMoveStart s = prepareEase quiet eventData noMoveStart s"
  by (simp add: prepareEase_def camera_fire_def restart_def quiet_def Event_def Let_def)

lemma demo_reentrant:
  "renderFrames (started (easeTo flat restart 10 (noOptions\<lparr>opt_zoom := Some 7\<rparr>) [] demoInFlight))
     = [2, 3]"
  "onEaseEnd (started (easeTo flat restart 10 (noOptions\<lparr>opt_zoom := Some 7\<rparr>) [] demoInFlight))
     = Some (EaseFinish [] None)"
  "map etype (fired (started (easeTo flat restart 10 (noOptions\<lparr>opt_zoom := Some 7\<rparr>) []
      demoInFlight)))
     = [''movestart'', ''zoomstart'', ''zoomend'', ''moveend'', ''movestart'', ''pitchstart'',
        ''movestart'', ''zoomstart'']"
proof -
  let ?o = "noOptions\<lparr>opt_zoom := Some 7\<rparr>"
  let ?s0 = "stop restart demoInFlight"
  let ?s3 = "easeReady restart ?o [] ?s0"
  have n: "\<not> immediate ?o" by (simp add: immediate_def noOptions_def)
  have c: "zoomChanges ?o ?s0" "\<not> bearingChanges ?o ?s0" "\<not> pitchChanges ?o ?s0"
    "opt_noMoveStart ?o = None"
    by (simp_all add: zoomChanges_def bearingChanges_def pitchChanges_def bearingTarget_def
          orCurrent_def getZoom_def getBearing_def getPitch_def noOptions_def
          demo_restarted_state demoTransform_def)
  have r: "renderFrames ?s3 = [2]" "lastFrame ?s3 = 2"
    "map etype (fired ?s3)
       = [''movestart'', ''zoomstart'', ''zoomend'', ''moveend'', ''movestart'', ''pitchstart'',
          ''movestart'', ''zoomstart'']"
    by (simp_all add: easeReady_def prepareEase_restart prepareEase_quiet easeFlags_def c
          startEvents_def axisEvents_def clearTimeout_def demo_restarted demo_restarted_state
          Let_def Event_def)
  have e: "easeTo flat restart 10 ?o [] demoInFlight
     = Inr (?s3\<lparr>easeStart := 10,
              easeOpts := Some \<lparr>eo_duration = the (opt_duration (easeToOptions flat ?o)),
                                eo_easing = the (opt_easing (easeToOptions flat ?o))\<rparr>,
              onEaseFrame := Some (EaseFrame (easeFrameOf flat ?o [] ?s0)),
              onEaseEnd := Some (EaseFinish [] (opt_delayEndEvents ?o)),
              lastFrame := Suc (lastFrame ?s3),
              renderFrames := renderFrames ?s3 @ [Suc (lastFrame ?s3)],
              easeFrameId := Some (Suc (lastFrame ?s3))\<rparr>)"
    by (simp only: easeTo_steps ease_animated [OF n])
  show "renderFrames (started (easeTo flat restart 10 ?o [] demoInFlight)) = [2, 3]"
    unfolding e by (simp add: started_def r)
  show "onEaseEnd (started (easeTo flat restart 10 ?o [] demoInFlight)) = Some (EaseFinish [] None)"
    unfolding e by (simp add: started_def noOptions_def)
  show "map etype (fired (started (easeTo flat restart 10 ?o [] demoInFlight)))
     = [''movestart'', ''zoomstart'', ''zoomend'', ''moveend'', ''movestart'', ''pitchstart'',
        ''movestart'', ''zoomstart'']"
    unfolding e by (simp add: started_def r)
qed

text \<open>
  The sentence of C1 as it was written fails on the second example: the first
  animation is in flight and has fired \<^verbatim>\<open>movestart, zoomstart\<close>; the second \<^verbatim>\<open>easeTo\<close>
  fires \<^verbatim>\<open>movestart, zoomstart\<close> with no \<^verbatim>\<open>moveend\<close> before them and leaves no timer;
  once the second animation is stopped, two \<^verbatim>\<open>movestart\<close> and one \<^verbatim>\<open>moveend\<close> have been
  fired and nothing is pending. It also fails with a listener that calls back into the
  camera: with \<open>restart\<close>, which answers \<^verbatim>\<open>moveend\<close> with an \<^verbatim>\<open>easeTo\<close>, the second
  \<^verbatim>\<open>easeTo\<close> on the camera in flight returns with two frames scheduled, and the
  completion callback of the listener's animation is overwritten.
\<close>

theorem easeTo_second_drops_moveend:
  "isEasing demoDelayed
   \<and> map etype (fired demoDelayed) = [''movestart'', ''zoomstart'']
   \<and> map etype (fired (started (easeTo flat quiet 10 (noOptions\<lparr>opt_zoom := Some 7\<rparr>) [] demoDelayed)))
       = [''movestart'', ''zoomstart'', ''movestart'', ''zoomstart'']
   \<and> timeouts (started (easeTo flat quiet 10 (noOptions\<lparr>opt_zoom := Some 7\<rparr>) [] demoDelayed)) = []
   \<and> map etype (fired (stop quiet
        (started (easeTo flat quiet 10 (noOptions\<lparr>opt_zoom := Some 7\<rparr>) [] demoDelayed))))
       = [''movestart'', ''zoomstart'', ''movestart'', ''zoomstart'', ''zoomend'', ''moveend'']
   \<and> timeouts (stop quiet
        (started (easeTo flat quiet 10 (noOptions\<lparr>opt_zoom := Some 7\<rparr>) [] demoDelayed))) = []
   \<and> renderFrames (stop quiet
        (started (easeTo flat quiet 10 (noOptions\<lparr>opt_zoom := Some 7\<rparr>) [] demoDelayed))) = []
   \<and> inFlight demoInFlight
   \<and> renderFrames (started (easeTo flat restart 10 (noOptions\<lparr>opt_zoom := Some 7\<rparr>) []
        demoInFlight)) = [2, 3]
   \<and> onEaseEnd (stop restart demoInFlight) = Some (EaseFinish [(''by'', ''listener'')] None)
   \<and> onEaseEnd (started (easeTo flat restart 10 (noOptions\<lparr>opt_zoom := Some 7\<rparr>) []
        demoInFlight)) = Some (EaseFinish [] None)
   \<and> map etype (fired (started (easeTo flat restart 10 (noOptions\<lparr>opt_zoom := Some 7\<rparr>) []
        demoInFlight)))
       = [''movestart'', ''zoomstart'', ''zoomend'', ''moveend'', ''movestart'', ''pitchstart'',
          ''movestart'', ''zoomstart'']"
proof -
  let ?o = "noOptions\<lparr>opt_zoom := Some 7\<rparr>"
  let ?s = "started (easeTo flat quiet 10 ?o [] demoDelayed)"
  have p: "stop quiet demoDelayed
             = runFinish quiet (EaseFinish [] (Some 200)) ((cancelled demoDelayed)\<lparr>onEaseEnd := None\<rparr>)"
    by (simp add: stop_pending demoDelayed_fields)
  have q: "fired (stop quiet demoDelayed) = [Event ''movestart'' [], Event ''zoomstart'' []]"
    "timeouts (stop quiet demoDelayed) = [(Suc 0, 200, [])]"
    "easeEndTimeoutID (stop quiet demoDelayed) = Some (Suc 0)"
    "lastFrame (stop quiet demoDelayed) = Suc 0"
    "renderFrames (stop quiet demoDelayed) = []"
    "transform (stop quiet demoDelayed) = demoTransform"
    by (simp_all add: p runFinish_quiet truthy_def setTimeout_def Let_def demoDelayed_fields
          demoDelayed_frame cancelled_def cancelRenderFrame_def isEasing_def)
  have i: "isEasing demoDelayed"
    by (simp add: isEasing_def demoDelayed_fields)
  have e: "fired ?s = [Event ''movestart'' [], Event ''zoomstart'' [], Event ''movestart'' [],
                        Event ''zoomstart'' []]"
    "timeouts ?s = []" "onEaseEnd ?s = Some (EaseFinish [] None)" "renderFrames ?s = [2]"
    "zooming ?s" "\<not> rotating ?s" "\<not> pitching ?s" "easeFrameId ?s = Some 2"
    by (simp_all add: easeTo_steps ease_def easeReady_quiet easeToOptions_def Let_def q
          startEvents_def axisEvents_def easeFlags_def zoomChanges_def bearingChanges_def
          pitchChanges_def bearingTarget_def orCurrent_def getZoom_def getBearing_def
          getPitch_def demoTransform_def noOptions_def extendOptions_def orElse_def
          easeToDefaults_def clearTimeout_def requestRenderFrame_def started_def flat_def
          truthy_def)
  have s: "stop quiet ?s
             = runFinish quiet (EaseFinish [] None) ((cancelled ?s)\<lparr>onEaseEnd := None\<rparr>)"
    by (simp add: stop_pending e)
  have r: "fired (stop quiet ?s) = fired ?s @ [Event ''zoomend'' [], Event ''moveend'' []]"
    "timeouts (stop quiet ?s) = []" "renderFrames (stop quiet ?s) = []"
    unfolding s
    by (simp_all add: runFinish_quiet truthy_def afterEase_quiet endEvents_def axisEvents_def e
          cancelled_def cancelRenderFrame_def isEasing_def idle_def)
  show ?thesis
    by (simp add: i e r demoDelayed_fields Event_def demo_reentrant demo_restarted(2)
          demo_inFlight(1))
qed

lemma demo_stopped_delayed:
  "fired (stop quiet demoDelayed) = [Event ''movestart'' [], Event ''zoomstart'' []]"
  "timeouts (stop quiet demoDelayed) = [(Suc 0, 200, [])]"
  "easeEndTimeoutID (stop quiet demoDelayed) = Some (Suc 0)"
  "lastFrame (stop quiet demoDelayed) = Suc 0"
  "lastTimeout (stop quiet demoDelayed) = Suc 0"
  "renderFrames (stop quiet demoDelayed) = []"
  "transform (stop quiet demoDelayed) = demoTransform"
  "onEaseEnd (stop quiet demoDelayed) = None"
  by (simp_all add: stop_pending [of demoDelayed "EaseFinish [] (Some 200)"] runFinish_quiet
        delays_def truthy_def setTimeout_def Let_def demoDelayed_fields demoDelayed_frame
        cancelled_def cancelRenderFrame_def isEasing_def)

text \<open>
  The sentence of C2 as it was written, that the end events fire exactly once for
  every animation started, fails on the camera whose end events are delayed by 200 ms:
  \<^verbatim>\<open>stop\<close> fires no end event and leaves no callback; \<^verbatim>\<open>easeTo({zoom: 7, duration:
  0})\<close> then clears the timer, and when it returns two \<^verbatim>\<open>movestart\<close> and one \<^verbatim>\<open>moveend\<close>
  have been fired and nothing is pending.
\<close>

theorem stop_delayed_never_ends:
  "onEaseEnd demoDelayed = Some (EaseFinish [] (Some 200))
   \<and> map etype (fired demoDelayed) = [''movestart'', ''zoomstart'']
   \<and> map etype (fired (stop quiet demoDelayed)) = [''movestart'', ''zoomstart'']
   \<and> onEaseEnd (stop quiet demoDelayed) = None
   \<and> (\<exists>s'. easeTo flat quiet 10 (noOptions\<lparr>opt_zoom := Some 7, opt_duration := Some 0\<rparr>) []
              (stop quiet demoDelayed) = Inr s'
         \<and> map etype (fired s')
             = [''movestart'', ''zoomstart'',
                ''movestart'', ''zoomstart'', ''move'', ''zoom'', ''zoomend'', ''moveend'']
         \<and> occurrences ''movestart'' (fired s') = 2 \<and> occurrences ''moveend'' (fired s') = 1
         \<and> timeouts s' = [] \<and> renderFrames s' = [] \<and> onEaseEnd s' = None \<and> \<not> isEasing s')"
proof -
  let ?o = "noOptions\<lparr>opt_zoom := Some 7, opt_duration := Some 0\<rparr>"
  let ?s = "stop quiet demoDelayed"
  have i: "immediate ?o" by (simp add: immediate_def)
  have c: "zoomChanges ?o demoDelayed" "\<not> bearingChanges ?o demoDelayed"
    "\<not> pitchChanges ?o demoDelayed"
    "opt_noMoveStart ?o = None" "opt_delayEndEvents ?o = None"
    by (simp_all add: zoomChanges_def bearingChanges_def pitchChanges_def bearingTarget_def
          orCurrent_def getZoom_def getBearing_def getPitch_def noOptions_def
          demoDelayed_frame demoTransform_def)
  have e: "easeStarts ?o [] ?s = [Event ''movestart'' [], Event ''zoomstart'' []]"
    "easeMoves ?o [] ?s = [Event ''move'' [], Event ''zoom'' []]"
    "easeEnds ?o [] ?s = [Event ''zoomend'' [], Event ''moveend'' []]"
    by (simp_all add: easeStarts_def easeMoves_def easeEnds_def axisEvents_def c)
  obtain s' where s': "easeTo flat quiet 10 ?o [] ?s = Inr s'"
     "fired s' = fired (stop quiet ?s) @ easeStarts ?o [] ?s @ easeMoves ?o [] ?s
                   @ (if truthy (opt_delayEndEvents ?o) then [] else easeEnds ?o [] ?s)"
     "\<not> isEasing s'" "onEaseEnd s' = None"
     "renderFrames s' = renderFrames (cancelled ?s)"
     "timeouts s' =
         timeouts (clearTimeout (easeEndTimeoutID (stop quiet ?s)) (stop quiet ?s))
         @ (if truthy (opt_delayEndEvents ?o)
            then [(Suc (lastTimeout (stop quiet ?s)), the (opt_delayEndEvents ?o), [])]
            else [])"
    using easeTo_quiet_immediate [OF i, of flat 10 "[]" ?s] by blast
  have f: "fired s' = [Event ''movestart'' [], Event ''zoomstart'' [],
                        Event ''movestart'' [], Event ''zoomstart'' [], Event ''move'' [],
                        Event ''zoom'' [], Event ''zoomend'' [], Event ''moveend'' []]"
    unfolding s'(2) e stop_quiet_idem c by (simp add: truthy_def demo_stopped_delayed)
  have t: "timeouts s' = []"
    unfolding s'(6) stop_quiet_idem c
    by (simp add: truthy_def clearTimeout_def demo_stopped_delayed)
  have r: "renderFrames s' = []"
    unfolding s'(5) by (simp add: cancelled_def cancelRenderFrame_def demo_stopped_delayed)
  have "easeTo flat quiet 10 ?o [] ?s = Inr s'
         \<and> map etype (fired s')
             = [''movestart'', ''zoomstart'',
                ''movestart'', ''zoomstart'', ''move'', ''zoom'', ''zoomend'', ''moveend'']
         \<and> occurrences ''movestart'' (fired s') = 2 \<and> occurrences ''moveend'' (fired s') = 1
         \<and> timeouts s' = [] \<and> renderFrames s' = [] \<and> onEaseEnd s' = None \<and> \<not> isEasing s'"
    using s'(1,3,4) t r by (simp add: f Event_def occurrences_def)
  then have x: "\<exists>s'. easeTo flat quiet 10 ?o [] ?s = Inr s'
         \<and> map etype (fired s')
             = [''movestart'', ''zoomstart'',
                ''movestart'', ''zoomstart'', ''move'', ''zoom'', ''zoomend'', ''moveend'']
         \<and> occurrences ''movestart'' (fired s') = 2 \<and> occurrences ''moveend'' (fired s') = 1
         \<and> timeouts s' = [] \<and> renderFrames s' = [] \<and> onEaseEnd s' = None \<and> \<not> isEasing s'"
    by (rule exI)
  show ?thesis
    using x by (simp add: demoDelayed_fields demo_stopped_delayed Event_def)
qed

subsection \<open>The option \<^verbatim>\<open>noMoveStart\<close>\<close>

lemma occurrences_Nil [simp]: "occurrences t [] = 0"
  by (simp add: occurrences_def)

lemma occurrences_axisEvents [simp]:
  "occurrences ''movestart'' (axisEvents suffix eventData z r p) = 0"
  "occurrences ''moveend'' (axisEvents suffix eventData z r p) = 0"
  by (simp_all add: occurrences_def axisEvents_def Event_def)

lemma occurrences_easeMoves [simp]:
  "occurrences ''movestart'' (easeMoves options eventData s) = 0"
  "occurrences ''moveend'' (easeMoves options eventData s) = 0"
  by (simp_all add: easeMoves_def occurrences_def axisEvents_def Event_def)

lemma occurrences_easeEnds [simp]:
  "occurrences ''movestart'' (easeEnds options eventData s) = 0"
  "occurrences ''moveend'' (easeEnds options eventData s) = 1"
  by (simp_all add: easeEnds_def occurrences_def axisEvents_def Event_def)

lemma easeTo_quiet_frame:
  assumes n: "\<not> immediate options"
    and p: "0 < zoomScale X (orCurrent (opt_zoom options) (getZoom s) - getZoom s)"
    and s1: "easeTo X quiet now options eventData s = Inr s1"
  shows "\<exists>s2. renderFrameCallback X quiet now' s1 = Inr s2
           \<and> fired s2 = fired s1 @ easeMoves options eventData s
                @ (if (now' - now) / orCurrent (opt_duration options) 500 < 1
                      \<or> truthy (opt_delayEndEvents options)
                   then [] else easeEnds options eventData s)
           \<and> (\<not> (now' - now) / orCurrent (opt_duration options) 500 < 1 \<longrightarrow>
                 \<not> isEasing s2 \<and> onEaseEnd s2 = None)"
proof -
  let ?fr = "EaseFrame (easeFrameOf X options eventData (stop quiet s))"
  let ?eo = "\<lparr>eo_duration = orCurrent (opt_duration options) 500,
              eo_easing = orCurrent (opt_easing options) (defaultEasing X)\<rparr>"
  let ?fin = "EaseFinish eventData (opt_delayEndEvents options)"
  let ?q = "(now' - now) / orCurrent (opt_duration options) 500"
  obtain s' where s': "easeTo X quiet now options eventData s = Inr s'"
     "fired s' = fired (stop quiet s) @ easeStarts options eventData s"
     "zooming s' = zoomChanges options s"
     "rotating s' = bearingChanges options s"
     "pitching s' = pitchChanges options s"
     "onEaseEnd s' = Some ?fin"
     "onEaseFrame s' = Some ?fr"
     "easeStart s' = now"
     "easeOpts s' = Some ?eo"
    using easeTo_quiet_animated [OF n, of X now eventData s] by blast
  have e: "s' = s1" using s1 s'(1) by simp
  have d: "eo_duration ?eo \<noteq> 0"
    using n by (auto simp: immediate_def orCurrent_def split: option.splits)
  have "0 < ef_finalScale (easeFrameOf X options eventData (stop quiet s))"
    using p by (simp add: easeFrameOf_fields)
  then obtain tr where tr:
    "frameTransform X ?fr (eo_easing ?eo (min ((now' - easeStart s1) / eo_duration ?eo) 1)) s1 = Inr tr"
    using frameTransform_ease_ok by blast
  let ?s1' = "s1\<lparr>transform := tr, fired := fired s1 @ moveEvents (frameEventData ?fr) s1\<rparr>"
  have r: "renderFrameCallback X quiet now' s1 =
     Inr (if ?q < 1
          then ?s1'\<lparr>lastFrame := Suc (lastFrame s1), renderFrames := renderFrames s1 @ [Suc (lastFrame s1)],
                      easeFrameId := Some (Suc (lastFrame s1))\<rparr>
          else stop quiet ?s1')"
    using renderFrameCallback_quiet [of s1 ?fr ?eo X now' tr] s'(7,8,9) d tr
    unfolding e by (simp add: Let_def)
  have m: "moveEvents (frameEventData ?fr) s1 = easeMoves options eventData s"
    using s'(3,4,5) unfolding e
    by (simp add: moveEvents_def easeMoves_def frameEventData_def easeFrameOf_fields)
  have f: "fired ?s1' = fired s1 @ easeMoves options eventData s"
    by (simp add: m)
  have o: "onEaseEnd ?s1' = Some ?fin" using s'(6) unfolding e by simp
  have de: "delays ?fin = truthy (opt_delayEndEvents options)" "finishData ?fin = eventData"
    by (simp_all add: delays_def finishData_def)
  have en: "endEvents eventData ?s1' = easeEnds options eventData s"
    using s'(3,4,5) unfolding e by (simp add: endEvents_def easeEnds_def)
  have st: "fired (stop quiet ?s1') = fired ?s1'
              @ (if truthy (opt_delayEndEvents options) then [] else easeEnds options eventData s)"
    unfolding stop_pending [OF o] runFinish_quiet de
    using en by (simp add: idle_def endEvents_def)
  show ?thesis
    unfolding r using st f by (simp add: stop_quiet_fields)
qed


text \<open>
  C10. For every camera and all options of \<^verbatim>\<open>easeTo\<close> with \<open>noMoveStart: true\<close>, with
  listeners that leave the camera alone: the call fires, after the events of \<^verbatim>\<open>stop\<close>,
  the start events of the axes that change and no \<^verbatim>\<open>movestart\<close>. An immediate ease
  then fires the move events and, unless they are delayed, the end events with their
  \<^verbatim>\<open>moveend\<close>. Otherwise every frame (when the zoom scale is positive) fires the move
  events, and the frame that reaches the duration also fires, unless they are
  delayed, the end events: one more \<^verbatim>\<open>moveend\<close> has then been fired and no more
  \<^verbatim>\<open>movestart\<close> than before the call.
\<close>

theorem easeTo_noMoveStart:
  "opt_noMoveStart options = Some True \<longrightarrow>
     (\<exists>s1. easeTo X quiet now options eventData s = Inr s1
        \<and> fired s1 = fired (stop quiet s)
             @ axisEvents ''start'' eventData (zoomChanges options s) (bearingChanges options s)
                 (pitchChanges options s)
             @ (if immediate options
                then easeMoves options eventData s
                     @ (if truthy (opt_delayEndEvents options) then []
                        else easeEnds options eventData s)
                else [])
        \<and> occurrences ''movestart'' (fired s1) = occurrences ''movestart'' (fired (stop quiet s))
        \<and> (immediate options \<and> \<not> truthy (opt_delayEndEvents options) \<longrightarrow>
             occurrences ''moveend'' (fired s1) = Suc (occurrences ''moveend'' (fired (stop quiet s))))
        \<and> (\<not> immediate options \<and> positiveScale X \<longrightarrow>
             (\<exists>s2. renderFrameCallback X quiet now' s1 = Inr s2
                \<and> fired s2 = fired s1 @ easeMoves options eventData s
                     @ (if (now' - now) / orCurrent (opt_duration options) 500 < 1
                           \<or> truthy (opt_delayEndEvents options)
                        then [] else easeEnds options eventData s)
                \<and> occurrences ''movestart'' (fired s2)
                    = occurrences ''movestart'' (fired (stop quiet s))
                \<and> (\<not> (now' - now) / orCurrent (opt_duration options) 500 < 1
                    \<and> \<not> truthy (opt_delayEndEvents options) \<longrightarrow>
                      occurrences ''moveend'' (fired s2)
                        = Suc (occurrences ''moveend'' (fired (stop quiet s)))))))"
proof
  assume a: "opt_noMoveStart options = Some True"
  let ?ax = "axisEvents ''start'' eventData (zoomChanges options s) (bearingChanges options s)
                 (pitchChanges options s)"
  let ?q = "(now' - now) / orCurrent (opt_duration options) 500"
  obtain s1 where s1: "easeTo X quiet now options eventData s = Inr s1"
    "fired s1 = fired (stop quiet s) @ easeAll options eventData s"
    using easeTo_quiet_events [of X now options eventData s] by blast
  have f: "fired s1 = fired (stop quiet s) @ ?ax
             @ (if immediate options
                then easeMoves options eventData s
                     @ (if truthy (opt_delayEndEvents options) then []
                        else easeEnds options eventData s)
                else [])"
    using a by (simp add: s1(2) easeAll_def easeStarts_def)
  have m: "occurrences ''movestart'' (fired s1) = occurrences ''movestart'' (fired (stop quiet s))"
    by (simp add: f)
  have e: "immediate options \<and> \<not> truthy (opt_delayEndEvents options) \<longrightarrow>
             occurrences ''moveend'' (fired s1) = Suc (occurrences ''moveend'' (fired (stop quiet s)))"
    by (simp add: f)
  have g: "\<not> immediate options \<and> positiveScale X \<longrightarrow>
             (\<exists>s2. renderFrameCallback X quiet now' s1 = Inr s2
                \<and> fired s2 = fired s1 @ easeMoves options eventData s
                     @ (if ?q < 1 \<or> truthy (opt_delayEndEvents options)
                        then [] else easeEnds options eventData s)
                \<and> occurrences ''movestart'' (fired s2)
                    = occurrences ''movestart'' (fired (stop quiet s))
                \<and> (\<not> ?q < 1 \<and> \<not> truthy (opt_delayEndEvents options) \<longrightarrow>
                      occurrences ''moveend'' (fired s2)
                        = Suc (occurrences ''moveend'' (fired (stop quiet s)))))"
  proof
    assume h: "\<not> immediate options \<and> positiveScale X"
    obtain s2 where s2: "renderFrameCallback X quiet now' s1 = Inr s2"
      "fired s2 = fired s1 @ easeMoves options eventData s
                @ (if ?q < 1 \<or> truthy (opt_delayEndEvents options)
                   then [] else easeEnds options eventData s)"
      using easeTo_quiet_frame [of options X s now eventData s1 now'] h s1(1)
      by (auto simp: positiveScale_def)
    have f1: "fired s1 = fired (stop quiet s) @ ?ax" using f h by simp
    have "occurrences ''movestart'' (fired s2) = occurrences ''movestart'' (fired (stop quiet s))"
      by (simp add: s2(2) f1)
    moreover have "\<not> ?q < 1 \<and> \<not> truthy (opt_delayEndEvents options) \<longrightarrow>
                      occurrences ''moveend'' (fired s2)
                        = Suc (occurrences ''moveend'' (fired (stop quiet s)))"
      by (simp add: s2(2) f1)
    ultimately show "\<exists>s2. renderFrameCallback X quiet now' s1 = Inr s2
                \<and> fired s2 = fired s1 @ easeMoves options eventData s
                     @ (if ?q < 1 \<or> truthy (opt_delayEndEvents options)
                        then [] else easeEnds options eventData s)
                \<and> occurrences ''movestart'' (fired s2)
                    = occurrences ''movestart'' (fired (stop quiet s))
                \<and> (\<not> ?q < 1 \<and> \<not> truthy (opt_delayEndEvents options) \<longrightarrow>
                      occurrences ''moveend'' (fired s2)
                        = Suc (occurrences ''moveend'' (fired (stop quiet s))))"
      using s2 by blast
  qed
  show "\<exists>s1. easeTo X quiet now options eventData s = Inr s1
        \<and> fired s1 = fired (stop quiet s) @ ?ax
             @ (if immediate options
                then easeMoves options eventData s
                     @ (if truthy (opt_delayEndEvents options) then []
                        else easeEnds options eventData s)
                else [])
        \<and> occurrences ''movestart'' (fired s1) = occurrences ''movestart'' (fired (stop quiet s))
        \<and> (immediate options \<and> \<not> truthy (opt_delayEndEvents options) \<longrightarrow>
             occurrences ''moveend'' (fired s1) = Suc (occurrences ''moveend'' (fired (stop quiet s))))
        \<and> (\<not> immediate options \<and> positiveScale X \<longrightarrow>
             (\<exists>s2. renderFrameCallback X quiet now' s1 = Inr s2
                \<and> fired s2 = fired s1 @ easeMoves options eventData s
                     @ (if ?q < 1 \<or> truthy (opt_delayEndEvents options)
                        then [] else easeEnds options eventData s)
                \<and> occurrences ''movestart'' (fired s2)
                    = occurrences ''movestart'' (fired (stop quiet s))
                \<and> (\<not> ?q < 1 \<and> \<not> truthy (opt_delayEndEvents options) \<longrightarrow>
                      occurrences ''moveend'' (fired s2)
                        = Suc (occurrences ''moveend'' (fired (stop quiet s))))))"
    using s1(1) f m e g by blast
qed

lemma flat_positiveScale: "positiveScale flat"
  by (simp add: positiveScale_def flat_def)

lemma demo_noMoveStart:
  "zoomChanges (noOptions\<lparr>opt_zoom := Some 6, opt_noMoveStart := Some True\<rparr>) demoCamera"
  "\<not> bearingChanges (noOptions\<lparr>opt_zoom := Some 6, opt_noMoveStart := Some True\<rparr>) demoCamera"
  "\<not> pitchChanges (noOptions\<lparr>opt_zoom := Some 6, opt_noMoveStart := Some True\<rparr>) demoCamera"
  "zoomChanges (noOptions\<lparr>opt_zoom := Some 6, opt_duration := Some 0, opt_noMoveStart := Some True\<rparr>) demoCamera"
  "\<not> bearingChanges (noOptions\<lparr>opt_zoom := Some 6, opt_duration := Some 0, opt_noMoveStart := Some True\<rparr>) demoCamera"
  "\<not> pitchChanges (noOptions\<lparr>opt_zoom := Some 6, opt_duration := Some 0, opt_noMoveStart := Some True\<rparr>) demoCamera"
  by (simp_all add: zoomChanges_def bearingChanges_def pitchChanges_def bearingTarget_def
        orCurrent_def getZoom_def getBearing_def getPitch_def noOptions_def demoCamera_def
        demoTransform_def)

text \<open>
  The example: \<^verbatim>\<open>easeTo({zoom: 6, noMoveStart: true})\<close> on the camera at rest, with its
  frame at 500 ms, and the same with \<open>duration: 0\<close>.
\<close>

theorem easeTo_noMoveStart_witness:
  "opt_noMoveStart (noOptions\<lparr>opt_zoom := Some 6, opt_noMoveStart := Some True\<rparr>) = Some True
   \<and> \<not> immediate (noOptions\<lparr>opt_zoom := Some 6, opt_noMoveStart := Some True\<rparr>)
   \<and> positiveScale flat
   \<and> map etype (fired (started (easeTo flat quiet 0
         (noOptions\<lparr>opt_zoom := Some 6, opt_noMoveStart := Some True\<rparr>) [] demoCamera)))
       = [''zoomstart'']
   \<and> map etype (fired (started (renderFrameCallback flat quiet 500
         (started (easeTo flat quiet 0
            (noOptions\<lparr>opt_zoom := Some 6, opt_noMoveStart := Some True\<rparr>) [] demoCamera)))))
       = [''zoomstart'', ''move'', ''zoom'', ''zoomend'', ''moveend'']
   \<and> immediate (noOptions\<lparr>opt_zoom := Some 6, opt_duration := Some 0, opt_noMoveStart := Some True\<rparr>)
   \<and> map etype (fired (started (easeTo flat quiet 0
         (noOptions\<lparr>opt_zoom := Some 6, opt_duration := Some 0, opt_noMoveStart := Some True\<rparr>)
         [] demoCamera)))
       = [''zoomstart'', ''move'', ''zoom'', ''zoomend'', ''moveend'']"
proof -
  let ?o = "noOptions\<lparr>opt_zoom := Some 6, opt_noMoveStart := Some True\<rparr>"
  let ?i = "noOptions\<lparr>opt_zoom := Some 6, opt_duration := Some 0, opt_noMoveStart := Some True\<rparr>"
  note t1 = easeTo_noMoveStart [of ?o flat 0 "[]" demoCamera 500]
  note t2 = easeTo_noMoveStart [of ?i flat 0 "[]" demoCamera 500]
  have o: "opt_noMoveStart ?o = Some True" "\<not> immediate ?o" "\<not> truthy (opt_delayEndEvents ?o)"
    "opt_duration ?o = None"
    "opt_noMoveStart ?i = Some True" "immediate ?i" "\<not> truthy (opt_delayEndEvents ?i)"
    by (simp_all add: noOptions_def immediate_def truthy_def)
  have c: "stop quiet demoCamera = demoCamera"
    by (rule stop_idle) (simp_all add: demoCamera_def isEasing_def)
  have f0: "fired demoCamera = []" by (simp add: demoCamera_def)
  obtain s1 s2 where s: "easeTo flat quiet 0 ?o [] demoCamera = Inr s1"
    "fired s1 = fired (stop quiet demoCamera)
             @ axisEvents ''start'' [] (zoomChanges ?o demoCamera) (bearingChanges ?o demoCamera)
                 (pitchChanges ?o demoCamera)
             @ (if immediate ?o
                then easeMoves ?o [] demoCamera
                     @ (if truthy (opt_delayEndEvents ?o) then [] else easeEnds ?o [] demoCamera)
                else [])"
    "renderFrameCallback flat quiet 500 s1 = Inr s2"
    "fired s2 = fired s1 @ easeMoves ?o [] demoCamera
                     @ (if (500 - 0) / orCurrent (opt_duration ?o) 500 < 1
                           \<or> truthy (opt_delayEndEvents ?o)
                        then [] else easeEnds ?o [] demoCamera)"
    using t1 o(1,2) flat_positiveScale by blast
  obtain s3 where s3: "easeTo flat quiet 0 ?i [] demoCamera = Inr s3"
    "fired s3 = fired (stop quiet demoCamera)
             @ axisEvents ''start'' [] (zoomChanges ?i demoCamera) (bearingChanges ?i demoCamera)
                 (pitchChanges ?i demoCamera)
             @ (if immediate ?i
                then easeMoves ?i [] demoCamera
                     @ (if truthy (opt_delayEndEvents ?i) then [] else easeEnds ?i [] demoCamera)
                else [])"
    using t2 o(5) by blast
  have a: "map etype (fired s1) = [''zoomstart'']"
    unfolding s(2) c f0 using o(2) by (simp add: demo_noMoveStart(1,2,3) axisEvents_def Event_def)
  have b: "map etype (fired s2) = [''zoomstart'', ''move'', ''zoom'', ''zoomend'', ''moveend'']"
    unfolding s(4) using a o(3,4)
    by (simp add: demo_noMoveStart(1,2,3) easeMoves_def easeEnds_def axisEvents_def Event_def
          orCurrent_def)
  have d: "map etype (fired s3) = [''zoomstart'', ''move'', ''zoom'', ''zoomend'', ''moveend'']"
    unfolding s3(2) c f0 using o(6,7)
    by (simp add: demo_noMoveStart(4,5,6) easeMoves_def easeEnds_def axisEvents_def Event_def)
  show ?thesis
    using a b d o flat_positiveScale by (simp add: s(1,3) s3(1) started_def)
qed


subsection \<open>Fitting bounds\<close>

lemma sorted_paddingKeys: "sorted paddingKeys" "distinct paddingKeys"
  "set paddingKeys = {''bottom'', ''left'', ''right'', ''top''}"
  by (simp_all add: paddingKeys_def less_char_def less_eq_char_def)

lemma sort_paddingKeys:
  "(sort ks = paddingKeys) = (distinct ks \<and> set ks = {''bottom'', ''left'', ''right'', ''top''})"
proof
  assume a: "sort ks = paddingKeys"
  have "distinct (sort ks)" "set (sort ks) = {''bottom'', ''left'', ''right'', ''top''}"
    unfolding a by (simp_all add: sorted_paddingKeys)
  then show "distinct ks \<and> set ks = {''bottom'', ''left'', ''right'', ''top''}" by simp
next
  assume a: "distinct ks \<and> set ks = {''bottom'', ''left'', ''right'', ''top''}"
  have "sorted (sort ks)" "distinct (sort ks)" "set (sort ks) = set paddingKeys"
    using a by (simp_all add: sorted_paddingKeys)
  then show "sort ks = paddingKeys"
    using sorted_paddingKeys(1,2) sorted_distinct_set_unique by blast
qed

lemma cameraForBounds_padding:
  "paddingObject (the (opt_padding (extendOptions (cameraForBoundsDefaults tr) options)))
     = fitPadding options"
  "the (opt_offset ((extendOptions (cameraForBoundsDefaults tr) options)\<lparr>opt_padding := p\<rparr>))
     = orCurrent (opt_offset options) (Point 0 0)"
  by (simp_all add: fitPadding_def extendOptions_def cameraForBoundsDefaults_def noOptions_def
        orElse_def orCurrent_def split: option.splits)

lemma scaleFactors_tooSmall:
  "(case scaleFactors X bounds' tr (fitPadding options)
           (fitOffset (fitPadding options) (orCurrent (opt_offset options) (Point 0 0)))
    of (scaleX, scaleY) \<Rightarrow> js_lt scaleY (Fin 0) \<or> js_lt scaleX (Fin 0))
   = tooSmall X bounds' options tr"
  by (simp add: scaleFactors_def tooSmall_def scaleFactor_def Let_def mult.commute)

lemma cameraForBounds_cases:
  "malformed options \<Longrightarrow>
     cameraForBounds X bounds' options s = Inr (warnOnce paddingWarning s, None)"
  "\<not> malformed options \<Longrightarrow> tooSmall X bounds' options (transform s) \<Longrightarrow>
     cameraForBounds X bounds' options s = Inr (warnOnce fitWarning s, None)"
  "\<not> malformed options \<Longrightarrow> \<not> tooSmall X bounds' options (transform s) \<Longrightarrow>
     cameraForBounds X bounds' options s = Inl NonFinite
     \<or> (\<exists>r. cameraForBounds X bounds' options s = Inr (s, Some r))"
  unfolding cameraForBounds_def Let_def cameraForBounds_padding
    scaleFactors_tooSmall [symmetric] malformed_def sort_paddingKeys [symmetric]
  by (simp_all add: case_prod_beta split: jsnum.splits)

text \<open>
  C7. For every camera, all bounds and all options: when the padding is malformed or
  a scale factor is negative, \<^verbatim>\<open>cameraForBounds\<close> returns no options and leaves the
  camera as it was, the Transform and the events fired included, but for the warning
  given to \<^verbatim>\<open>warnOnce\<close>; \<^verbatim>\<open>fitBounds\<close> with the same arguments then returns that
  camera, whatever the listeners are. In every other case \<^verbatim>\<open>cameraForBounds\<close> returns
  options and the camera unchanged, or the scale it computes is not a positive finite
  number. The padding is malformed exactly when its sorted keys are not
  \<^verbatim>\<open>["bottom", "left", "right", "top"]\<close>.
\<close>

theorem cameraForBounds_failure:
  "(malformed options \<or> tooSmall X bounds' options (transform s) \<longrightarrow>
      (\<exists>s'. cameraForBounds X bounds' options s = Inr (s', None)
         \<and> s' = s\<lparr>warnings := warnings s
                      @ [if malformed options then paddingWarning else fitWarning]\<rparr>
         \<and> transform s' = transform s \<and> fired s' = fired s
         \<and> fitBounds X react now bounds' options eventData s = Inr s'))
   \<and> (\<not> malformed options \<and> \<not> tooSmall X bounds' options (transform s) \<longrightarrow>
        cameraForBounds X bounds' options s = Inl NonFinite
        \<or> (\<exists>r. cameraForBounds X bounds' options s = Inr (s, Some r)))
   \<and> malformed options
       = (sort (map fst (fitPadding options)) \<noteq> [''bottom'', ''left'', ''right'', ''top''])"
proof (intro conjI impI)
  assume a: "malformed options \<or> tooSmall X bounds' options (transform s)"
  let ?w = "if malformed options then paddingWarning else fitWarning"
  have c: "cameraForBounds X bounds' options s = Inr (warnOnce ?w s, None)"
    using a cameraForBounds_cases(1,2) [of options X bounds' s] by auto
  then have "fitBounds X react now bounds' options eventData s = Inr (warnOnce ?w s)"
    by (simp add: fitBounds_def)
  then show "\<exists>s'. cameraForBounds X bounds' options s = Inr (s', None)
         \<and> s' = s\<lparr>warnings := warnings s @ [?w]\<rparr>
         \<and> transform s' = transform s \<and> fired s' = fired s
         \<and> fitBounds X react now bounds' options eventData s = Inr s'"
    using c by (simp add: warnOnce_def)
next
  assume a: "\<not> malformed options \<and> \<not> tooSmall X bounds' options (transform s)"
  show "cameraForBounds X bounds' options s = Inl NonFinite
        \<or> (\<exists>r. cameraForBounds X bounds' options s = Inr (s, Some r))"
    using a cameraForBounds_cases(3) [of options X bounds' s] by blast
next
  show "malformed options
       = (sort (map fst (fitPadding options)) \<noteq> [''bottom'', ''left'', ''right'', ''top''])"
    using sort_paddingKeys [of "map fst (fitPadding options)"]
    by (simp add: malformed_def paddingKeys_def)
qed

lemma demo_fitPadding:
  "fitPadding (noOptions\<lparr>opt_padding := Some (PadObject [(''top'', 10), (''left'', 5)])\<rparr>)
     = [(''top'', 10), (''left'', 5)]"
  "fitPadding (noOptions\<lparr>opt_padding := Some (PadNumber 250)\<rparr>)
     = [(''top'', 250), (''bottom'', 250), (''right'', 250), (''left'', 250)]"
  "fitPadding noOptions = [(''top'', 0), (''bottom'', 0), (''right'', 0), (''left'', 0)]"
  by (simp_all add: fitPadding_def paddingObject_def orCurrent_def noOptions_def)

lemma demo_keys:
  "{''top'', ''left''} \<noteq> {''bottom'', ''left'', ''right'', ''top''}"
  "{''top'', ''bottom'', ''right'', ''left''} = {''bottom'', ''left'', ''right'', ''top''}"
proof -
  have "''bottom'' \<notin> {''top'', ''left''}" by simp
  moreover have "''bottom'' \<in> {''bottom'', ''left'', ''right'', ''top''}" by simp
  ultimately show "{''top'', ''left''} \<noteq> {''bottom'', ''left'', ''right'', ''top''}" by metis
  show "{''top'', ''bottom'', ''right'', ''left''} = {''bottom'', ''left'', ''right'', ''top''}"
    by (simp add: insert_commute)
qed

lemma demo_padding:
  "malformed (noOptions\<lparr>opt_padding := Some (PadObject [(''top'', 10), (''left'', 5)])\<rparr>)"
  "\<not> malformed (noOptions\<lparr>opt_padding := Some (PadNumber 250)\<rparr>)"
  "\<not> malformed noOptions"
  unfolding malformed_def demo_fitPadding
  using demo_keys by simp_all

lemma demo_tooSmall:
  "tooSmall screen demoBounds (noOptions\<lparr>opt_padding := Some (PadNumber 250)\<rparr>) demoTransform"
  "\<not> tooSmall screen demoBounds noOptions demoTransform"
  unfolding tooSmall_def demo_fitPadding
  by (simp_all add: scaleFactor_def orCurrent_def
        noOptions_def fitOffset_def Let_def padd_def psub_def screen_def flat_def demoBounds_def
        getNorthWest_def getSouthEast_def demoTransform_def)

lemma cameraForBounds_fits:
  assumes "\<not> malformed options" "\<not> tooSmall X bounds' options (transform s)"
    and "js_mul (Fin (scale X (transform s)))
           (js_min (fst (scaleFactors X bounds' (transform s) (fitPadding options)
                      (fitOffset (fitPadding options) (orCurrent (opt_offset options) (Point 0 0)))))
                   (snd (scaleFactors X bounds' (transform s) (fitPadding options)
                      (fitOffset (fitPadding options) (orCurrent (opt_offset options) (Point 0 0))))))
         = Fin a" "0 < a"
  shows "cameraForBounds X bounds' options s \<noteq> Inl NonFinite"
  using assms
  unfolding cameraForBounds_def Let_def cameraForBounds_padding
    scaleFactors_tooSmall [symmetric] malformed_def sort_paddingKeys [symmetric]
  by (simp add: case_prod_beta)

lemma demo_fits: "cameraForBounds screen demoBounds noOptions demoCamera \<noteq> Inl NonFinite"
proof (rule cameraForBounds_fits)
  show "\<not> malformed noOptions" by (rule demo_padding(3))
  show "\<not> tooSmall screen demoBounds noOptions (transform demoCamera)"
    using demo_tooSmall(2) by (simp add: demoCamera_def)
  show "js_mul (Fin (scale screen (transform demoCamera)))
           (js_min (fst (scaleFactors screen demoBounds (transform demoCamera) (fitPadding noOptions)
                      (fitOffset (fitPadding noOptions) (orCurrent (opt_offset noOptions) (Point 0 0)))))
                   (snd (scaleFactors screen demoBounds (transform demoCamera) (fitPadding noOptions)
                      (fitOffset (fitPadding noOptions) (orCurrent (opt_offset noOptions) (Point 0 0))))))
         = Fin (2 powr 4 * 20)"
    unfolding demo_fitPadding
    by (simp add: scaleFactors_def orCurrent_def noOptions_def fitOffset_def Let_def padd_def
          psub_def screen_def flat_def demoBounds_def getNorthWest_def getSouthEast_def
          demoCamera_def demoTransform_def js_min_def)
  show "(0::real) < 2 powr 4 * 20" by simp
qed

text \<open>
  The examples: a padding with two keys only; a padding of 250 pixels on a canvas of
  400 by 300; and no padding, where the bounds fit.
\<close>

theorem cameraForBounds_failure_witness:
  "malformed (noOptions\<lparr>opt_padding := Some (PadObject [(''top'', 10), (''left'', 5)])\<rparr>)
   \<and> cameraForBounds flat demoBounds
         (noOptions\<lparr>opt_padding := Some (PadObject [(''top'', 10), (''left'', 5)])\<rparr>) demoCamera
       = Inr (demoCamera\<lparr>warnings := [paddingWarning]\<rparr>, None)
   \<and> fitBounds flat restart 0 demoBounds
         (noOptions\<lparr>opt_padding := Some (PadObject [(''top'', 10), (''left'', 5)])\<rparr>) [] demoCamera
       = Inr (demoCamera\<lparr>warnings := [paddingWarning]\<rparr>)
   \<and> \<not> malformed (noOptions\<lparr>opt_padding := Some (PadNumber 250)\<rparr>)
   \<and> tooSmall screen demoBounds (noOptions\<lparr>opt_padding := Some (PadNumber 250)\<rparr>) demoTransform
   \<and> cameraForBounds screen demoBounds (noOptions\<lparr>opt_padding := Some (PadNumber 250)\<rparr>) demoCamera
       = Inr (demoCamera\<lparr>warnings := [fitWarning]\<rparr>, None)
   \<and> fitBounds screen restart 0 demoBounds (noOptions\<lparr>opt_padding := Some (PadNumber 250)\<rparr>) []
         demoCamera
       = Inr (demoCamera\<lparr>warnings := [fitWarning]\<rparr>)
   \<and> \<not> malformed noOptions \<and> \<not> tooSmall screen demoBounds noOptions demoTransform
   \<and> (\<exists>r. cameraForBounds screen demoBounds noOptions demoCamera = Inr (demoCamera, Some r))"
proof -
  let ?o1 = "noOptions\<lparr>opt_padding := Some (PadObject [(''top'', 10), (''left'', 5)])\<rparr>"
  let ?o2 = "noOptions\<lparr>opt_padding := Some (PadNumber 250)\<rparr>"
  note t1 = cameraForBounds_failure [of ?o1 flat demoBounds demoCamera restart 0 "[]"]
  note t2 = cameraForBounds_failure [of ?o2 screen demoBounds demoCamera restart 0 "[]"]
  note t3 = cameraForBounds_failure [of noOptions screen demoBounds demoCamera restart 0 "[]"]
  have d: "transform demoCamera = demoTransform" "warnings demoCamera = []"
    by (simp_all add: demoCamera_def)
  have a: "cameraForBounds flat demoBounds ?o1 demoCamera
             = Inr (demoCamera\<lparr>warnings := [paddingWarning]\<rparr>, None)
           \<and> fitBounds flat restart 0 demoBounds ?o1 [] demoCamera
             = Inr (demoCamera\<lparr>warnings := [paddingWarning]\<rparr>)"
    using t1 demo_padding(1) by (auto simp: d)
  have b: "cameraForBounds screen demoBounds ?o2 demoCamera
             = Inr (demoCamera\<lparr>warnings := [fitWarning]\<rparr>, None)
           \<and> fitBounds screen restart 0 demoBounds ?o2 [] demoCamera
             = Inr (demoCamera\<lparr>warnings := [fitWarning]\<rparr>)"
    using t2 demo_padding(2) demo_tooSmall(1) by (auto simp: d)
  have c: "\<exists>r. cameraForBounds screen demoBounds noOptions demoCamera = Inr (demoCamera, Some r)"
    using t3 demo_padding(3) demo_tooSmall(2) demo_fits by (auto simp: d)
  show ?thesis
    using a b c demo_padding demo_tooSmall by blast
qed


subsection \<open>The degenerate flights\<close>





lemma flyToOptions_fields [simp]:
  "opt_zoom (flyToOptions X o') = opt_zoom o'"
  "opt_bearing (flyToOptions X o') = opt_bearing o'"
  "opt_pitch (flyToOptions X o') = opt_pitch o'"
  "opt_center (flyToOptions X o') = opt_center o'"
  "opt_around (flyToOptions X o') = opt_around o'"
  "opt_noMoveStart (flyToOptions X o') = opt_noMoveStart o'"
  "opt_delayEndEvents (flyToOptions X o') = opt_delayEndEvents o'"
  "opt_animate (flyToOptions X o') = opt_animate o'"
  "opt_duration (flyToOptions X o') = opt_duration o'"
  "opt_minZoom (flyToOptions X o') = opt_minZoom o'"
  "opt_offset (flyToOptions X o') = Some (orCurrent (opt_offset o') (Point 0 0))"
  "opt_easing (flyToOptions X o') = Some (orCurrent (opt_easing o') (defaultEasing X))"
  "opt_curve (flyToOptions X o') = Some (orCurrent (opt_curve o') (142 / 100))"
  by (simp_all add: flyToOptions_def extendOptions_def flyToDefaults_def noOptions_def orElse_def
        orCurrent_def split: option.splits)

lemma immediate_flyToOptions [simp]: "immediate (flyToOptions X o') = immediate o'"
  by (simp add: immediate_def)




lemma normalizeCenter_center [simp]: "normalizeCenter tr (center tr) = center tr"
  by (simp add: normalizeCenter_def Let_def)

lemma padd_zero [simp]: "padd p (Point 0 0) = p"
  by (simp add: padd_def)












end
